theory Spec2Isabelle
  imports Main
begin

section \<open>Data model of \<open>pkg/webhook/patch.go\<close>\<close>

text \<open>
  Go strings are byte sequences: \<open>len\<close> counts bytes and \<open>s[0:n]\<close> cuts bytes. A HOL
  \<open>string\<close> is a list of 8-bit characters, so \<open>length\<close> and \<open>take\<close> are the same
  operations. Pointers that may be \<open>nil\<close> are options; slices are lists (a \<open>nil\<close> slice is
  the empty list, as \<open>len\<close> and \<open>range\<close> see it).
\<close>

record ownerReference =
  or_APIVersion :: string
  or_Kind :: string
  or_Name :: string
  or_UID :: string
  or_Controller :: "bool option"

datatype volumeSource =
  ConfigMapVolumeSource string
| OtherVolumeSource string

record volume =
  vol_Name :: string
  vol_VolumeSource :: volumeSource

record volumeMount =
  vm_Name :: string
  vm_ReadOnly :: bool
  vm_MountPath :: string

record envVar =
  env_Name :: string
  env_Value :: string

record toleration =
  tol_Key :: string
  tol_Operator :: string
  tol_Value :: string
  tol_Effect :: string

datatype affinity = Affinity string

datatype podSecurityContext = PodSecurityContext string

record container =
  c_Name :: string
  c_Env :: "envVar list"
  c_VolumeMounts :: "volumeMount list"

record objectMeta =
  om_Name :: string
  om_UID :: string
  om_Labels :: "string \<rightharpoonup> string"
  om_OwnerReferences :: "ownerReference list"

record podSpec =
  ps_Volumes :: "volume list"
  ps_Containers :: "container list"
  ps_Affinity :: "affinity option"
  ps_SecurityContext :: "podSecurityContext option"
  ps_Tolerations :: "toleration list"

record pod =
  pod_ObjectMeta :: objectMeta
  pod_Spec :: podSpec

record namePath =
  np_Name :: string
  np_Path :: string

text \<open>\<open>SparkPodSpec\<close>, embedded in both \<open>DriverSpec\<close> and \<open>ExecutorSpec\<close>; the field name
  \<open>SecurityContenxt\<close> is the source's spelling.\<close>

record sparkPodSpec =
  sps_ConfigMaps :: "namePath list"
  sps_VolumeMounts :: "volumeMount list"
  sps_Affinity :: "affinity option"
  sps_Tolerations :: "toleration list"
  sps_SecurityContenxt :: "podSecurityContext option"

record sparkApplicationSpec =
  sas_Volumes :: "volume list"
  sas_SparkConfigMap :: "string option"
  sas_HadoopConfigMap :: "string option"
  sas_Driver :: sparkPodSpec
  sas_Executor :: sparkPodSpec

record sparkApplication =
  app_ObjectMeta :: objectMeta
  app_Spec :: sparkApplicationSpec

text \<open>
  The packages \<open>pkg/util\<close> and \<open>pkg/config\<close> are imported by \<open>patch.go\<close> but are not part
  of the file: the role classifiers, the owner-reference constructor and the config-map
  constants are parameters of the model, and every theorem holds for all of them.
\<close>

record externals =
  IsDriverPod :: "pod \<Rightarrow> bool"
  IsExecutorPod :: "pod \<Rightarrow> bool"
  GetOwnerReference :: "sparkApplication \<Rightarrow> ownerReference"
  SparkConfigMapVolumeName :: string
  DefaultSparkConfDir :: string
  SparkConfDirEnvVar :: string
  HadoopConfigMapVolumeName :: string
  DefaultHadoopConfDir :: string
  HadoopConfDirEnvVar :: string

definition sparkDriverContainerName :: string where
  "sparkDriverContainerName = ''spark-kubernetes-driver''"

definition sparkExecutorContainerName :: string where
  "sparkExecutorContainerName = ''executor''"

definition maxNameLength :: nat where
  "maxNameLength = 63"

text \<open>The \<open>interface{}\<close> field \<open>Value\<close> holds one of the payloads the file stores in it.\<close>

datatype patchValue =
  OwnerReferenceValue ownerReference
| OwnerReferenceArray "ownerReference list"
| VolumeValue volume
| VolumeArray "volume list"
| VolumeMountValue volumeMount
| VolumeMountArray "volumeMount list"
| EnvVarValue envVar
| EnvVarArray "envVar list"
| TolerationValue toleration
| TolerationArray "toleration list"
| AffinityValue affinity
| SecurityContextValue podSecurityContext

record patchOperation =
  Op :: string
  Path :: string
  Value :: patchValue

text \<open>A Go run-time panic: indexing a slice of length \<open>n\<close> at \<open>i \<ge> n\<close>.\<close>

datatype panic = IndexOutOfRange nat nat

section \<open>Formatting an index with \<open>%d\<close>\<close>

definition digit :: "nat \<Rightarrow> char" where
  "digit n = ''0123456789'' ! n"

fun sprintf_d :: "nat \<Rightarrow> string" where
  "sprintf_d n = (if n < 10 then [digit n] else sprintf_d (n div 10) @ [digit (n mod 10)])"

declare sprintf_d.simps [simp del]

section \<open>Single-element patch builders\<close>

definition addOwnerReference :: "externals \<Rightarrow> pod \<Rightarrow> sparkApplication \<Rightarrow> patchOperation" where
  "addOwnerReference ext pod app =
     (let ownerReference = GetOwnerReference ext app;
          path = ''/metadata/ownerReferences''
      in if length (om_OwnerReferences (pod_ObjectMeta pod)) = 0
         then \<lparr>Op = ''add'', Path = path, Value = OwnerReferenceArray [ownerReference]\<rparr>
         else \<lparr>Op = ''add'', Path = path @ ''/-'', Value = OwnerReferenceValue ownerReference\<rparr>)"

definition addVolume :: "pod \<Rightarrow> volume \<Rightarrow> patchOperation" where
  "addVolume pod volume =
     (let path = ''/spec/volumes''
      in if length (ps_Volumes (pod_Spec pod)) = 0
         then \<lparr>Op = ''add'', Path = path, Value = VolumeArray [volume]\<rparr>
         else \<lparr>Op = ''add'', Path = path @ ''/-'', Value = VolumeValue volume\<rparr>)"

text \<open>
  The scan shared by \<open>addVolumeMount\<close> and \<open>addEnvironmentVariable\<close>:
  \<open>for ; i < len(pod.Spec.Containers); i++ { if ... { break } }\<close>. It returns the index
  of the first container with one of the two names, or the length when there is none.
\<close>

function findContainer :: "container list \<Rightarrow> nat \<Rightarrow> nat" where
  "findContainer cs i =
     (if i < length cs
      then (if c_Name (cs ! i) = sparkDriverContainerName \<or>
               c_Name (cs ! i) = sparkExecutorContainerName
            then i
            else findContainer cs (i + 1))
      else i)"
  by pat_completeness auto
termination
  by (relation "measure (\<lambda>(cs, i). length cs - i)") auto

declare findContainer.simps [simp del]

text \<open>
  After the scan both functions index \<open>pod.Spec.Containers[i]\<close> unconditionally; with
  \<open>i = len\<close> the Go run time panics.
\<close>

definition addVolumeMount :: "pod \<Rightarrow> volumeMount \<Rightarrow> panic + patchOperation" where
  "addVolumeMount pod mount =
     (let cs = ps_Containers (pod_Spec pod);
          i = findContainer cs 0;
          path = ''/spec/containers/'' @ sprintf_d i @ ''/volumeMounts''
      in if i < length cs
         then (if length (c_VolumeMounts (cs ! i)) = 0
               then Inr \<lparr>Op = ''add'', Path = path, Value = VolumeMountArray [mount]\<rparr>
               else Inr \<lparr>Op = ''add'', Path = path @ ''/-'', Value = VolumeMountValue mount\<rparr>)
         else Inl (IndexOutOfRange i (length cs)))"

definition addEnvironmentVariable :: "pod \<Rightarrow> string \<Rightarrow> string \<Rightarrow> panic + patchOperation" where
  "addEnvironmentVariable pod envName envValue =
     (let cs = ps_Containers (pod_Spec pod);
          i = findContainer cs 0;
          path = ''/spec/containers/'' @ sprintf_d i @ ''/env''
      in if i < length cs
         then (if length (c_Env (cs ! i)) = 0
               then Inr \<lparr>Op = ''add'', Path = path,
                         Value = EnvVarArray [\<lparr>env_Name = envName, env_Value = envValue\<rparr>]\<rparr>
               else Inr \<lparr>Op = ''add'', Path = path @ ''/-'',
                         Value = EnvVarValue \<lparr>env_Name = envName, env_Value = envValue\<rparr>\<rparr>)
         else Inl (IndexOutOfRange i (length cs)))"

definition addToleration :: "pod \<Rightarrow> toleration \<Rightarrow> patchOperation" where
  "addToleration pod toleration =
     (let path = ''/spec/tolerations''
      in if length (ps_Tolerations (pod_Spec pod)) = 0
         then \<lparr>Op = ''add'', Path = path, Value = TolerationArray [toleration]\<rparr>
         else \<lparr>Op = ''add'', Path = path @ ''/-'', Value = TolerationValue toleration\<rparr>)"

section \<open>Patchers\<close>

text \<open>
  \<open>addVolumes\<close>: the Go map \<open>volumeMap\<close> is filled in declaration order, a later volume of
  the same name replacing an earlier one; the loop over the role's mounts appends a volume
  operation and then a mount operation for every mount whose name is a key of the map.
\<close>

definition volumeMapOf :: "volume list \<Rightarrow> (string \<rightharpoonup> volume)" where
  "volumeMapOf volumes = fold (\<lambda>v volumeMap. volumeMap(vol_Name v \<mapsto> v)) volumes Map.empty"

fun addVolumes_loop ::
  "pod \<Rightarrow> (string \<rightharpoonup> volume) \<Rightarrow> volumeMount list \<Rightarrow> patchOperation list
     \<Rightarrow> panic + patchOperation list" where
  "addVolumes_loop pod volumeMap [] ops = Inr ops"
| "addVolumes_loop pod volumeMap (m # ms) ops =
     (case volumeMap (vm_Name m) of
        None \<Rightarrow> addVolumes_loop pod volumeMap ms ops
      | Some v \<Rightarrow>
          (case addVolumeMount pod m of
             Inl e \<Rightarrow> Inl e
           | Inr mountOp \<Rightarrow>
               addVolumes_loop pod volumeMap ms (ops @ [addVolume pod v] @ [mountOp])))"

definition addVolumes :: "externals \<Rightarrow> pod \<Rightarrow> sparkApplication \<Rightarrow> panic + patchOperation list" where
  "addVolumes ext pod app =
     (let volumeMap = volumeMapOf (sas_Volumes (app_Spec app));
          volumeMounts =
            (if IsDriverPod ext pod then sps_VolumeMounts (sas_Driver (app_Spec app))
             else if IsExecutorPod ext pod then sps_VolumeMounts (sas_Executor (app_Spec app))
             else [])
      in addVolumes_loop pod volumeMap volumeMounts [])"

definition addConfigMapVolume :: "pod \<Rightarrow> string \<Rightarrow> string \<Rightarrow> patchOperation" where
  "addConfigMapVolume pod configMapName configMapVolumeName =
     addVolume pod \<lparr>vol_Name = configMapVolumeName,
                    vol_VolumeSource = ConfigMapVolumeSource configMapName\<rparr>"

definition addConfigMapVolumeMount :: "pod \<Rightarrow> string \<Rightarrow> string \<Rightarrow> panic + patchOperation" where
  "addConfigMapVolumeMount pod configMapVolumeName mountPath =
     addVolumeMount pod \<lparr>vm_Name = configMapVolumeName, vm_ReadOnly = True,
                         vm_MountPath = mountPath\<rparr>"

definition addSparkConfigMap ::
  "externals \<Rightarrow> pod \<Rightarrow> sparkApplication \<Rightarrow> panic + patchOperation list" where
  "addSparkConfigMap ext pod app =
     (case sas_SparkConfigMap (app_Spec app) of
        None \<Rightarrow> Inr []
      | Some sparkConfigMapName \<Rightarrow>
          (let volumeOp = addConfigMapVolume pod sparkConfigMapName (SparkConfigMapVolumeName ext)
           in case addConfigMapVolumeMount pod (SparkConfigMapVolumeName ext)
                     (DefaultSparkConfDir ext) of
                Inl e \<Rightarrow> Inl e
              | Inr mountOp \<Rightarrow>
                  (case addEnvironmentVariable pod (SparkConfDirEnvVar ext)
                          (DefaultSparkConfDir ext) of
                     Inl e \<Rightarrow> Inl e
                   | Inr envOp \<Rightarrow> Inr [volumeOp, mountOp, envOp])))"

definition addHadoopConfigMap ::
  "externals \<Rightarrow> pod \<Rightarrow> sparkApplication \<Rightarrow> panic + patchOperation list" where
  "addHadoopConfigMap ext pod app =
     (case sas_HadoopConfigMap (app_Spec app) of
        None \<Rightarrow> Inr []
      | Some hadoopConfigMapName \<Rightarrow>
          (let volumeOp = addConfigMapVolume pod hadoopConfigMapName
                            (HadoopConfigMapVolumeName ext)
           in case addConfigMapVolumeMount pod (HadoopConfigMapVolumeName ext)
                     (DefaultHadoopConfDir ext) of
                Inl e \<Rightarrow> Inl e
              | Inr mountOp \<Rightarrow>
                  (case addEnvironmentVariable pod (HadoopConfDirEnvVar ext)
                          (DefaultHadoopConfDir ext) of
                     Inl e \<Rightarrow> Inl e
                   | Inr envOp \<Rightarrow> Inr [volumeOp, mountOp, envOp])))"

text \<open>The volume name of a general config map: \<open>name + "-vol"\<close>, cut to \<open>maxNameLength\<close>
  bytes when longer (lines 203 to 207).\<close>

definition configMapVolumeName :: "string \<Rightarrow> string" where
  "configMapVolumeName name =
     (let volumeName = name @ ''-vol''
      in if length volumeName > maxNameLength then take maxNameLength volumeName
         else volumeName)"

fun addGeneralConfigMaps_loop ::
  "pod \<Rightarrow> namePath list \<Rightarrow> patchOperation list \<Rightarrow> panic + patchOperation list" where
  "addGeneralConfigMaps_loop pod [] patchOps = Inr patchOps"
| "addGeneralConfigMaps_loop pod (namePath # rest) patchOps =
     (let volumeName = configMapVolumeName (np_Name namePath)
      in case addConfigMapVolumeMount pod volumeName (np_Path namePath) of
           Inl e \<Rightarrow> Inl e
         | Inr mountOp \<Rightarrow>
             addGeneralConfigMaps_loop pod rest
               (patchOps @ [addConfigMapVolume pod (np_Name namePath) volumeName] @ [mountOp]))"

definition addGeneralConfigMaps ::
  "externals \<Rightarrow> pod \<Rightarrow> sparkApplication \<Rightarrow> panic + patchOperation list" where
  "addGeneralConfigMaps ext pod app =
     (let configMaps =
            (if IsDriverPod ext pod then sps_ConfigMaps (sas_Driver (app_Spec app))
             else if IsExecutorPod ext pod then sps_ConfigMaps (sas_Executor (app_Spec app))
             else [])
      in addGeneralConfigMaps_loop pod configMaps [])"

definition addAffinity :: "externals \<Rightarrow> pod \<Rightarrow> sparkApplication \<Rightarrow> patchOperation option" where
  "addAffinity ext pod app =
     (let affinity =
            (if IsDriverPod ext pod then sps_Affinity (sas_Driver (app_Spec app))
             else if IsExecutorPod ext pod then sps_Affinity (sas_Executor (app_Spec app))
             else None)
      in case affinity of
           None \<Rightarrow> None
         | Some a \<Rightarrow> Some \<lparr>Op = ''add'', Path = ''/spec/affinity'', Value = AffinityValue a\<rparr>)"

fun addTolerations_loop :: "pod \<Rightarrow> toleration list \<Rightarrow> patchOperation list \<Rightarrow> patchOperation list" where
  "addTolerations_loop pod [] ops = ops"
| "addTolerations_loop pod (v # vs) ops = addTolerations_loop pod vs (ops @ [addToleration pod v])"

definition addTolerations :: "externals \<Rightarrow> pod \<Rightarrow> sparkApplication \<Rightarrow> patchOperation list" where
  "addTolerations ext pod app =
     (let tolerations =
            (if IsDriverPod ext pod then sps_Tolerations (sas_Driver (app_Spec app))
             else if IsExecutorPod ext pod then sps_Tolerations (sas_Executor (app_Spec app))
             else [])
      in addTolerations_loop pod tolerations [])"

definition addSecurityContext ::
  "externals \<Rightarrow> pod \<Rightarrow> sparkApplication \<Rightarrow> patchOperation option" where
  "addSecurityContext ext pod app =
     (let secContext =
            (if IsDriverPod ext pod then sps_SecurityContenxt (sas_Driver (app_Spec app))
             else if IsExecutorPod ext pod then sps_SecurityContenxt (sas_Executor (app_Spec app))
             else None)
      in case secContext of
           None \<Rightarrow> None
         | Some sc \<Rightarrow>
             Some \<lparr>Op = ''add'', Path = ''/spec/securityContext'',
                   Value = SecurityContextValue sc\<rparr>)"

section \<open>The assembler\<close>

definition patchSparkPod ::
  "externals \<Rightarrow> pod \<Rightarrow> sparkApplication \<Rightarrow> panic + patchOperation list" where
  "patchSparkPod ext pod app =
     (let ownerOps = (if IsDriverPod ext pod then [addOwnerReference ext pod app] else [])
      in case addVolumes ext pod app of
           Inl e \<Rightarrow> Inl e
         | Inr volumeOps \<Rightarrow>
        (case addGeneralConfigMaps ext pod app of
           Inl e \<Rightarrow> Inl e
         | Inr generalOps \<Rightarrow>
        (case addSparkConfigMap ext pod app of
           Inl e \<Rightarrow> Inl e
         | Inr sparkOps \<Rightarrow>
        (case addHadoopConfigMap ext pod app of
           Inl e \<Rightarrow> Inl e
         | Inr hadoopOps \<Rightarrow>
             (let patchOps = ownerOps @ volumeOps @ generalOps @ sparkOps @ hadoopOps
                               @ addTolerations ext pod app;
                  patchOps1 =
                    (if ps_Affinity (pod_Spec pod) = None
                     then (case addAffinity ext pod app of
                             None \<Rightarrow> patchOps
                           | Some op \<Rightarrow> patchOps @ [op])
                     else patchOps);
                  patchOps2 =
                    (if ps_SecurityContext (pod_Spec pod) = None
                     then (case addSecurityContext ext pod app of
                             None \<Rightarrow> patchOps1
                           | Some op \<Rightarrow> patchOps1 @ [op])
                     else patchOps1)
              in Inr patchOps2)))))"

section \<open>Predicates of the statements\<close>

definition isSparkContainer :: "container \<Rightarrow> bool" where
  "isSparkContainer c =
     (c_Name c = sparkDriverContainerName \<or> c_Name c = sparkExecutorContainerName)"

definition hasSparkContainer :: "pod \<Rightarrow> bool" where
  "hasSparkContainer pod = list_ex isSparkContainer (ps_Containers (pod_Spec pod))"

definition isOwnerReferenceOp :: "patchOperation \<Rightarrow> bool" where
  "isOwnerReferenceOp op =
     (Path op = ''/metadata/ownerReferences'' \<or> Path op = ''/metadata/ownerReferences/-'')"

definition isAffinityOp :: "patchOperation \<Rightarrow> bool" where
  "isAffinityOp op = (Path op = ''/spec/affinity'')"

definition isSecurityContextOp :: "patchOperation \<Rightarrow> bool" where
  "isSecurityContextOp op = (Path op = ''/spec/securityContext'')"

text \<open>The role's part of the descriptor, with the source's precedence: driver first, then
  executor, otherwise none.\<close>

definition roleSpec :: "externals \<Rightarrow> pod \<Rightarrow> sparkApplication \<Rightarrow> sparkPodSpec option" where
  "roleSpec ext pod app =
     (if IsDriverPod ext pod then Some (sas_Driver (app_Spec app))
      else if IsExecutorPod ext pod then Some (sas_Executor (app_Spec app))
      else None)"

definition isSpecArrayOp :: "patchOperation \<Rightarrow> bool" where
  "isSpecArrayOp op =
     (take 13 (Path op) = ''/spec/volumes'' \<or>
      take 17 (Path op) = ''/spec/containers/'' \<or>
      take 17 (Path op) = ''/spec/tolerations'')"

text \<open>A \<open>*patchOperation\<close> result read as the operations it contributes: none for \<open>nil\<close>.\<close>

fun emitted :: "patchOperation option \<Rightarrow> patchOperation list" where
  "emitted None = []"
| "emitted (Some op) = [op]"

section \<open>The pod behind the pointer\<close>

text \<open>
  Every function of the file receives \<open>pod *corev1.Pod\<close>, a pointer through which it could
  write, and passes it on to its callees and to \<open>util.IsDriverPod\<close> and
  \<open>util.IsExecutorPod\<close>. To state what a call leaves behind, the functions are transcribed
  statement by statement over a frame: the object the pointer addresses, and the function's
  local variables. A statement takes a frame to the next frame or panics; \<open>setVars\<close> is an
  assignment to locals (its right-hand side may read the pod), \<open>setHeap\<close> an assignment
  through the pointer, \<open>call\<close> runs a callee on the current object and continues with the
  object the callee leaves. A local that is initialised where it is declared and never
  assigned again is bound by \<open>let\<close>; every other local is a field of the frame, with Go's
  zero value until its first assignment (\<open>value\<close> is \<open>nil\<close>, here \<open>None\<close>, until one of
  the two branches assigns it, and the returned operation reads it after that). No local
  of the file holds a slice, map or pointer taken from the pod, so locals and pod share no
  memory.
\<close>

record 'v frame =
  heap_pod :: pod
  vars :: 'v

datatype 'v outcome = Normal "'v frame" | Panicked panic pod

type_synonym 'v stmt = "'v frame \<Rightarrow> 'v outcome"

type_synonym 'a podProc = "pod \<Rightarrow> (panic + 'a) \<times> pod"

definition setVars :: "(pod \<Rightarrow> 'v \<Rightarrow> 'v) \<Rightarrow> 'v stmt" where
  "setVars f s = Normal (s\<lparr>vars := f (heap_pod s) (vars s)\<rparr>)"

definition setHeap :: "(pod \<Rightarrow> 'v \<Rightarrow> pod) \<Rightarrow> 'v stmt" where
  "setHeap g s = Normal (s\<lparr>heap_pod := g (heap_pod s) (vars s)\<rparr>)"

fun block :: "'v stmt list \<Rightarrow> 'v stmt" where
  "block [] s = Normal s"
| "block (st # sts) s =
     (case st s of Normal s' \<Rightarrow> block sts s' | Panicked e h \<Rightarrow> Panicked e h)"

definition ifThenElse :: "(pod \<Rightarrow> 'v \<Rightarrow> bool) \<Rightarrow> 'v stmt \<Rightarrow> 'v stmt \<Rightarrow> 'v stmt" where
  "ifThenElse c a b s = (if c (heap_pod s) (vars s) then a s else b s)"

text \<open>The condition is a call of a procedure that receives the pointer.\<close>

definition ifCall :: "(pod \<Rightarrow> bool \<times> pod) \<Rightarrow> 'v stmt \<Rightarrow> 'v stmt \<Rightarrow> 'v stmt" where
  "ifCall c a b s =
     (case c (heap_pod s) of
        (r, h) \<Rightarrow> if r then a (s\<lparr>heap_pod := h\<rparr>) else b (s\<lparr>heap_pod := h\<rparr>))"

text \<open>The run-time check of an index expression \<open>xs[i]\<close>.\<close>

definition boundsCheck :: "(pod \<Rightarrow> 'v \<Rightarrow> nat) \<Rightarrow> (pod \<Rightarrow> 'v \<Rightarrow> nat) \<Rightarrow> 'v stmt" where
  "boundsCheck i n s =
     (if i (heap_pod s) (vars s) < n (heap_pod s) (vars s) then Normal s
      else Panicked (IndexOutOfRange (i (heap_pod s) (vars s)) (n (heap_pod s) (vars s)))
             (heap_pod s))"

definition call :: "('v \<Rightarrow> 'a podProc) \<Rightarrow> ('a \<Rightarrow> 'v \<Rightarrow> 'v) \<Rightarrow> 'v stmt" where
  "call p bind s =
     (case p (vars s) (heap_pod s) of
        (Inl e, h) \<Rightarrow> Panicked e h
      | (Inr x, h) \<Rightarrow> Normal \<lparr>heap_pod = h, vars = bind x (vars s)\<rparr>)"

fun forEach :: "'a list \<Rightarrow> ('a \<Rightarrow> 'v stmt) \<Rightarrow> 'v stmt" where
  "forEach [] body s = Normal s"
| "forEach (x # xs) body s =
     (case body x s of Normal s' \<Rightarrow> forEach xs body s' | Panicked e h \<Rightarrow> Panicked e h)"

text \<open>\<open>for _, x := range xs\<close> over a local slice: the range expression is evaluated once.\<close>

definition rangeOver :: "('v \<Rightarrow> 'a list) \<Rightarrow> ('a \<Rightarrow> 'v stmt) \<Rightarrow> 'v stmt" where
  "rangeOver xs body s = forEach (xs (vars s)) body s"

text \<open>A function: its locals at entry, its body, and the expression it returns.\<close>

definition proc :: "'v \<Rightarrow> 'v stmt \<Rightarrow> ('v \<Rightarrow> 'a) \<Rightarrow> 'a podProc" where
  "proc init body ret h =
     (case body \<lparr>heap_pod = h, vars = init\<rparr> of
        Normal s \<Rightarrow> (Inr (ret (vars s)), heap_pod s)
      | Panicked e h' \<Rightarrow> (Inl e, h'))"

text \<open>\<open>util.IsDriverPod\<close> and \<open>util.IsExecutorPod\<close> as procedures that receive the pointer:
  each returns its answer and the pod as it leaves it.\<close>

record classifiers =
  IsDriverPod_proc :: "pod \<Rightarrow> bool \<times> pod"
  IsExecutorPod_proc :: "pod \<Rightarrow> bool \<times> pod"

record builderVars =
  b_path :: string
  b_value :: "patchValue option"

record containerVars = builderVars +
  b_i :: nat

record opsVars =
  o_ops :: "patchOperation list"

record volumesVars = opsVars +
  o_volumeMap :: "string \<rightharpoonup> volume"
  o_volumeMounts :: "volumeMount list"

record configMapsVars = opsVars +
  o_configMaps :: "namePath list"
  o_volumeName :: string

record tolerationsVars = opsVars +
  o_tolerations :: "toleration list"

record affinityVars =
  a_affinity :: "affinity option"

record securityContextVars =
  a_secContext :: "podSecurityContext option"

record assemblerVars = opsVars +
  o_op :: "patchOperation option"

definition addOwnerReference_exec ::
  "externals \<Rightarrow> sparkApplication \<Rightarrow> patchOperation podProc" where
  "addOwnerReference_exec ext app =
     (let ownerReference = GetOwnerReference ext app
      in proc \<lparr>b_path = ''/metadata/ownerReferences'', b_value = None\<rparr>
           (ifThenElse (\<lambda>pod v. length (om_OwnerReferences (pod_ObjectMeta pod)) = 0)
              (setVars (\<lambda>pod v. v\<lparr>b_value := Some (OwnerReferenceArray [ownerReference])\<rparr>))
              (block
                 [setVars (\<lambda>pod v. v\<lparr>b_path := b_path v @ ''/-''\<rparr>),
                  setVars (\<lambda>pod v. v\<lparr>b_value := Some (OwnerReferenceValue ownerReference)\<rparr>)]))
           (\<lambda>v. \<lparr>Op = ''add'', Path = b_path v, Value = the (b_value v)\<rparr>))"

definition addVolume_exec :: "volume \<Rightarrow> patchOperation podProc" where
  "addVolume_exec volume =
     proc \<lparr>b_path = ''/spec/volumes'', b_value = None\<rparr>
       (ifThenElse (\<lambda>pod v. length (ps_Volumes (pod_Spec pod)) = 0)
          (setVars (\<lambda>pod v. v\<lparr>b_value := Some (VolumeArray [volume])\<rparr>))
          (block
             [setVars (\<lambda>pod v. v\<lparr>b_path := b_path v @ ''/-''\<rparr>),
              setVars (\<lambda>pod v. v\<lparr>b_value := Some (VolumeValue volume)\<rparr>)]))
       (\<lambda>v. \<lparr>Op = ''add'', Path = b_path v, Value = the (b_value v)\<rparr>)"

text \<open>The scan \<open>for ; i < len(pod.Spec.Containers); i++ { if ... { break } }\<close>: the only
  assignment of the loop is \<open>i++\<close>.\<close>

function findContainer_scan :: "containerVars frame \<Rightarrow> containerVars frame" where
  "findContainer_scan s =
     (if b_i (vars s) < length (ps_Containers (pod_Spec (heap_pod s)))
      then (if c_Name (ps_Containers (pod_Spec (heap_pod s)) ! b_i (vars s))
                 = sparkDriverContainerName \<or>
               c_Name (ps_Containers (pod_Spec (heap_pod s)) ! b_i (vars s))
                 = sparkExecutorContainerName
            then s
            else findContainer_scan (s\<lparr>vars := (vars s)\<lparr>b_i := b_i (vars s) + 1\<rparr>\<rparr>))
      else s)"
  by pat_completeness auto
termination
  by (relation "measure (\<lambda>s. length (ps_Containers (pod_Spec (heap_pod s))) - b_i (vars s))")
    auto

declare findContainer_scan.simps [simp del]

definition addVolumeMount_exec :: "volumeMount \<Rightarrow> patchOperation podProc" where
  "addVolumeMount_exec mount =
     proc \<lparr>b_path = [], b_value = None, b_i = 0\<rparr>
       (block
          [(\<lambda>s. Normal (findContainer_scan s)),
           setVars (\<lambda>pod v.
             v\<lparr>b_path := ''/spec/containers/'' @ sprintf_d (b_i v) @ ''/volumeMounts''\<rparr>),
           boundsCheck (\<lambda>pod v. b_i v) (\<lambda>pod v. length (ps_Containers (pod_Spec pod))),
           ifThenElse
             (\<lambda>pod v. length (c_VolumeMounts (ps_Containers (pod_Spec pod) ! b_i v)) = 0)
             (setVars (\<lambda>pod v. v\<lparr>b_value := Some (VolumeMountArray [mount])\<rparr>))
             (block
                [setVars (\<lambda>pod v. v\<lparr>b_path := b_path v @ ''/-''\<rparr>),
                 setVars (\<lambda>pod v. v\<lparr>b_value := Some (VolumeMountValue mount)\<rparr>)])])
       (\<lambda>v. \<lparr>Op = ''add'', Path = b_path v, Value = the (b_value v)\<rparr>)"

definition addEnvironmentVariable_exec :: "string \<Rightarrow> string \<Rightarrow> patchOperation podProc" where
  "addEnvironmentVariable_exec envName envValue =
     proc \<lparr>b_path = [], b_value = None, b_i = 0\<rparr>
       (block
          [(\<lambda>s. Normal (findContainer_scan s)),
           setVars (\<lambda>pod v.
             v\<lparr>b_path := ''/spec/containers/'' @ sprintf_d (b_i v) @ ''/env''\<rparr>),
           boundsCheck (\<lambda>pod v. b_i v) (\<lambda>pod v. length (ps_Containers (pod_Spec pod))),
           ifThenElse
             (\<lambda>pod v. length (c_Env (ps_Containers (pod_Spec pod) ! b_i v)) = 0)
             (setVars (\<lambda>pod v.
                v\<lparr>b_value := Some (EnvVarArray
                                      [\<lparr>env_Name = envName, env_Value = envValue\<rparr>])\<rparr>))
             (block
                [setVars (\<lambda>pod v. v\<lparr>b_path := b_path v @ ''/-''\<rparr>),
                 setVars (\<lambda>pod v.
                   v\<lparr>b_value := Some (EnvVarValue
                                         \<lparr>env_Name = envName, env_Value = envValue\<rparr>)\<rparr>)])])
       (\<lambda>v. \<lparr>Op = ''add'', Path = b_path v, Value = the (b_value v)\<rparr>)"

definition addToleration_exec :: "toleration \<Rightarrow> patchOperation podProc" where
  "addToleration_exec toleration =
     proc \<lparr>b_path = ''/spec/tolerations'', b_value = None\<rparr>
       (ifThenElse (\<lambda>pod v. length (ps_Tolerations (pod_Spec pod)) = 0)
          (setVars (\<lambda>pod v. v\<lparr>b_value := Some (TolerationArray [toleration])\<rparr>))
          (block
             [setVars (\<lambda>pod v. v\<lparr>b_path := b_path v @ ''/-''\<rparr>),
              setVars (\<lambda>pod v. v\<lparr>b_value := Some (TolerationValue toleration)\<rparr>)]))
       (\<lambda>v. \<lparr>Op = ''add'', Path = b_path v, Value = the (b_value v)\<rparr>)"

text \<open>A call whose result is the returned value: \<open>return f(pod, x)\<close>.\<close>

definition addConfigMapVolume_exec :: "string \<Rightarrow> string \<Rightarrow> patchOperation podProc" where
  "addConfigMapVolume_exec configMapName volumeName =
     (let volume = \<lparr>vol_Name = volumeName,
                     vol_VolumeSource = ConfigMapVolumeSource configMapName\<rparr>
      in addVolume_exec volume)"

definition addConfigMapVolumeMount_exec :: "string \<Rightarrow> string \<Rightarrow> patchOperation podProc" where
  "addConfigMapVolumeMount_exec volumeName mountPath =
     (let mount = \<lparr>vm_Name = volumeName, vm_ReadOnly = True, vm_MountPath = mountPath\<rparr>
      in addVolumeMount_exec mount)"

definition appendOp :: "patchOperation \<Rightarrow> 'z opsVars_scheme \<Rightarrow> 'z opsVars_scheme" where
  "appendOp op v = v\<lparr>o_ops := o_ops v @ [op]\<rparr>"

definition appendOps :: "patchOperation list \<Rightarrow> 'z opsVars_scheme \<Rightarrow> 'z opsVars_scheme" where
  "appendOps ops v = v\<lparr>o_ops := o_ops v @ ops\<rparr>"

text \<open>The body of each loop of \<open>addVolumes\<close> (lines 90 to 92 and 102 to 107).\<close>

definition volumeMap_step :: "volume \<Rightarrow> volumesVars stmt" where
  "volumeMap_step v =
     setVars (\<lambda>pod vs. vs\<lparr>o_volumeMap := (o_volumeMap vs)(vol_Name v \<mapsto> v)\<rparr>)"

definition volumeMount_step :: "volumeMount \<Rightarrow> volumesVars stmt" where
  "volumeMount_step m =
     (\<lambda>s. case o_volumeMap (vars s) (vm_Name m) of
             None \<Rightarrow> Normal s
           | Some v \<Rightarrow>
               block [call (\<lambda>vs. addVolume_exec v) appendOp,
                      call (\<lambda>vs. addVolumeMount_exec m) appendOp] s)"

definition addVolumes_exec ::
  "classifiers \<Rightarrow> sparkApplication \<Rightarrow> patchOperation list podProc" where
  "addVolumes_exec cls app =
     (let volumes = sas_Volumes (app_Spec app)
      in proc \<lparr>o_ops = [], o_volumeMap = Map.empty, o_volumeMounts = []\<rparr>
           (block
              [forEach volumes volumeMap_step,
               ifCall (IsDriverPod_proc cls)
                 (setVars (\<lambda>pod vs.
                    vs\<lparr>o_volumeMounts := sps_VolumeMounts (sas_Driver (app_Spec app))\<rparr>))
                 (ifCall (IsExecutorPod_proc cls)
                    (setVars (\<lambda>pod vs.
                       vs\<lparr>o_volumeMounts := sps_VolumeMounts (sas_Executor (app_Spec app))\<rparr>))
                    (block [])),
               rangeOver o_volumeMounts volumeMount_step])
           o_ops)"

definition addSparkConfigMap_exec ::
  "externals \<Rightarrow> sparkApplication \<Rightarrow> patchOperation list podProc" where
  "addSparkConfigMap_exec ext app =
     (let sparkConfigMapName = sas_SparkConfigMap (app_Spec app)
      in proc \<lparr>o_ops = []\<rparr>
           (case sparkConfigMapName of
              None \<Rightarrow> block []
            | Some name \<Rightarrow>
                block
                       [call (\<lambda>vs. addConfigMapVolume_exec name (SparkConfigMapVolumeName ext))
                          appendOp,
                        call (\<lambda>vs. addConfigMapVolumeMount_exec (SparkConfigMapVolumeName ext)
                                      (DefaultSparkConfDir ext))
                          appendOp,
                        call (\<lambda>vs. addEnvironmentVariable_exec (SparkConfDirEnvVar ext)
                                      (DefaultSparkConfDir ext))
                          appendOp])
           o_ops)"

definition addHadoopConfigMap_exec ::
  "externals \<Rightarrow> sparkApplication \<Rightarrow> patchOperation list podProc" where
  "addHadoopConfigMap_exec ext app =
     (let hadoopConfigMapName = sas_HadoopConfigMap (app_Spec app)
      in proc \<lparr>o_ops = []\<rparr>
           (case hadoopConfigMapName of
              None \<Rightarrow> block []
            | Some name \<Rightarrow>
                block
                       [call (\<lambda>vs. addConfigMapVolume_exec name (HadoopConfigMapVolumeName ext))
                          appendOp,
                        call (\<lambda>vs. addConfigMapVolumeMount_exec (HadoopConfigMapVolumeName ext)
                                      (DefaultHadoopConfDir ext))
                          appendOp,
                        call (\<lambda>vs. addEnvironmentVariable_exec (HadoopConfDirEnvVar ext)
                                      (DefaultHadoopConfDir ext))
                          appendOp])
           o_ops)"

text \<open>The body of the loop of \<open>addGeneralConfigMaps\<close> (lines 203 to 209); the call of
  \<open>glog\<close> receives \<open>maxNameLength\<close> and \<open>volumeName\<close> only.\<close>

definition configMap_step :: "namePath \<Rightarrow> configMapsVars stmt" where
  "configMap_step namePath =
     block
       [setVars (\<lambda>pod vs. vs\<lparr>o_volumeName := np_Name namePath @ ''-vol''\<rparr>),
        ifThenElse (\<lambda>pod vs. length (o_volumeName vs) > maxNameLength)
          (setVars (\<lambda>pod vs. vs\<lparr>o_volumeName := take maxNameLength (o_volumeName vs)\<rparr>))
          (block []),
        call (\<lambda>vs. addConfigMapVolume_exec (np_Name namePath) (o_volumeName vs)) appendOp,
        call (\<lambda>vs. addConfigMapVolumeMount_exec (o_volumeName vs) (np_Path namePath))
          appendOp]"

definition addGeneralConfigMaps_exec ::
  "classifiers \<Rightarrow> sparkApplication \<Rightarrow> patchOperation list podProc" where
  "addGeneralConfigMaps_exec cls app =
     proc \<lparr>o_ops = [], o_configMaps = [], o_volumeName = []\<rparr>
       (block
          [ifCall (IsDriverPod_proc cls)
             (setVars (\<lambda>pod vs. vs\<lparr>o_configMaps := sps_ConfigMaps (sas_Driver (app_Spec app))\<rparr>))
             (ifCall (IsExecutorPod_proc cls)
                (setVars (\<lambda>pod vs.
                   vs\<lparr>o_configMaps := sps_ConfigMaps (sas_Executor (app_Spec app))\<rparr>))
                (block [])),
           rangeOver o_configMaps configMap_step])
       o_ops"

definition addAffinity_exec ::
  "classifiers \<Rightarrow> sparkApplication \<Rightarrow> patchOperation option podProc" where
  "addAffinity_exec cls app =
     proc \<lparr>a_affinity = None\<rparr>
       (ifCall (IsDriverPod_proc cls)
          (setVars (\<lambda>pod v. v\<lparr>a_affinity := sps_Affinity (sas_Driver (app_Spec app))\<rparr>))
          (ifCall (IsExecutorPod_proc cls)
             (setVars (\<lambda>pod v. v\<lparr>a_affinity := sps_Affinity (sas_Executor (app_Spec app))\<rparr>))
             (block [])))
       (\<lambda>v. case a_affinity v of
               None \<Rightarrow> None
             | Some a \<Rightarrow>
                 Some \<lparr>Op = ''add'', Path = ''/spec/affinity'', Value = AffinityValue a\<rparr>)"

definition toleration_step :: "toleration \<Rightarrow> tolerationsVars stmt" where
  "toleration_step v = call (\<lambda>vs. addToleration_exec v) appendOp"

definition addTolerations_exec ::
  "classifiers \<Rightarrow> sparkApplication \<Rightarrow> patchOperation list podProc" where
  "addTolerations_exec cls app =
     proc \<lparr>o_ops = [], o_tolerations = []\<rparr>
       (block
          [ifCall (IsDriverPod_proc cls)
             (setVars (\<lambda>pod vs.
                vs\<lparr>o_tolerations := sps_Tolerations (sas_Driver (app_Spec app))\<rparr>))
             (ifCall (IsExecutorPod_proc cls)
                (setVars (\<lambda>pod vs.
                   vs\<lparr>o_tolerations := sps_Tolerations (sas_Executor (app_Spec app))\<rparr>))
                (block [])),
           rangeOver o_tolerations toleration_step])
       o_ops"

definition addSecurityContext_exec ::
  "classifiers \<Rightarrow> sparkApplication \<Rightarrow> patchOperation option podProc" where
  "addSecurityContext_exec cls app =
     proc \<lparr>a_secContext = None\<rparr>
       (ifCall (IsDriverPod_proc cls)
          (setVars (\<lambda>pod v.
             v\<lparr>a_secContext := sps_SecurityContenxt (sas_Driver (app_Spec app))\<rparr>))
          (ifCall (IsExecutorPod_proc cls)
             (setVars (\<lambda>pod v.
                v\<lparr>a_secContext := sps_SecurityContenxt (sas_Executor (app_Spec app))\<rparr>))
             (block [])))
       (\<lambda>v. case a_secContext v of
               None \<Rightarrow> None
             | Some sc \<Rightarrow>
                 Some \<lparr>Op = ''add'', Path = ''/spec/securityContext'',
                       Value = SecurityContextValue sc\<rparr>)"

text \<open>\<open>if op != nil { patchOps = append(patchOps, *op) }\<close>\<close>

definition appendIfNotNil :: "assemblerVars stmt" where
  "appendIfNotNil =
     (\<lambda>s. case o_op (vars s) of
             None \<Rightarrow> Normal s
           | Some op \<Rightarrow> setVars (\<lambda>pod vs. appendOp op vs) s)"

definition patchSparkPod_exec ::
  "classifiers \<Rightarrow> externals \<Rightarrow> sparkApplication \<Rightarrow> patchOperation list podProc" where
  "patchSparkPod_exec cls ext app =
     proc \<lparr>o_ops = [], o_op = None\<rparr>
       (block
          [ifCall (IsDriverPod_proc cls)
             (call (\<lambda>vs. addOwnerReference_exec ext app) appendOp)
             (block []),
           call (\<lambda>vs. addVolumes_exec cls app) appendOps,
           call (\<lambda>vs. addGeneralConfigMaps_exec cls app) appendOps,
           call (\<lambda>vs. addSparkConfigMap_exec ext app) appendOps,
           call (\<lambda>vs. addHadoopConfigMap_exec ext app) appendOps,
           call (\<lambda>vs. addTolerations_exec cls app) appendOps,
           ifThenElse (\<lambda>pod vs. ps_Affinity (pod_Spec pod) = None)
             (block
                [call (\<lambda>vs. addAffinity_exec cls app) (\<lambda>op vs. vs\<lparr>o_op := op\<rparr>),
                 appendIfNotNil])
             (block []),
           ifThenElse (\<lambda>pod vs. ps_SecurityContext (pod_Spec pod) = None)
             (block
                [call (\<lambda>vs. addSecurityContext_exec cls app) (\<lambda>op vs. vs\<lparr>o_op := op\<rparr>),
                 appendIfNotNil])
             (block [])])
       o_ops"

text \<open>A statement preserves the pod when the frame it reaches, or the panic it raises,
  holds the pod it started from; a procedure is read-only when it returns the pod it was
  given.\<close>

definition preserves :: "'v stmt \<Rightarrow> bool" where
  "preserves st =
     (\<forall>s. case st s of Normal s' \<Rightarrow> heap_pod s' = heap_pod s | Panicked e h \<Rightarrow> h = heap_pod s)"

definition readOnlyProc :: "'a podProc \<Rightarrow> bool" where
  "readOnlyProc p = (\<forall>h. snd (p h) = h)"

definition readOnlyClassifiers :: "classifiers \<Rightarrow> bool" where
  "readOnlyClassifiers cls =
     (\<forall>h. snd (IsDriverPod_proc cls h) = h \<and> snd (IsExecutorPod_proc cls h) = h)"

text \<open>The pure classifiers of \<open>externals\<close> are the answers of the procedures.\<close>

definition answersOf :: "classifiers \<Rightarrow> externals \<Rightarrow> externals" where
  "answersOf cls ext =
     ext\<lparr>IsDriverPod := (\<lambda>pod. fst (IsDriverPod_proc cls pod)),
         IsExecutorPod := (\<lambda>pod. fst (IsExecutorPod_proc cls pod))\<rparr>"

definition classifies :: "classifiers \<Rightarrow> externals \<Rightarrow> bool" where
  "classifies cls ext =
     (\<forall>h. IsDriverPod_proc cls h = (IsDriverPod ext h, h) \<and>
          IsExecutorPod_proc cls h = (IsExecutorPod ext h, h))"

section \<open>Example inputs\<close>

definition exampleIsDriverPod :: "pod \<Rightarrow> bool" where
  "exampleIsDriverPod pod = (om_Labels (pod_ObjectMeta pod) ''spark-role'' = Some ''driver'')"

definition exampleIsExecutorPod :: "pod \<Rightarrow> bool" where
  "exampleIsExecutorPod pod = (om_Labels (pod_ObjectMeta pod) ''spark-role'' = Some ''executor'')"

definition exampleGetOwnerReference :: "sparkApplication \<Rightarrow> ownerReference" where
  "exampleGetOwnerReference app =
     \<lparr>or_APIVersion = ''sparkoperator.k8s.io/v1beta1'', or_Kind = ''SparkApplication'',
      or_Name = om_Name (app_ObjectMeta app), or_UID = om_UID (app_ObjectMeta app),
      or_Controller = Some True\<rparr>"

definition exampleExt :: externals where
  "exampleExt =
     \<lparr>IsDriverPod = exampleIsDriverPod, IsExecutorPod = exampleIsExecutorPod,
      GetOwnerReference = exampleGetOwnerReference,
      SparkConfigMapVolumeName = ''spark-configmap-volume'',
      DefaultSparkConfDir = ''/etc/spark/conf'',
      SparkConfDirEnvVar = ''SPARK_CONF_DIR'',
      HadoopConfigMapVolumeName = ''hadoop-configmap-volume'',
      DefaultHadoopConfDir = ''/etc/hadoop/conf'',
      HadoopConfDirEnvVar = ''HADOOP_CONF_DIR''\<rparr>"

definition sidecarContainer :: container where
  "sidecarContainer = \<lparr>c_Name = ''istio-proxy'', c_Env = [], c_VolumeMounts = []\<rparr>"

definition freshExecutorPod :: pod where
  "freshExecutorPod =
     \<lparr>pod_ObjectMeta =
        \<lparr>om_Name = ''pi-exec-1'', om_UID = ''u-2'',
         om_Labels = [''spark-role'' \<mapsto> ''executor''], om_OwnerReferences = []\<rparr>,
      pod_Spec =
        \<lparr>ps_Volumes = [],
         ps_Containers =
           [sidecarContainer, \<lparr>c_Name = ''executor'', c_Env = [], c_VolumeMounts = []\<rparr>],
         ps_Affinity = None, ps_SecurityContext = None, ps_Tolerations = []\<rparr>\<rparr>"

definition populatedDriverPod :: pod where
  "populatedDriverPod =
     \<lparr>pod_ObjectMeta =
        \<lparr>om_Name = ''pi-driver'', om_UID = ''u-1'',
         om_Labels = [''spark-role'' \<mapsto> ''driver''],
         om_OwnerReferences =
           [\<lparr>or_APIVersion = ''v1'', or_Kind = ''Job'', or_Name = ''launcher'',
             or_UID = ''u-0'', or_Controller = None\<rparr>]\<rparr>,
      pod_Spec =
        \<lparr>ps_Volumes = [\<lparr>vol_Name = ''scratch'', vol_VolumeSource = OtherVolumeSource ''emptyDir''\<rparr>],
         ps_Containers =
           [\<lparr>c_Name = ''spark-kubernetes-driver'',
             c_Env = [\<lparr>env_Name = ''SPARK_USER'', env_Value = ''spark''\<rparr>],
             c_VolumeMounts =
               [\<lparr>vm_Name = ''scratch'', vm_ReadOnly = False, vm_MountPath = ''/tmp''\<rparr>]\<rparr>],
         ps_Affinity = Some (Affinity ''zone-a''),
         ps_SecurityContext = Some (PodSecurityContext ''runAsUser=185''),
         ps_Tolerations =
           [\<lparr>tol_Key = ''spot'', tol_Operator = ''Exists'', tol_Value = ''true'',
             tol_Effect = ''NoSchedule''\<rparr>]\<rparr>\<rparr>"

definition dataVolume :: volume where
  "dataVolume = \<lparr>vol_Name = ''data'', vol_VolumeSource = OtherVolumeSource ''hostPath:/data''\<rparr>"

definition logsVolume :: volume where
  "logsVolume = \<lparr>vol_Name = ''logs'', vol_VolumeSource = OtherVolumeSource ''emptyDir''\<rparr>"

definition dataMount :: volumeMount where
  "dataMount = \<lparr>vm_Name = ''data'', vm_ReadOnly = False, vm_MountPath = ''/mnt/data''\<rparr>"

definition logsMount :: volumeMount where
  "logsMount = \<lparr>vm_Name = ''logs'', vm_ReadOnly = False, vm_MountPath = ''/var/log/spark''\<rparr>"

definition ghostMount :: volumeMount where
  "ghostMount = \<lparr>vm_Name = ''ghost'', vm_ReadOnly = True, vm_MountPath = ''/mnt/ghost''\<rparr>"

definition spotToleration :: toleration where
  "spotToleration =
     \<lparr>tol_Key = ''spot'', tol_Operator = ''Exists'', tol_Value = ''true'',
      tol_Effect = ''NoSchedule''\<rparr>"

definition gpuToleration :: toleration where
  "gpuToleration =
     \<lparr>tol_Key = ''gpu'', tol_Operator = ''Equal'', tol_Value = ''a100'',
      tol_Effect = ''NoExecute''\<rparr>"

definition longName :: string where
  "longName = replicate 70 CHR ''n''"

definition exampleApp :: sparkApplication where
  "exampleApp =
     \<lparr>app_ObjectMeta =
        \<lparr>om_Name = ''spark-pi'', om_UID = ''u-app'', om_Labels = Map.empty,
         om_OwnerReferences = []\<rparr>,
      app_Spec =
        \<lparr>sas_Volumes = [dataVolume, logsVolume],
         sas_SparkConfigMap = Some ''my-config'',
         sas_HadoopConfigMap = None,
         sas_Driver =
           \<lparr>sps_ConfigMaps = [\<lparr>np_Name = ''cm1'', np_Path = ''/etc/cm1''\<rparr>],
            sps_VolumeMounts = [ghostMount, dataMount],
            sps_Affinity = Some (Affinity ''zone-b''),
            sps_Tolerations = [spotToleration],
            sps_SecurityContenxt = Some (PodSecurityContext ''runAsUser=1000'')\<rparr>,
         sas_Executor =
           \<lparr>sps_ConfigMaps =
              [\<lparr>np_Name = ''cm1'', np_Path = ''/etc/cm1''\<rparr>,
               \<lparr>np_Name = longName, np_Path = ''/etc/long''\<rparr>],
            sps_VolumeMounts = [logsMount, ghostMount, dataMount],
            sps_Affinity = Some (Affinity ''zone-c''),
            sps_Tolerations = [spotToleration, gpuToleration],
            sps_SecurityContenxt = None\<rparr>\<rparr>\<rparr>"

text \<open>A descriptor that declares nothing for either role.\<close>

definition emptySparkPodSpec :: sparkPodSpec where
  "emptySparkPodSpec =
     \<lparr>sps_ConfigMaps = [], sps_VolumeMounts = [], sps_Affinity = None, sps_Tolerations = [],
      sps_SecurityContenxt = None\<rparr>"

definition emptyApp :: sparkApplication where
  "emptyApp =
     \<lparr>app_ObjectMeta =
        \<lparr>om_Name = ''idle'', om_UID = ''u-idle'', om_Labels = Map.empty,
         om_OwnerReferences = []\<rparr>,
      app_Spec =
        \<lparr>sas_Volumes = [], sas_SparkConfigMap = None, sas_HadoopConfigMap = None,
         sas_Driver = emptySparkPodSpec, sas_Executor = emptySparkPodSpec\<rparr>\<rparr>"

text \<open>A driver pod none of whose containers carries a well-known name.\<close>

definition strayDriverPod :: pod where
  "strayDriverPod =
     \<lparr>pod_ObjectMeta =
        \<lparr>om_Name = ''pi-driver'', om_UID = ''u-3'',
         om_Labels = [''spark-role'' \<mapsto> ''driver''], om_OwnerReferences = []\<rparr>,
      pod_Spec =
        \<lparr>ps_Volumes = [], ps_Containers = [sidecarContainer],
         ps_Affinity = None, ps_SecurityContext = None, ps_Tolerations = []\<rparr>\<rparr>"

text \<open>A pod without the role label: neither driver nor executor.\<close>

definition unlabelledPod :: pod where
  "unlabelledPod =
     \<lparr>pod_ObjectMeta =
        \<lparr>om_Name = ''history-server'', om_UID = ''u-4'', om_Labels = Map.empty,
         om_OwnerReferences = []\<rparr>,
      pod_Spec =
        \<lparr>ps_Volumes = [],
         ps_Containers = [\<lparr>c_Name = ''executor'', c_Env = [], c_VolumeMounts = []\<rparr>],
         ps_Affinity = None, ps_SecurityContext = None, ps_Tolerations = []\<rparr>\<rparr>"

definition freshDriverPod :: pod where
  "freshDriverPod =
     \<lparr>pod_ObjectMeta =
        \<lparr>om_Name = ''pi-driver'', om_UID = ''u-5'',
         om_Labels = [''spark-role'' \<mapsto> ''driver''], om_OwnerReferences = []\<rparr>,
      pod_Spec =
        \<lparr>ps_Volumes = [],
         ps_Containers =
           [\<lparr>c_Name = ''spark-kubernetes-driver'', c_Env = [], c_VolumeMounts = []\<rparr>],
         ps_Affinity = None, ps_SecurityContext = None, ps_Tolerations = []\<rparr>\<rparr>"

text \<open>A descriptor requires touching a container of the pod when a mount of the pod's
  role names a declared volume, when the role declares a general config map, or when the
  Spark or the Hadoop config map is set.\<close>

definition needsContainer :: "externals \<Rightarrow> pod \<Rightarrow> sparkApplication \<Rightarrow> bool" where
  "needsContainer ext pod app =
     ((case roleSpec ext pod app of
         None \<Rightarrow> False
       | Some r \<Rightarrow>
           list_ex (\<lambda>m. vm_Name m \<in> vol_Name ` set (sas_Volumes (app_Spec app)))
             (sps_VolumeMounts r) \<or>
           sps_ConfigMaps r \<noteq> []) \<or>
      sas_SparkConfigMap (app_Spec app) \<noteq> None \<or>
      sas_HadoopConfigMap (app_Spec app) \<noteq> None)"

text \<open>The label-reading classifiers as procedures, and a classifier that clears the labels
  of the pod it is asked about.\<close>

definition exampleClassifiers :: classifiers where
  "exampleClassifiers =
     \<lparr>IsDriverPod_proc = (\<lambda>pod. (exampleIsDriverPod pod, pod)),
      IsExecutorPod_proc = (\<lambda>pod. (exampleIsExecutorPod pod, pod))\<rparr>"

definition clearLabels :: "pod \<Rightarrow> pod" where
  "clearLabels pod = pod\<lparr>pod_ObjectMeta := (pod_ObjectMeta pod)\<lparr>om_Labels := Map.empty\<rparr>\<rparr>"

definition relabellingClassifiers :: classifiers where
  "relabellingClassifiers =
     \<lparr>IsDriverPod_proc = (\<lambda>pod. (exampleIsDriverPod pod, clearLabels pod)),
      IsExecutorPod_proc = (\<lambda>pod. (exampleIsExecutorPod pod, pod))\<rparr>"

section \<open>Properties\<close>

lemmas example_defs =
  exampleExt_def exampleIsDriverPod_def exampleIsExecutorPod_def exampleGetOwnerReference_def
  sidecarContainer_def freshExecutorPod_def populatedDriverPod_def strayDriverPod_def
  unlabelledPod_def dataVolume_def logsVolume_def dataMount_def logsMount_def ghostMount_def
  spotToleration_def gpuToleration_def exampleApp_def emptyApp_def emptySparkPodSpec_def

lemmas patcher_defs =
  patchSparkPod_def addVolumes_def addGeneralConfigMaps_def addSparkConfigMap_def
  addHadoopConfigMap_def addTolerations_def addAffinity_def addSecurityContext_def
  addConfigMapVolume_def addConfigMapVolumeMount_def addVolume_def addVolumeMount_def
  addEnvironmentVariable_def addToleration_def addOwnerReference_def volumeMapOf_def
  configMapVolumeName_def maxNameLength_def
  sparkDriverContainerName_def sparkExecutorContainerName_def

subsection \<open>The container scan\<close>

lemma findContainer_first:
  "i \<le> k \<Longrightarrow> k < length cs \<Longrightarrow> isSparkContainer (cs ! k) \<Longrightarrow>
   (\<And>j. i \<le> j \<Longrightarrow> j < k \<Longrightarrow> \<not> isSparkContainer (cs ! j)) \<Longrightarrow> findContainer cs i = k"
proof (induction cs i rule: findContainer.induct)
  case (1 cs i)
  show ?case
  proof (cases "i = k")
    case True
    with 1 show ?thesis
      by (subst findContainer.simps) (simp add: isSparkContainer_def)
  next
    case False
    with 1 have lt: "i < k" by simp
    with 1 have ns: "\<not> isSparkContainer (cs ! i)" by simp
    have "findContainer cs (i + 1) = k"
      using 1 lt ns by (intro "1.IH") (auto simp: isSparkContainer_def)
    with lt 1 ns show ?thesis
      by (subst findContainer.simps) (simp add: isSparkContainer_def)
  qed
qed

lemma findContainer_none:
  "(\<And>j. i \<le> j \<Longrightarrow> j < length cs \<Longrightarrow> \<not> isSparkContainer (cs ! j)) \<Longrightarrow>
   findContainer cs i = max i (length cs)"
proof (induction cs i rule: findContainer.induct)
  case (1 cs i)
  show ?case
  proof (cases "i < length cs")
    case True
    with 1 have ns: "\<not> isSparkContainer (cs ! i)" by simp
    have "findContainer cs (i + 1) = max (i + 1) (length cs)"
      using 1 True ns by (intro "1.IH") (auto simp: isSparkContainer_def)
    with True ns show ?thesis
      by (subst findContainer.simps) (auto simp add: isSparkContainer_def)
  next
    case False
    then show ?thesis by (subst findContainer.simps) simp
  qed
qed

lemma findContainer_found:
  "findContainer cs i < length cs \<Longrightarrow> isSparkContainer (cs ! findContainer cs i)"
proof (induction cs i rule: findContainer.induct)
  case (1 cs i)
  show ?case
  proof (cases "i < length cs \<and> \<not> isSparkContainer (cs ! i)")
    case True
    then have step: "findContainer cs i = findContainer cs (i + 1)"
      by (subst findContainer.simps) (simp add: isSparkContainer_def)
    with 1 True show ?thesis by (simp add: isSparkContainer_def)
  next
    case False
    then have stop: "findContainer cs i = i"
      by (subst findContainer.simps) (auto simp add: isSparkContainer_def)
    with 1 False show ?thesis by auto
  qed
qed

lemma findContainer_le: "findContainer cs i \<le> max i (length cs)"
proof (induction cs i rule: findContainer.induct)
  case (1 cs i)
  show ?case
  proof (cases "i < length cs \<and> \<not> isSparkContainer (cs ! i)")
    case True
    then have "findContainer cs i = findContainer cs (i + 1)"
      by (subst findContainer.simps) (simp add: isSparkContainer_def)
    moreover have "findContainer cs (i + 1) \<le> max (i + 1) (length cs)"
      using True by (intro "1.IH") (auto simp: isSparkContainer_def)
    ultimately show ?thesis using True by simp
  next
    case False
    then have "findContainer cs i = i"
      by (subst findContainer.simps) (auto simp add: isSparkContainer_def)
    then show ?thesis by simp
  qed
qed

lemma findContainer_skips:
  "i \<le> j \<Longrightarrow> j < findContainer cs i \<Longrightarrow> j < length cs \<Longrightarrow> \<not> isSparkContainer (cs ! j)"
proof (induction cs i rule: findContainer.induct)
  case (1 cs i)
  show ?case
  proof (cases "i < length cs \<and> \<not> isSparkContainer (cs ! i)")
    case True
    then have step: "findContainer cs i = findContainer cs (i + 1)"
      by (subst findContainer.simps) (simp add: isSparkContainer_def)
    show ?thesis
    proof (cases "j = i")
      case True
      with \<open>i < length cs \<and> \<not> isSparkContainer (cs ! i)\<close> show ?thesis by simp
    next
      case False
      with "1.prems" have "i + 1 \<le> j" by simp
      moreover from "1.prems" step have "j < findContainer cs (i + 1)" by simp
      ultimately show ?thesis
        using True "1.prems"(3) by (intro "1.IH") (auto simp: isSparkContainer_def)
    qed
  next
    case False
    then have "findContainer cs i = i"
      by (subst findContainer.simps) (auto simp add: isSparkContainer_def)
    with "1.prems" show ?thesis by simp
  qed
qed

lemma findContainer_has:
  assumes "hasSparkContainer pod"
  shows "findContainer (ps_Containers (pod_Spec pod)) 0 < length (ps_Containers (pod_Spec pod))"
proof (rule ccontr)
  assume "\<not> ?thesis"
  then have ge: "length (ps_Containers (pod_Spec pod))
                   \<le> findContainer (ps_Containers (pod_Spec pod)) 0"
    by simp
  from assms obtain k where k: "k < length (ps_Containers (pod_Spec pod))"
      "isSparkContainer (ps_Containers (pod_Spec pod) ! k)"
    by (auto simp: hasSparkContainer_def list_ex_iff in_set_conv_nth)
  from k(1) ge have "k < findContainer (ps_Containers (pod_Spec pod)) 0" by simp
  then have "\<not> isSparkContainer (ps_Containers (pod_Spec pod) ! k)"
    using k(1) by (intro findContainer_skips [where i = 0]) simp_all
  with k(2) show False by simp
qed

lemma findContainer_has_not:
  assumes "\<not> hasSparkContainer pod"
  shows "findContainer (ps_Containers (pod_Spec pod)) 0 = length (ps_Containers (pod_Spec pod))"
proof -
  from assms have "\<not> isSparkContainer (ps_Containers (pod_Spec pod) ! j)"
    if "j < length (ps_Containers (pod_Spec pod))" for j
    using that by (auto simp: hasSparkContainer_def list_ex_iff)
  then have "findContainer (ps_Containers (pod_Spec pod)) 0
               = max 0 (length (ps_Containers (pod_Spec pod)))"
    by (intro findContainer_none) auto
  then show ?thesis by simp
qed

lemma addVolumeMount_total:
  "hasSparkContainer pod \<Longrightarrow> \<exists>op. addVolumeMount pod mount = Inr op"
  using findContainer_has [of pod] by (simp add: addVolumeMount_def Let_def)

lemma addEnvironmentVariable_total:
  "hasSparkContainer pod \<Longrightarrow> \<exists>op. addEnvironmentVariable pod envName envValue = Inr op"
  using findContainer_has [of pod] by (simp add: addEnvironmentVariable_def Let_def)

lemma addVolumeMount_panics:
  "\<not> hasSparkContainer pod \<Longrightarrow>
   addVolumeMount pod mount =
     Inl (IndexOutOfRange (length (ps_Containers (pod_Spec pod)))
            (length (ps_Containers (pod_Spec pod))))"
  using findContainer_has_not [of pod] by (simp add: addVolumeMount_def Let_def)

lemma addEnvironmentVariable_panics:
  "\<not> hasSparkContainer pod \<Longrightarrow>
   addEnvironmentVariable pod envName envValue =
     Inl (IndexOutOfRange (length (ps_Containers (pod_Spec pod)))
            (length (ps_Containers (pod_Spec pod))))"
  using findContainer_has_not [of pod] by (simp add: addEnvironmentVariable_def Let_def)

subsection \<open>Paths of the emitted operations\<close>

lemma isSpecArrayOp_other:
  "isSpecArrayOp op \<Longrightarrow>
   \<not> isOwnerReferenceOp op \<and> \<not> isAffinityOp op \<and> \<not> isSecurityContextOp op"
  by (auto simp: isSpecArrayOp_def isOwnerReferenceOp_def isAffinityOp_def
      isSecurityContextOp_def)

lemma addVolume_path: "isSpecArrayOp (addVolume pod volume)"
  by (simp add: addVolume_def isSpecArrayOp_def Let_def)

lemma addToleration_path: "isSpecArrayOp (addToleration pod toleration)"
  by (simp add: addToleration_def isSpecArrayOp_def Let_def)

lemma addVolumeMount_path: "addVolumeMount pod mount = Inr op \<Longrightarrow> isSpecArrayOp op"
  by (auto simp: addVolumeMount_def isSpecArrayOp_def Let_def split: if_splits)

lemma addEnvironmentVariable_path:
  "addEnvironmentVariable pod envName envValue = Inr op \<Longrightarrow> isSpecArrayOp op"
  by (auto simp: addEnvironmentVariable_def isSpecArrayOp_def Let_def split: if_splits)

lemma addOwnerReference_path: "isOwnerReferenceOp (addOwnerReference ext pod app)"
  by (simp add: addOwnerReference_def isOwnerReferenceOp_def Let_def)

subsection \<open>Array policy of the single-element builders\<close>

text \<open>
  Claim C1. Each single-element add for an array-valued field (owner references, pod
  volumes, tolerations, and the volume mounts and environment variables of the first
  container carrying one of the two well-known names) addresses the bare field with a
  one-element array when the pod's array is empty, and the field followed by \<open>/-\<close> with
  the bare element when the array has at least one element.
\<close>

theorem array_add_shape:
  fixes pod :: pod and ext :: externals and app :: sparkApplication
  shows
  "(length (om_OwnerReferences (pod_ObjectMeta pod)) = 0 \<longrightarrow>
      addOwnerReference ext pod app =
        \<lparr>Op = ''add'', Path = ''/metadata/ownerReferences'',
         Value = OwnerReferenceArray [GetOwnerReference ext app]\<rparr>) \<and>
   (length (om_OwnerReferences (pod_ObjectMeta pod)) \<ge> 1 \<longrightarrow>
      addOwnerReference ext pod app =
        \<lparr>Op = ''add'', Path = ''/metadata/ownerReferences'' @ ''/-'',
         Value = OwnerReferenceValue (GetOwnerReference ext app)\<rparr>) \<and>
   (length (ps_Volumes (pod_Spec pod)) = 0 \<longrightarrow>
      addVolume pod volume =
        \<lparr>Op = ''add'', Path = ''/spec/volumes'', Value = VolumeArray [volume]\<rparr>) \<and>
   (length (ps_Volumes (pod_Spec pod)) \<ge> 1 \<longrightarrow>
      addVolume pod volume =
        \<lparr>Op = ''add'', Path = ''/spec/volumes'' @ ''/-'', Value = VolumeValue volume\<rparr>) \<and>
   (length (ps_Tolerations (pod_Spec pod)) = 0 \<longrightarrow>
      addToleration pod toleration =
        \<lparr>Op = ''add'', Path = ''/spec/tolerations'', Value = TolerationArray [toleration]\<rparr>) \<and>
   (length (ps_Tolerations (pod_Spec pod)) \<ge> 1 \<longrightarrow>
      addToleration pod toleration =
        \<lparr>Op = ''add'', Path = ''/spec/tolerations'' @ ''/-'',
         Value = TolerationValue toleration\<rparr>) \<and>
   (i < length (ps_Containers (pod_Spec pod)) \<and>
    isSparkContainer (ps_Containers (pod_Spec pod) ! i) \<and>
    (\<forall>j<i. \<not> isSparkContainer (ps_Containers (pod_Spec pod) ! j)) \<longrightarrow>
      (length (c_VolumeMounts (ps_Containers (pod_Spec pod) ! i)) = 0 \<longrightarrow>
         addVolumeMount pod mount =
           Inr \<lparr>Op = ''add'', Path = ''/spec/containers/'' @ sprintf_d i @ ''/volumeMounts'',
                Value = VolumeMountArray [mount]\<rparr>) \<and>
      (length (c_VolumeMounts (ps_Containers (pod_Spec pod) ! i)) \<ge> 1 \<longrightarrow>
         addVolumeMount pod mount =
           Inr \<lparr>Op = ''add'',
                Path = (''/spec/containers/'' @ sprintf_d i @ ''/volumeMounts'') @ ''/-'',
                Value = VolumeMountValue mount\<rparr>) \<and>
      (length (c_Env (ps_Containers (pod_Spec pod) ! i)) = 0 \<longrightarrow>
         addEnvironmentVariable pod envName envValue =
           Inr \<lparr>Op = ''add'', Path = ''/spec/containers/'' @ sprintf_d i @ ''/env'',
                Value = EnvVarArray [\<lparr>env_Name = envName, env_Value = envValue\<rparr>]\<rparr>) \<and>
      (length (c_Env (ps_Containers (pod_Spec pod) ! i)) \<ge> 1 \<longrightarrow>
         addEnvironmentVariable pod envName envValue =
           Inr \<lparr>Op = ''add'', Path = (''/spec/containers/'' @ sprintf_d i @ ''/env'') @ ''/-'',
                Value = EnvVarValue \<lparr>env_Name = envName, env_Value = envValue\<rparr>\<rparr>))"
proof -
  have c: "findContainer (ps_Containers (pod_Spec pod)) 0 = i"
    if "i < length (ps_Containers (pod_Spec pod))"
       "isSparkContainer (ps_Containers (pod_Spec pod) ! i)"
       "\<forall>j<i. \<not> isSparkContainer (ps_Containers (pod_Spec pod) ! j)"
    using that by (intro findContainer_first) auto
  show ?thesis
    using c by (auto simp: addOwnerReference_def addVolume_def addToleration_def
        addVolumeMount_def addEnvironmentVariable_def Let_def)
qed

theorem array_add_shape_witness:
  "addOwnerReference exampleExt freshExecutorPod exampleApp =
     \<lparr>Op = ''add'', Path = ''/metadata/ownerReferences'',
      Value = OwnerReferenceArray [exampleGetOwnerReference exampleApp]\<rparr> \<and>
   addVolume freshExecutorPod dataVolume =
     \<lparr>Op = ''add'', Path = ''/spec/volumes'', Value = VolumeArray [dataVolume]\<rparr> \<and>
   addToleration freshExecutorPod spotToleration =
     \<lparr>Op = ''add'', Path = ''/spec/tolerations'', Value = TolerationArray [spotToleration]\<rparr> \<and>
   addVolumeMount freshExecutorPod dataMount =
     Inr \<lparr>Op = ''add'', Path = ''/spec/containers/1/volumeMounts'',
          Value = VolumeMountArray [dataMount]\<rparr> \<and>
   addEnvironmentVariable freshExecutorPod ''SPARK_CONF_DIR'' ''/etc/spark/conf'' =
     Inr \<lparr>Op = ''add'', Path = ''/spec/containers/1/env'',
          Value = EnvVarArray
            [\<lparr>env_Name = ''SPARK_CONF_DIR'', env_Value = ''/etc/spark/conf''\<rparr>]\<rparr> \<and>
   addOwnerReference exampleExt populatedDriverPod exampleApp =
     \<lparr>Op = ''add'', Path = ''/metadata/ownerReferences/-'',
      Value = OwnerReferenceValue (exampleGetOwnerReference exampleApp)\<rparr> \<and>
   addVolume populatedDriverPod dataVolume =
     \<lparr>Op = ''add'', Path = ''/spec/volumes/-'', Value = VolumeValue dataVolume\<rparr> \<and>
   addToleration populatedDriverPod spotToleration =
     \<lparr>Op = ''add'', Path = ''/spec/tolerations/-'', Value = TolerationValue spotToleration\<rparr> \<and>
   addVolumeMount populatedDriverPod dataMount =
     Inr \<lparr>Op = ''add'', Path = ''/spec/containers/0/volumeMounts/-'',
          Value = VolumeMountValue dataMount\<rparr> \<and>
   addEnvironmentVariable populatedDriverPod ''SPARK_CONF_DIR'' ''/etc/spark/conf'' =
     Inr \<lparr>Op = ''add'', Path = ''/spec/containers/0/env/-'',
          Value = EnvVarValue
            \<lparr>env_Name = ''SPARK_CONF_DIR'', env_Value = ''/etc/spark/conf''\<rparr>\<rparr>"
  using array_add_shape [of freshExecutorPod exampleExt exampleApp dataVolume spotToleration 1
          dataMount "''SPARK_CONF_DIR''" "''/etc/spark/conf''"]
        array_add_shape [of populatedDriverPod exampleExt exampleApp dataVolume spotToleration 0
          dataMount "''SPARK_CONF_DIR''" "''/etc/spark/conf''"]
  by (simp add: freshExecutorPod_def populatedDriverPod_def exampleExt_def sidecarContainer_def
      isSparkContainer_def sparkDriverContainerName_def sparkExecutorContainerName_def
      sprintf_d.simps digit_def)

subsection \<open>Each loop as a list function\<close>

lemma find_snoc:
  "find P (xs @ [x]) =
     (case find P xs of None \<Rightarrow> (if P x then Some x else None) | Some y \<Rightarrow> Some y)"
  by (induction xs) auto

lemma fold_upd_find:
  "fold (\<lambda>v volumeMap. volumeMap(vol_Name v \<mapsto> v)) volumes m0 n =
     (case find (\<lambda>v. vol_Name v = n) (rev volumes) of None \<Rightarrow> m0 n | Some v \<Rightarrow> Some v)"
proof (induction volumes arbitrary: m0)
  case Nil
  show ?case by simp
next
  case (Cons v volumes)
  let ?F = "\<lambda>v volumeMap. volumeMap(vol_Name v \<mapsto> v)"
  have "fold ?F (v # volumes) m0 n = fold ?F volumes (m0(vol_Name v \<mapsto> v)) n"
    by (simp only: fold_simps)
  also have "\<dots> = (case find (\<lambda>v. vol_Name v = n) (rev volumes) of
                      None \<Rightarrow> (m0(vol_Name v \<mapsto> v)) n
                    | Some w \<Rightarrow> Some w)"
    by (rule Cons.IH)
  also have "\<dots> = (case find (\<lambda>v. vol_Name v = n) (rev (v # volumes)) of
                      None \<Rightarrow> m0 n
                    | Some w \<Rightarrow> Some w)"
    by (auto simp: find_snoc split: option.split)
  finally show ?case .
qed

lemma volumeMapOf_find:
  "volumeMapOf volumes n = find (\<lambda>v. vol_Name v = n) (rev volumes)"
  by (simp add: volumeMapOf_def fold_upd_find split: option.split)

lemma addVolumes_loop_acc:
  "addVolumes_loop pod volumeMap ms acc =
     (case addVolumes_loop pod volumeMap ms [] of Inl e \<Rightarrow> Inl e | Inr ops \<Rightarrow> Inr (acc @ ops))"
proof (induction ms arbitrary: acc)
  case Nil
  show ?case by simp
next
  case (Cons m ms)
  show ?case
  proof (cases "volumeMap (vm_Name m)")
    case None
    then show ?thesis using Cons.IH [of acc] by simp
  next
    case (Some v)
    show ?thesis
    proof (cases "addVolumeMount pod m")
      case (Inl e)
      with Some show ?thesis by simp
    next
      case (Inr mountOp)
      with Some show ?thesis
        using Cons.IH [of "acc @ [addVolume pod v] @ [mountOp]"]
              Cons.IH [of "[addVolume pod v] @ [mountOp]"]
        by (simp split: sum.split)
    qed
  qed
qed

lemma addVolumes_loop_Inr:
  "addVolumes_loop pod volumeMap ms [] = Inr ops \<Longrightarrow>
   map Inr ops =
     concat (map (\<lambda>m. case volumeMap (vm_Name m) of
                         None \<Rightarrow> []
                       | Some v \<Rightarrow> [Inr (addVolume pod v), addVolumeMount pod m]) ms)"
proof (induction ms arbitrary: ops)
  case Nil
  then show ?case by simp
next
  case (Cons m ms)
  show ?case
  proof (cases "volumeMap (vm_Name m)")
    case None
    with Cons show ?thesis by simp
  next
    case (Some v)
    from Cons.prems Some obtain mountOp where mo: "addVolumeMount pod m = Inr mountOp"
      by (cases "addVolumeMount pod m") auto
    from Cons.prems Some mo
    have "addVolumes_loop pod volumeMap ms ([addVolume pod v] @ [mountOp]) = Inr ops" by simp
    then obtain rest where rest: "addVolumes_loop pod volumeMap ms [] = Inr rest"
        and ops: "ops = [addVolume pod v, mountOp] @ rest"
      by (subst (asm) addVolumes_loop_acc) (auto split: sum.splits)
    from Cons.IH [OF rest] Some mo ops show ?thesis by simp
  qed
qed

lemma addVolumes_loop_total:
  "hasSparkContainer pod \<Longrightarrow> \<exists>ops. addVolumes_loop pod volumeMap ms acc = Inr ops"
proof (induction ms arbitrary: acc)
  case Nil
  show ?case by simp
next
  case (Cons m ms)
  from Cons.prems obtain mountOp where "addVolumeMount pod m = Inr mountOp"
    using addVolumeMount_total by blast
  with Cons show ?case by (simp split: option.split)
qed

lemma addGeneralConfigMaps_loop_acc:
  "addGeneralConfigMaps_loop pod nps acc =
     (case addGeneralConfigMaps_loop pod nps [] of
        Inl e \<Rightarrow> Inl e
      | Inr ops \<Rightarrow> Inr (acc @ ops))"
proof (induction nps arbitrary: acc)
  case Nil
  show ?case by simp
next
  case (Cons np nps)
  show ?case
  proof (cases "addConfigMapVolumeMount pod (configMapVolumeName (np_Name np)) (np_Path np)")
    case (Inl e)
    then show ?thesis by (simp add: Let_def)
  next
    case (Inr mountOp)
    then show ?thesis
      using Cons.IH [of "acc @ [addConfigMapVolume pod (np_Name np)
                                  (configMapVolumeName (np_Name np))] @ [mountOp]"]
            Cons.IH [of "[addConfigMapVolume pod (np_Name np)
                            (configMapVolumeName (np_Name np))] @ [mountOp]"]
      by (simp add: Let_def split: sum.split)
  qed
qed

lemma addGeneralConfigMaps_loop_Inr:
  "addGeneralConfigMaps_loop pod nps [] = Inr ops \<Longrightarrow>
   map Inr ops =
     concat (map (\<lambda>np. [Inr (addConfigMapVolume pod (np_Name np)
                                (configMapVolumeName (np_Name np))),
                          addConfigMapVolumeMount pod (configMapVolumeName (np_Name np))
                            (np_Path np)]) nps)"
proof (induction nps arbitrary: ops)
  case Nil
  then show ?case by simp
next
  case (Cons np nps)
  let ?vn = "configMapVolumeName (np_Name np)"
  from Cons.prems obtain mountOp
    where mo: "addConfigMapVolumeMount pod ?vn (np_Path np) = Inr mountOp"
    by (cases "addConfigMapVolumeMount pod ?vn (np_Path np)") (auto simp: Let_def)
  from Cons.prems mo
  have "addGeneralConfigMaps_loop pod nps
          ([addConfigMapVolume pod (np_Name np) ?vn] @ [mountOp]) = Inr ops"
    by (simp add: Let_def)
  then obtain rest where rest: "addGeneralConfigMaps_loop pod nps [] = Inr rest"
      and ops: "ops = [addConfigMapVolume pod (np_Name np) ?vn, mountOp] @ rest"
    by (subst (asm) addGeneralConfigMaps_loop_acc) (auto split: sum.splits)
  from Cons.IH [OF rest] mo ops show ?case by simp
qed

lemma addGeneralConfigMaps_loop_total:
  "hasSparkContainer pod \<Longrightarrow> \<exists>ops. addGeneralConfigMaps_loop pod nps acc = Inr ops"
proof (induction nps arbitrary: acc)
  case Nil
  show ?case by simp
next
  case (Cons np nps)
  from Cons.prems obtain mountOp
    where "addConfigMapVolumeMount pod (configMapVolumeName (np_Name np)) (np_Path np)
             = Inr mountOp"
    unfolding addConfigMapVolumeMount_def using addVolumeMount_total by blast
  with Cons show ?case by (simp add: Let_def)
qed

lemma addTolerations_loop_map:
  "addTolerations_loop pod tolerations acc = acc @ map (addToleration pod) tolerations"
  by (induction tolerations arbitrary: acc) auto

subsection \<open>The patchers return when the pod has a Spark container\<close>

lemma addVolumes_total:
  "hasSparkContainer pod \<Longrightarrow> \<exists>ops. addVolumes ext pod app = Inr ops"
  by (simp add: addVolumes_def Let_def addVolumes_loop_total)

lemma addGeneralConfigMaps_total:
  "hasSparkContainer pod \<Longrightarrow> \<exists>ops. addGeneralConfigMaps ext pod app = Inr ops"
  by (simp add: addGeneralConfigMaps_def Let_def addGeneralConfigMaps_loop_total)

lemma addSparkConfigMap_total:
  assumes "hasSparkContainer pod"
  shows "\<exists>ops. addSparkConfigMap ext pod app = Inr ops"
proof -
  obtain mountOp where
    "addConfigMapVolumeMount pod (SparkConfigMapVolumeName ext) (DefaultSparkConfDir ext)
       = Inr mountOp"
    unfolding addConfigMapVolumeMount_def using addVolumeMount_total [OF assms] by blast
  moreover obtain envOp where
    "addEnvironmentVariable pod (SparkConfDirEnvVar ext) (DefaultSparkConfDir ext) = Inr envOp"
    using addEnvironmentVariable_total [OF assms] by blast
  ultimately show ?thesis
    by (simp add: addSparkConfigMap_def Let_def split: option.split)
qed

lemma addHadoopConfigMap_total:
  assumes "hasSparkContainer pod"
  shows "\<exists>ops. addHadoopConfigMap ext pod app = Inr ops"
proof -
  obtain mountOp where
    "addConfigMapVolumeMount pod (HadoopConfigMapVolumeName ext) (DefaultHadoopConfDir ext)
       = Inr mountOp"
    unfolding addConfigMapVolumeMount_def using addVolumeMount_total [OF assms] by blast
  moreover obtain envOp where
    "addEnvironmentVariable pod (HadoopConfDirEnvVar ext) (DefaultHadoopConfDir ext) = Inr envOp"
    using addEnvironmentVariable_total [OF assms] by blast
  ultimately show ?thesis
    by (simp add: addHadoopConfigMap_def Let_def split: option.split)
qed

lemma patchSparkPod_total:
  assumes "hasSparkContainer pod"
  shows "\<exists>ops. patchSparkPod ext pod app = Inr ops"
proof -
  obtain volumeOps generalOps sparkOps hadoopOps where
    "addVolumes ext pod app = Inr volumeOps"
    "addGeneralConfigMaps ext pod app = Inr generalOps"
    "addSparkConfigMap ext pod app = Inr sparkOps"
    "addHadoopConfigMap ext pod app = Inr hadoopOps"
    using addVolumes_total [OF assms] addGeneralConfigMaps_total [OF assms]
      addSparkConfigMap_total [OF assms] addHadoopConfigMap_total [OF assms]
    by blast
  then show ?thesis
    by (simp add: patchSparkPod_def Let_def)
qed

subsection \<open>The assembled sequence\<close>

lemma patchSparkPod_Inr:
  assumes "patchSparkPod ext pod app = Inr ops"
  obtains volumeOps generalOps sparkOps hadoopOps where
    "addVolumes ext pod app = Inr volumeOps"
    "addGeneralConfigMaps ext pod app = Inr generalOps"
    "addSparkConfigMap ext pod app = Inr sparkOps"
    "addHadoopConfigMap ext pod app = Inr hadoopOps"
    "ops = (if IsDriverPod ext pod then [addOwnerReference ext pod app] else [])
             @ volumeOps @ generalOps @ sparkOps @ hadoopOps
             @ addTolerations ext pod app
             @ (if ps_Affinity (pod_Spec pod) = None
                then emitted (addAffinity ext pod app)
                else [])
             @ (if ps_SecurityContext (pod_Spec pod) = None
                then emitted (addSecurityContext ext pod app)
                else [])"
proof -
  from assms obtain volumeOps where v: "addVolumes ext pod app = Inr volumeOps"
    by (cases "addVolumes ext pod app") (auto simp: patchSparkPod_def Let_def)
  from assms v obtain generalOps where g: "addGeneralConfigMaps ext pod app = Inr generalOps"
    by (cases "addGeneralConfigMaps ext pod app") (auto simp: patchSparkPod_def Let_def)
  from assms v g obtain sparkOps where s: "addSparkConfigMap ext pod app = Inr sparkOps"
    by (cases "addSparkConfigMap ext pod app") (auto simp: patchSparkPod_def Let_def)
  from assms v g s obtain hadoopOps where h: "addHadoopConfigMap ext pod app = Inr hadoopOps"
    by (cases "addHadoopConfigMap ext pod app") (auto simp: patchSparkPod_def Let_def)
  from assms v g s h
  have "ops = (if IsDriverPod ext pod then [addOwnerReference ext pod app] else [])
             @ volumeOps @ generalOps @ sparkOps @ hadoopOps
             @ addTolerations ext pod app
             @ (if ps_Affinity (pod_Spec pod) = None
                then emitted (addAffinity ext pod app)
                else [])
             @ (if ps_SecurityContext (pod_Spec pod) = None
                then emitted (addSecurityContext ext pod app)
                else [])"
    by (simp add: patchSparkPod_def Let_def split: option.splits if_splits)
  with v g s h show thesis by (rule that)
qed

subsection \<open>Operations of the array patchers\<close>

lemma addVolumes_loop_paths:
  assumes "addVolumes_loop pod volumeMap ms [] = Inr ops" and "op \<in> set ops"
  shows "isSpecArrayOp op"
proof -
  let ?contrib = "\<lambda>m. case volumeMap (vm_Name m) of
                         None \<Rightarrow> []
                       | Some v \<Rightarrow> [Inr (addVolume pod v), addVolumeMount pod m]"
  have eq: "map Inr ops = concat (map ?contrib ms)"
    using assms(1) by (rule addVolumes_loop_Inr)
  have "Inr op \<in> set (map Inr ops :: (panic + patchOperation) list)"
    using assms(2) by simp
  then have "Inr op \<in> set (concat (map ?contrib ms))"
    by (simp only: eq)
  then obtain m :: volumeMount where "Inr op \<in> set (?contrib m)"
    unfolding set_concat set_map by blast
  then show ?thesis
    by (auto intro: addVolume_path addVolumeMount_path split: option.splits)
qed

lemma addVolumes_paths:
  "addVolumes ext pod app = Inr ops \<Longrightarrow> op \<in> set ops \<Longrightarrow> isSpecArrayOp op"
  unfolding addVolumes_def Let_def by (rule addVolumes_loop_paths)

lemma addGeneralConfigMaps_loop_paths:
  assumes "addGeneralConfigMaps_loop pod nps [] = Inr ops" and "op \<in> set ops"
  shows "isSpecArrayOp op"
proof -
  let ?contrib = "\<lambda>np. [Inr (addConfigMapVolume pod (np_Name np)
                                (configMapVolumeName (np_Name np))),
                          addConfigMapVolumeMount pod (configMapVolumeName (np_Name np))
                            (np_Path np)]"
  have eq: "map Inr ops = concat (map ?contrib nps)"
    using assms(1) by (rule addGeneralConfigMaps_loop_Inr)
  have "Inr op \<in> set (map Inr ops :: (panic + patchOperation) list)"
    using assms(2) by simp
  then have "Inr op \<in> set (concat (map ?contrib nps))"
    by (simp only: eq)
  then obtain np :: namePath where "Inr op \<in> set (?contrib np)"
    unfolding set_concat set_map by blast
  then show ?thesis
    by (auto simp: addConfigMapVolume_def addConfigMapVolumeMount_def
        intro: addVolume_path addVolumeMount_path)
qed

lemma addGeneralConfigMaps_paths:
  "addGeneralConfigMaps ext pod app = Inr ops \<Longrightarrow> op \<in> set ops \<Longrightarrow> isSpecArrayOp op"
  unfolding addGeneralConfigMaps_def Let_def by (rule addGeneralConfigMaps_loop_paths)

lemma addSparkConfigMap_paths:
  "addSparkConfigMap ext pod app = Inr ops \<Longrightarrow> op \<in> set ops \<Longrightarrow> isSpecArrayOp op"
  by (auto simp: addSparkConfigMap_def Let_def addConfigMapVolume_def
      addConfigMapVolumeMount_def
      intro: addVolume_path addVolumeMount_path addEnvironmentVariable_path
      split: option.splits sum.splits)

lemma addHadoopConfigMap_paths:
  "addHadoopConfigMap ext pod app = Inr ops \<Longrightarrow> op \<in> set ops \<Longrightarrow> isSpecArrayOp op"
  by (auto simp: addHadoopConfigMap_def Let_def addConfigMapVolume_def
      addConfigMapVolumeMount_def
      intro: addVolume_path addVolumeMount_path addEnvironmentVariable_path
      split: option.splits sum.splits)

lemma addTolerations_map:
  "addTolerations ext pod app =
     map (addToleration pod) (case roleSpec ext pod app of None \<Rightarrow> [] | Some r \<Rightarrow> sps_Tolerations r)"
  by (simp add: addTolerations_def roleSpec_def Let_def addTolerations_loop_map)

lemma addTolerations_paths: "op \<in> set (addTolerations ext pod app) \<Longrightarrow> isSpecArrayOp op"
  by (auto simp: addTolerations_map addToleration_path)

lemma addAffinity_path: "addAffinity ext pod app = Some op \<Longrightarrow> isAffinityOp op"
  by (auto simp: addAffinity_def isAffinityOp_def Let_def split: option.splits)

lemma addSecurityContext_path:
  "addSecurityContext ext pod app = Some op \<Longrightarrow> isSecurityContextOp op"
  by (auto simp: addSecurityContext_def isSecurityContextOp_def Let_def split: option.splits)

lemma affinity_not_other:
  "isAffinityOp op \<Longrightarrow> \<not> isOwnerReferenceOp op \<and> \<not> isSecurityContextOp op"
  by (auto simp: isAffinityOp_def isOwnerReferenceOp_def isSecurityContextOp_def)

lemma securityContext_not_other:
  "isSecurityContextOp op \<Longrightarrow> \<not> isOwnerReferenceOp op \<and> \<not> isAffinityOp op"
  by (auto simp: isAffinityOp_def isOwnerReferenceOp_def isSecurityContextOp_def)

lemma ownerReference_not_other:
  "isOwnerReferenceOp op \<Longrightarrow> \<not> isAffinityOp op \<and> \<not> isSecurityContextOp op"
  by (auto simp: isAffinityOp_def isOwnerReferenceOp_def isSecurityContextOp_def)

lemma emitted_addAffinity:
  "op \<in> set (emitted (addAffinity ext pod app)) \<Longrightarrow> isAffinityOp op"
  by (cases "addAffinity ext pod app") (auto dest: addAffinity_path)

lemma emitted_addSecurityContext:
  "op \<in> set (emitted (addSecurityContext ext pod app)) \<Longrightarrow> isSecurityContextOp op"
  by (cases "addSecurityContext ext pod app") (auto dest: addSecurityContext_path)

lemma filter_none:
  "(\<And>x. x \<in> set xs \<Longrightarrow> \<not> P x) \<Longrightarrow> filter P xs = []"
  unfolding filter_empty_conv by blast

lemma filter_all:
  "(\<And>x. x \<in> set xs \<Longrightarrow> P x) \<Longrightarrow> filter P xs = xs"
  unfolding filter_id_conv by blast

lemma example_roles:
  "hasSparkContainer populatedDriverPod" "IsDriverPod exampleExt populatedDriverPod"
  "hasSparkContainer freshExecutorPod" "\<not> IsDriverPod exampleExt freshExecutorPod"
  "IsExecutorPod exampleExt freshExecutorPod"
  "\<not> hasSparkContainer strayDriverPod" "IsDriverPod exampleExt strayDriverPod"
  "hasSparkContainer unlabelledPod" "\<not> IsDriverPod exampleExt unlabelledPod"
  "\<not> IsExecutorPod exampleExt unlabelledPod"
  by (simp_all add: hasSparkContainer_def isSparkContainer_def sparkDriverContainerName_def
      sparkExecutorContainerName_def example_defs)

subsection \<open>Ownership\<close>

text \<open>
  Claim C3. The output of patch derivation contains an owner-reference add operation if and
  only if the pod is classified as the driver; for a driver pod it is the single operation
  built by \<open>addOwnerReference\<close>, for any other pod there is none. The derivation returns
  an output whenever the pod has a container with one of the two well-known names.
\<close>

theorem owner_reference_iff_driver:
  "(hasSparkContainer pod \<longrightarrow> (\<exists>ops. patchSparkPod ext pod app = Inr ops)) \<and>
   (\<forall>ops. patchSparkPod ext pod app = Inr ops \<longrightarrow>
      (list_ex isOwnerReferenceOp ops \<longleftrightarrow> IsDriverPod ext pod) \<and>
      filter isOwnerReferenceOp ops =
        (if IsDriverPod ext pod then [addOwnerReference ext pod app] else []))"
proof (intro conjI allI impI)
  assume "hasSparkContainer pod"
  then show "\<exists>ops. patchSparkPod ext pod app = Inr ops" by (rule patchSparkPod_total)
next
  fix ops
  assume run: "patchSparkPod ext pod app = Inr ops"
  from run obtain volumeOps generalOps sparkOps hadoopOps where
    parts: "addVolumes ext pod app = Inr volumeOps"
      "addGeneralConfigMaps ext pod app = Inr generalOps"
      "addSparkConfigMap ext pod app = Inr sparkOps"
      "addHadoopConfigMap ext pod app = Inr hadoopOps"
    and ops: "ops = (if IsDriverPod ext pod then [addOwnerReference ext pod app] else [])
             @ volumeOps @ generalOps @ sparkOps @ hadoopOps
             @ addTolerations ext pod app
             @ (if ps_Affinity (pod_Spec pod) = None
                then emitted (addAffinity ext pod app)
                else [])
             @ (if ps_SecurityContext (pod_Spec pod) = None
                then emitted (addSecurityContext ext pod app)
                else [])"
    by (rule patchSparkPod_Inr)
  have no_v: "filter isOwnerReferenceOp volumeOps = []"
    using parts(1) by (auto simp: filter_empty_conv dest: addVolumes_paths isSpecArrayOp_other)
  have no_g: "filter isOwnerReferenceOp generalOps = []"
    using parts(2)
    by (auto simp: filter_empty_conv dest: addGeneralConfigMaps_paths isSpecArrayOp_other)
  have no_s: "filter isOwnerReferenceOp sparkOps = []"
    using parts(3)
    by (auto simp: filter_empty_conv dest: addSparkConfigMap_paths isSpecArrayOp_other)
  have no_h: "filter isOwnerReferenceOp hadoopOps = []"
    using parts(4)
    by (auto simp: filter_empty_conv dest: addHadoopConfigMap_paths isSpecArrayOp_other)
  have no_t: "filter isOwnerReferenceOp (addTolerations ext pod app) = []"
    by (auto simp: filter_empty_conv dest: addTolerations_paths isSpecArrayOp_other)
  have no_a: "filter isOwnerReferenceOp
             (if ps_Affinity (pod_Spec pod) = None
              then emitted (addAffinity ext pod app) else []) = []"
    by (rule filter_none) (auto split: if_splits dest: emitted_addAffinity affinity_not_other)
  have no_c: "filter isOwnerReferenceOp
             (if ps_SecurityContext (pod_Spec pod) = None
              then emitted (addSecurityContext ext pod app) else []) = []"
    by (rule filter_none)
      (auto split: if_splits dest: emitted_addSecurityContext securityContext_not_other)
  have own: "filter isOwnerReferenceOp
               (if IsDriverPod ext pod then [addOwnerReference ext pod app] else [])
             = (if IsDriverPod ext pod then [addOwnerReference ext pod app] else [])"
    by (simp add: addOwnerReference_path)
  show filt: "filter isOwnerReferenceOp ops =
          (if IsDriverPod ext pod then [addOwnerReference ext pod app] else [])"
    by (simp only: ops filter_append own no_v no_g no_s no_h no_t no_a no_c append_Nil2)
  have "list_ex isOwnerReferenceOp ops \<longleftrightarrow> filter isOwnerReferenceOp ops \<noteq> []"
    by (simp add: list_ex_iff filter_empty_conv)
  then show "list_ex isOwnerReferenceOp ops \<longleftrightarrow> IsDriverPod ext pod"
    by (simp add: filt)
qed

theorem owner_reference_iff_driver_witness:
  "hasSparkContainer populatedDriverPod \<and>
   hasSparkContainer freshExecutorPod \<and>
   IsDriverPod exampleExt populatedDriverPod \<and>
   \<not> IsDriverPod exampleExt freshExecutorPod \<and>
   (\<exists>ops. patchSparkPod exampleExt populatedDriverPod exampleApp = Inr ops \<and>
          list_ex isOwnerReferenceOp ops \<and>
          filter isOwnerReferenceOp ops
            = [addOwnerReference exampleExt populatedDriverPod exampleApp]) \<and>
   (\<exists>ops. patchSparkPod exampleExt freshExecutorPod exampleApp = Inr ops \<and>
          \<not> list_ex isOwnerReferenceOp ops \<and>
          filter isOwnerReferenceOp ops = [])"
  using example_roles
    owner_reference_iff_driver [of populatedDriverPod exampleExt exampleApp]
    owner_reference_iff_driver [of freshExecutorPod exampleExt exampleApp]
  by auto

subsection \<open>Operations of one kind in the assembled sequence\<close>

lemma addAffinity_role:
  "addAffinity ext pod app =
     (case roleSpec ext pod app of
        None \<Rightarrow> None
      | Some r \<Rightarrow>
          (case sps_Affinity r of
             None \<Rightarrow> None
           | Some a \<Rightarrow> Some \<lparr>Op = ''add'', Path = ''/spec/affinity'', Value = AffinityValue a\<rparr>))"
  by (simp add: addAffinity_def roleSpec_def Let_def)

lemma addSecurityContext_role:
  "addSecurityContext ext pod app =
     (case roleSpec ext pod app of
        None \<Rightarrow> None
      | Some r \<Rightarrow>
          (case sps_SecurityContenxt r of
             None \<Rightarrow> None
           | Some sc \<Rightarrow>
               Some \<lparr>Op = ''add'', Path = ''/spec/securityContext'',
                     Value = SecurityContextValue sc\<rparr>))"
  by (simp add: addSecurityContext_def roleSpec_def Let_def)

lemma patchSparkPod_filter_affinity:
  assumes "patchSparkPod ext pod app = Inr ops"
  shows "filter isAffinityOp ops =
           (if ps_Affinity (pod_Spec pod) = None then emitted (addAffinity ext pod app) else [])"
proof -
  from assms obtain volumeOps generalOps sparkOps hadoopOps where
    parts: "addVolumes ext pod app = Inr volumeOps"
      "addGeneralConfigMaps ext pod app = Inr generalOps"
      "addSparkConfigMap ext pod app = Inr sparkOps"
      "addHadoopConfigMap ext pod app = Inr hadoopOps"
    and ops: "ops = (if IsDriverPod ext pod then [addOwnerReference ext pod app] else [])
             @ volumeOps @ generalOps @ sparkOps @ hadoopOps
             @ addTolerations ext pod app
             @ (if ps_Affinity (pod_Spec pod) = None
                then emitted (addAffinity ext pod app) else [])
             @ (if ps_SecurityContext (pod_Spec pod) = None
                then emitted (addSecurityContext ext pod app) else [])"
    by (rule patchSparkPod_Inr)
  have no_o: "filter isAffinityOp
                (if IsDriverPod ext pod then [addOwnerReference ext pod app] else []) = []"
    by (rule filter_none)
      (use ownerReference_not_other [OF addOwnerReference_path] in \<open>auto split: if_splits\<close>)
  have no_v: "filter isAffinityOp volumeOps = []"
    using parts(1) by (intro filter_none) (auto dest: addVolumes_paths isSpecArrayOp_other)
  have no_g: "filter isAffinityOp generalOps = []"
    using parts(2)
    by (intro filter_none) (auto dest: addGeneralConfigMaps_paths isSpecArrayOp_other)
  have no_s: "filter isAffinityOp sparkOps = []"
    using parts(3) by (intro filter_none) (auto dest: addSparkConfigMap_paths isSpecArrayOp_other)
  have no_h: "filter isAffinityOp hadoopOps = []"
    using parts(4)
    by (intro filter_none) (auto dest: addHadoopConfigMap_paths isSpecArrayOp_other)
  have no_t: "filter isAffinityOp (addTolerations ext pod app) = []"
    by (rule filter_none) (auto dest: addTolerations_paths isSpecArrayOp_other)
  have all_a: "filter isAffinityOp
                 (if ps_Affinity (pod_Spec pod) = None
                  then emitted (addAffinity ext pod app) else [])
               = (if ps_Affinity (pod_Spec pod) = None
                  then emitted (addAffinity ext pod app) else [])"
    by (rule filter_all) (auto split: if_splits dest: emitted_addAffinity)
  have no_c: "filter isAffinityOp
                (if ps_SecurityContext (pod_Spec pod) = None
                 then emitted (addSecurityContext ext pod app) else []) = []"
    by (rule filter_none)
      (auto split: if_splits dest: emitted_addSecurityContext securityContext_not_other)
  show ?thesis
    by (simp only: ops filter_append no_o no_v no_g no_s no_h no_t all_a no_c
        append_Nil append_Nil2)
qed

lemma patchSparkPod_filter_securityContext:
  assumes "patchSparkPod ext pod app = Inr ops"
  shows "filter isSecurityContextOp ops =
           (if ps_SecurityContext (pod_Spec pod) = None
            then emitted (addSecurityContext ext pod app) else [])"
proof -
  from assms obtain volumeOps generalOps sparkOps hadoopOps where
    parts: "addVolumes ext pod app = Inr volumeOps"
      "addGeneralConfigMaps ext pod app = Inr generalOps"
      "addSparkConfigMap ext pod app = Inr sparkOps"
      "addHadoopConfigMap ext pod app = Inr hadoopOps"
    and ops: "ops = (if IsDriverPod ext pod then [addOwnerReference ext pod app] else [])
             @ volumeOps @ generalOps @ sparkOps @ hadoopOps
             @ addTolerations ext pod app
             @ (if ps_Affinity (pod_Spec pod) = None
                then emitted (addAffinity ext pod app) else [])
             @ (if ps_SecurityContext (pod_Spec pod) = None
                then emitted (addSecurityContext ext pod app) else [])"
    by (rule patchSparkPod_Inr)
  have no_o: "filter isSecurityContextOp
                (if IsDriverPod ext pod then [addOwnerReference ext pod app] else []) = []"
    by (rule filter_none)
      (use ownerReference_not_other [OF addOwnerReference_path] in \<open>auto split: if_splits\<close>)
  have no_v: "filter isSecurityContextOp volumeOps = []"
    using parts(1) by (intro filter_none) (auto dest: addVolumes_paths isSpecArrayOp_other)
  have no_g: "filter isSecurityContextOp generalOps = []"
    using parts(2)
    by (intro filter_none) (auto dest: addGeneralConfigMaps_paths isSpecArrayOp_other)
  have no_s: "filter isSecurityContextOp sparkOps = []"
    using parts(3) by (intro filter_none) (auto dest: addSparkConfigMap_paths isSpecArrayOp_other)
  have no_h: "filter isSecurityContextOp hadoopOps = []"
    using parts(4)
    by (intro filter_none) (auto dest: addHadoopConfigMap_paths isSpecArrayOp_other)
  have no_t: "filter isSecurityContextOp (addTolerations ext pod app) = []"
    by (rule filter_none) (auto dest: addTolerations_paths isSpecArrayOp_other)
  have no_a: "filter isSecurityContextOp
                 (if ps_Affinity (pod_Spec pod) = None
                  then emitted (addAffinity ext pod app) else []) = []"
    by (rule filter_none) (auto split: if_splits dest: emitted_addAffinity affinity_not_other)
  have all_c: "filter isSecurityContextOp
                (if ps_SecurityContext (pod_Spec pod) = None
                 then emitted (addSecurityContext ext pod app) else [])
               = (if ps_SecurityContext (pod_Spec pod) = None
                 then emitted (addSecurityContext ext pod app) else [])"
    by (rule filter_all) (auto split: if_splits dest: emitted_addSecurityContext)
  show ?thesis
    by (simp only: ops filter_append no_o no_v no_g no_s no_h no_t no_a all_c
        append_Nil append_Nil2)
qed

subsection \<open>Affinity and security context\<close>

text \<open>
  Claim C4, as stated, at a concrete input: the executor pod has neither an affinity nor a
  security context, the descriptor declares none, and the output is empty, so no affinity
  and no security-context operation is present although both fields were absent.
\<close>

theorem absent_field_without_declaration_emits_nothing:
  "ps_Affinity (pod_Spec freshExecutorPod) = None \<and>
   ps_SecurityContext (pod_Spec freshExecutorPod) = None \<and>
   patchSparkPod exampleExt freshExecutorPod emptyApp = Inr []"
  by (simp add: patcher_defs example_defs Let_def)

text \<open>
  Claim C4, amended. An affinity add operation (respectively a security-context add
  operation) is present in the output if and only if the pod's field was absent beforehand
  and the descriptor declares one for the pod's role; in that case it is the only such
  operation and carries the declared value. When the field is already set on the pod, no
  operation for that field is emitted, whatever the descriptor declares.
\<close>

theorem affinity_and_security_context_only_if_absent:
  "(hasSparkContainer pod \<longrightarrow> (\<exists>ops. patchSparkPod ext pod app = Inr ops)) \<and>
   (\<forall>ops. patchSparkPod ext pod app = Inr ops \<longrightarrow>
      (list_ex isAffinityOp ops \<longleftrightarrow>
         ps_Affinity (pod_Spec pod) = None \<and>
         (\<exists>r a. roleSpec ext pod app = Some r \<and> sps_Affinity r = Some a)) \<and>
      (list_ex isSecurityContextOp ops \<longleftrightarrow>
         ps_SecurityContext (pod_Spec pod) = None \<and>
         (\<exists>r sc. roleSpec ext pod app = Some r \<and> sps_SecurityContenxt r = Some sc)) \<and>
      (\<forall>r a. ps_Affinity (pod_Spec pod) = None \<and> roleSpec ext pod app = Some r \<and>
             sps_Affinity r = Some a \<longrightarrow>
         filter isAffinityOp ops =
           [\<lparr>Op = ''add'', Path = ''/spec/affinity'', Value = AffinityValue a\<rparr>]) \<and>
      (\<forall>r sc. ps_SecurityContext (pod_Spec pod) = None \<and> roleSpec ext pod app = Some r \<and>
             sps_SecurityContenxt r = Some sc \<longrightarrow>
         filter isSecurityContextOp ops =
           [\<lparr>Op = ''add'', Path = ''/spec/securityContext'',
             Value = SecurityContextValue sc\<rparr>]) \<and>
      (ps_Affinity (pod_Spec pod) \<noteq> None \<longrightarrow> filter isAffinityOp ops = []) \<and>
      (ps_SecurityContext (pod_Spec pod) \<noteq> None \<longrightarrow> filter isSecurityContextOp ops = []))"
proof (intro conjI allI impI)
  assume "hasSparkContainer pod"
  then show "\<exists>ops. patchSparkPod ext pod app = Inr ops" by (rule patchSparkPod_total)
next
  fix ops
  assume run: "patchSparkPod ext pod app = Inr ops"
  have fa: "filter isAffinityOp ops =
              (if ps_Affinity (pod_Spec pod) = None then emitted (addAffinity ext pod app)
               else [])"
    using run by (rule patchSparkPod_filter_affinity)
  have fs: "filter isSecurityContextOp ops =
              (if ps_SecurityContext (pod_Spec pod) = None
               then emitted (addSecurityContext ext pod app) else [])"
    using run by (rule patchSparkPod_filter_securityContext)
  have la: "list_ex isAffinityOp ops \<longleftrightarrow> filter isAffinityOp ops \<noteq> []"
    by (simp add: list_ex_iff filter_empty_conv)
  have ls: "list_ex isSecurityContextOp ops \<longleftrightarrow> filter isSecurityContextOp ops \<noteq> []"
    by (simp add: list_ex_iff filter_empty_conv)
  show "list_ex isAffinityOp ops \<longleftrightarrow>
          ps_Affinity (pod_Spec pod) = None \<and>
          (\<exists>r a. roleSpec ext pod app = Some r \<and> sps_Affinity r = Some a)"
    unfolding la fa by (simp add: addAffinity_role split: option.split)
  show "list_ex isSecurityContextOp ops \<longleftrightarrow>
          ps_SecurityContext (pod_Spec pod) = None \<and>
          (\<exists>r sc. roleSpec ext pod app = Some r \<and> sps_SecurityContenxt r = Some sc)"
    unfolding ls fs by (simp add: addSecurityContext_role split: option.split)
  show "filter isAffinityOp ops = []" if "ps_Affinity (pod_Spec pod) \<noteq> None"
    using that unfolding fa by auto
  show "filter isSecurityContextOp ops = []" if "ps_SecurityContext (pod_Spec pod) \<noteq> None"
    using that unfolding fs by auto
next
  fix ops r a
  assume run: "patchSparkPod ext pod app = Inr ops"
    and d: "ps_Affinity (pod_Spec pod) = None \<and> roleSpec ext pod app = Some r \<and>
            sps_Affinity r = Some a"
  have "filter isAffinityOp ops =
              (if ps_Affinity (pod_Spec pod) = None then emitted (addAffinity ext pod app)
               else [])"
    using run by (rule patchSparkPod_filter_affinity)
  with d show "filter isAffinityOp ops =
           [\<lparr>Op = ''add'', Path = ''/spec/affinity'', Value = AffinityValue a\<rparr>]"
    by (simp add: addAffinity_role)
next
  fix ops r sc
  assume run: "patchSparkPod ext pod app = Inr ops"
    and d: "ps_SecurityContext (pod_Spec pod) = None \<and> roleSpec ext pod app = Some r \<and>
            sps_SecurityContenxt r = Some sc"
  have "filter isSecurityContextOp ops =
              (if ps_SecurityContext (pod_Spec pod) = None
               then emitted (addSecurityContext ext pod app) else [])"
    using run by (rule patchSparkPod_filter_securityContext)
  with d show "filter isSecurityContextOp ops =
           [\<lparr>Op = ''add'', Path = ''/spec/securityContext'',
             Value = SecurityContextValue sc\<rparr>]"
    by (simp add: addSecurityContext_role)
qed

theorem affinity_and_security_context_only_if_absent_witness:
  "hasSparkContainer freshDriverPod \<and>
   ps_Affinity (pod_Spec freshDriverPod) = None \<and>
   ps_SecurityContext (pod_Spec freshDriverPod) = None \<and>
   roleSpec exampleExt freshDriverPod exampleApp = Some (sas_Driver (app_Spec exampleApp)) \<and>
   sps_Affinity (sas_Driver (app_Spec exampleApp)) = Some (Affinity ''zone-b'') \<and>
   sps_SecurityContenxt (sas_Driver (app_Spec exampleApp))
     = Some (PodSecurityContext ''runAsUser=1000'') \<and>
   (\<exists>ops. patchSparkPod exampleExt freshDriverPod exampleApp = Inr ops \<and>
      list_ex isAffinityOp ops \<and> list_ex isSecurityContextOp ops \<and>
      filter isAffinityOp ops =
        [\<lparr>Op = ''add'', Path = ''/spec/affinity'', Value = AffinityValue (Affinity ''zone-b'')\<rparr>] \<and>
      filter isSecurityContextOp ops =
        [\<lparr>Op = ''add'', Path = ''/spec/securityContext'',
          Value = SecurityContextValue (PodSecurityContext ''runAsUser=1000'')\<rparr>]) \<and>
   hasSparkContainer populatedDriverPod \<and>
   ps_Affinity (pod_Spec populatedDriverPod) \<noteq> None \<and>
   ps_SecurityContext (pod_Spec populatedDriverPod) \<noteq> None \<and>
   (\<exists>ops. patchSparkPod exampleExt populatedDriverPod exampleApp = Inr ops \<and>
      \<not> list_ex isAffinityOp ops \<and> \<not> list_ex isSecurityContextOp ops \<and>
      filter isAffinityOp ops = [] \<and> filter isSecurityContextOp ops = [])"
proof -
  have f: "hasSparkContainer freshDriverPod"
    "ps_Affinity (pod_Spec freshDriverPod) = None"
    "ps_SecurityContext (pod_Spec freshDriverPod) = None"
    "roleSpec exampleExt freshDriverPod exampleApp = Some (sas_Driver (app_Spec exampleApp))"
    "sps_Affinity (sas_Driver (app_Spec exampleApp)) = Some (Affinity ''zone-b'')"
    "sps_SecurityContenxt (sas_Driver (app_Spec exampleApp))
       = Some (PodSecurityContext ''runAsUser=1000'')"
    by (simp_all add: hasSparkContainer_def isSparkContainer_def sparkDriverContainerName_def
        roleSpec_def freshDriverPod_def example_defs)
  have p: "hasSparkContainer populatedDriverPod"
    "ps_Affinity (pod_Spec populatedDriverPod) \<noteq> None"
    "ps_SecurityContext (pod_Spec populatedDriverPod) \<noteq> None"
    by (simp_all add: hasSparkContainer_def isSparkContainer_def sparkDriverContainerName_def
        example_defs)
  note t1 = affinity_and_security_context_only_if_absent
              [of freshDriverPod exampleExt exampleApp]
  note t2 = affinity_and_security_context_only_if_absent
              [of populatedDriverPod exampleExt exampleApp]
  from t1 [THEN conjunct1] f(1)
  obtain ops1 where r1: "patchSparkPod exampleExt freshDriverPod exampleApp = Inr ops1"
    by (elim impE exE)
  from t2 [THEN conjunct1] p(1)
  obtain ops2 where r2: "patchSparkPod exampleExt populatedDriverPod exampleApp = Inr ops2"
    by (elim impE exE)
  note c1 = t1 [THEN conjunct2, rule_format, OF r1]
  note c2 = t2 [THEN conjunct2, rule_format, OF r2]
  have a1: "list_ex isAffinityOp ops1"
    using c1 [THEN conjunct1] f(2,4,5) by simp
  have s1: "list_ex isSecurityContextOp ops1"
    using c1 [THEN conjunct2, THEN conjunct1] f(3,4,6) by simp
  have fa1: "filter isAffinityOp ops1 =
        [\<lparr>Op = ''add'', Path = ''/spec/affinity'', Value = AffinityValue (Affinity ''zone-b'')\<rparr>]"
    using c1 [THEN conjunct2, THEN conjunct2, THEN conjunct1, rule_format,
              of "sas_Driver (app_Spec exampleApp)" "Affinity ''zone-b''"] f(2,4,5)
    by simp
  have fs1: "filter isSecurityContextOp ops1 =
        [\<lparr>Op = ''add'', Path = ''/spec/securityContext'',
          Value = SecurityContextValue (PodSecurityContext ''runAsUser=1000'')\<rparr>]"
    using c1 [THEN conjunct2, THEN conjunct2, THEN conjunct2, THEN conjunct1, rule_format,
              of "sas_Driver (app_Spec exampleApp)" "PodSecurityContext ''runAsUser=1000''"]
      f(3,4,6)
    by simp
  have fa2: "filter isAffinityOp ops2 = []"
    using c2 [THEN conjunct2, THEN conjunct2, THEN conjunct2, THEN conjunct2, THEN conjunct1]
      p(2) by (elim impE)
  have fs2: "filter isSecurityContextOp ops2 = []"
    using c2 [THEN conjunct2, THEN conjunct2, THEN conjunct2, THEN conjunct2, THEN conjunct2]
      p(3) by (elim impE)
  have a2: "\<not> list_ex isAffinityOp ops2"
    using c2 [THEN conjunct1] p(2) by simp
  have s2: "\<not> list_ex isSecurityContextOp ops2"
    using c2 [THEN conjunct2, THEN conjunct1] p(3) by simp
  from r1 a1 s1 fa1 fs1
  have e1: "\<exists>ops. patchSparkPod exampleExt freshDriverPod exampleApp = Inr ops \<and>
      list_ex isAffinityOp ops \<and> list_ex isSecurityContextOp ops \<and>
      filter isAffinityOp ops =
        [\<lparr>Op = ''add'', Path = ''/spec/affinity'', Value = AffinityValue (Affinity ''zone-b'')\<rparr>] \<and>
      filter isSecurityContextOp ops =
        [\<lparr>Op = ''add'', Path = ''/spec/securityContext'',
          Value = SecurityContextValue (PodSecurityContext ''runAsUser=1000'')\<rparr>]"
    by (intro exI [of _ ops1] conjI)
  from r2 a2 s2 fa2 fs2
  have e2: "\<exists>ops. patchSparkPod exampleExt populatedDriverPod exampleApp = Inr ops \<and>
      \<not> list_ex isAffinityOp ops \<and> \<not> list_ex isSecurityContextOp ops \<and>
      filter isAffinityOp ops = [] \<and> filter isSecurityContextOp ops = []"
    by (intro exI [of _ ops2] conjI)
  from f p e1 e2 show ?thesis by (intro conjI)
qed

subsection \<open>Order of the assembled sequence\<close>

text \<open>
  Claim C8. The output sequence is the concatenation, in this order, of the ownership
  operation (driver pods only), the volume/mount pairs, the general config-map operations,
  the Spark config-map operations, the Hadoop config-map operations, the toleration
  operations, the affinity operation (only when the pod has no affinity) and the
  security-context operation (only when the pod has no security context). An output exists
  whenever the pod has a container with one of the two well-known names.
\<close>

theorem patchSparkPod_fixed_order:
  "(hasSparkContainer pod \<longrightarrow> (\<exists>ops. patchSparkPod ext pod app = Inr ops)) \<and>
   (\<forall>ops. patchSparkPod ext pod app = Inr ops \<longrightarrow>
      (\<exists>volumeOps generalOps sparkOps hadoopOps.
         addVolumes ext pod app = Inr volumeOps \<and>
         addGeneralConfigMaps ext pod app = Inr generalOps \<and>
         addSparkConfigMap ext pod app = Inr sparkOps \<and>
         addHadoopConfigMap ext pod app = Inr hadoopOps \<and>
         ops = (if IsDriverPod ext pod then [addOwnerReference ext pod app] else [])
                 @ volumeOps @ generalOps @ sparkOps @ hadoopOps
                 @ addTolerations ext pod app
                 @ (if ps_Affinity (pod_Spec pod) = None
                    then emitted (addAffinity ext pod app) else [])
                 @ (if ps_SecurityContext (pod_Spec pod) = None
                    then emitted (addSecurityContext ext pod app) else [])))"
proof (intro conjI allI impI)
  assume "hasSparkContainer pod"
  then show "\<exists>ops. patchSparkPod ext pod app = Inr ops" by (rule patchSparkPod_total)
next
  fix ops
  assume "patchSparkPod ext pod app = Inr ops"
  then obtain volumeOps generalOps sparkOps hadoopOps where
    "addVolumes ext pod app = Inr volumeOps"
    "addGeneralConfigMaps ext pod app = Inr generalOps"
    "addSparkConfigMap ext pod app = Inr sparkOps"
    "addHadoopConfigMap ext pod app = Inr hadoopOps"
    "ops = (if IsDriverPod ext pod then [addOwnerReference ext pod app] else [])
             @ volumeOps @ generalOps @ sparkOps @ hadoopOps
             @ addTolerations ext pod app
             @ (if ps_Affinity (pod_Spec pod) = None
                then emitted (addAffinity ext pod app) else [])
             @ (if ps_SecurityContext (pod_Spec pod) = None
                then emitted (addSecurityContext ext pod app) else [])"
    by (rule patchSparkPod_Inr)
  then show "\<exists>volumeOps generalOps sparkOps hadoopOps.
         addVolumes ext pod app = Inr volumeOps \<and>
         addGeneralConfigMaps ext pod app = Inr generalOps \<and>
         addSparkConfigMap ext pod app = Inr sparkOps \<and>
         addHadoopConfigMap ext pod app = Inr hadoopOps \<and>
         ops = (if IsDriverPod ext pod then [addOwnerReference ext pod app] else [])
                 @ volumeOps @ generalOps @ sparkOps @ hadoopOps
                 @ addTolerations ext pod app
                 @ (if ps_Affinity (pod_Spec pod) = None
                    then emitted (addAffinity ext pod app) else [])
                 @ (if ps_SecurityContext (pod_Spec pod) = None
                    then emitted (addSecurityContext ext pod app) else [])"
    by (intro exI conjI)
qed

text \<open>
  The scenario of the specification: a driver pod without volumes or owners and a
  descriptor with an application config map, general config maps, mounts, tolerations,
  affinity and security context; the eleven operations come out in the fixed order.
\<close>

theorem patchSparkPod_fixed_order_witness:
  "hasSparkContainer freshDriverPod \<and>
   addVolumes exampleExt freshDriverPod exampleApp =
     Inr [\<lparr>Op = ''add'', Path = ''/spec/volumes'', Value = VolumeArray [dataVolume]\<rparr>,
          \<lparr>Op = ''add'', Path = ''/spec/containers/0/volumeMounts'',
           Value = VolumeMountArray [dataMount]\<rparr>] \<and>
   addGeneralConfigMaps exampleExt freshDriverPod exampleApp =
     Inr [\<lparr>Op = ''add'', Path = ''/spec/volumes'',
           Value = VolumeArray [\<lparr>vol_Name = ''cm1-vol'',
                                 vol_VolumeSource = ConfigMapVolumeSource ''cm1''\<rparr>]\<rparr>,
          \<lparr>Op = ''add'', Path = ''/spec/containers/0/volumeMounts'',
           Value = VolumeMountArray [\<lparr>vm_Name = ''cm1-vol'', vm_ReadOnly = True,
                                      vm_MountPath = ''/etc/cm1''\<rparr>]\<rparr>] \<and>
   addSparkConfigMap exampleExt freshDriverPod exampleApp =
     Inr [\<lparr>Op = ''add'', Path = ''/spec/volumes'',
           Value = VolumeArray [\<lparr>vol_Name = ''spark-configmap-volume'',
                                 vol_VolumeSource = ConfigMapVolumeSource ''my-config''\<rparr>]\<rparr>,
          \<lparr>Op = ''add'', Path = ''/spec/containers/0/volumeMounts'',
           Value = VolumeMountArray [\<lparr>vm_Name = ''spark-configmap-volume'',
                                      vm_ReadOnly = True,
                                      vm_MountPath = ''/etc/spark/conf''\<rparr>]\<rparr>,
          \<lparr>Op = ''add'', Path = ''/spec/containers/0/env'',
           Value = EnvVarArray [\<lparr>env_Name = ''SPARK_CONF_DIR'',
                                 env_Value = ''/etc/spark/conf''\<rparr>]\<rparr>] \<and>
   addHadoopConfigMap exampleExt freshDriverPod exampleApp = Inr [] \<and>
   patchSparkPod exampleExt freshDriverPod exampleApp =
     Inr [\<lparr>Op = ''add'', Path = ''/metadata/ownerReferences'',
           Value = OwnerReferenceArray [exampleGetOwnerReference exampleApp]\<rparr>,
          \<lparr>Op = ''add'', Path = ''/spec/volumes'', Value = VolumeArray [dataVolume]\<rparr>,
          \<lparr>Op = ''add'', Path = ''/spec/containers/0/volumeMounts'',
           Value = VolumeMountArray [dataMount]\<rparr>,
          \<lparr>Op = ''add'', Path = ''/spec/volumes'',
           Value = VolumeArray [\<lparr>vol_Name = ''cm1-vol'',
                                 vol_VolumeSource = ConfigMapVolumeSource ''cm1''\<rparr>]\<rparr>,
          \<lparr>Op = ''add'', Path = ''/spec/containers/0/volumeMounts'',
           Value = VolumeMountArray [\<lparr>vm_Name = ''cm1-vol'', vm_ReadOnly = True,
                                      vm_MountPath = ''/etc/cm1''\<rparr>]\<rparr>,
          \<lparr>Op = ''add'', Path = ''/spec/volumes'',
           Value = VolumeArray [\<lparr>vol_Name = ''spark-configmap-volume'',
                                 vol_VolumeSource = ConfigMapVolumeSource ''my-config''\<rparr>]\<rparr>,
          \<lparr>Op = ''add'', Path = ''/spec/containers/0/volumeMounts'',
           Value = VolumeMountArray [\<lparr>vm_Name = ''spark-configmap-volume'',
                                      vm_ReadOnly = True,
                                      vm_MountPath = ''/etc/spark/conf''\<rparr>]\<rparr>,
          \<lparr>Op = ''add'', Path = ''/spec/containers/0/env'',
           Value = EnvVarArray [\<lparr>env_Name = ''SPARK_CONF_DIR'',
                                 env_Value = ''/etc/spark/conf''\<rparr>]\<rparr>,
          \<lparr>Op = ''add'', Path = ''/spec/tolerations'',
           Value = TolerationArray [spotToleration]\<rparr>,
          \<lparr>Op = ''add'', Path = ''/spec/affinity'',
           Value = AffinityValue (Affinity ''zone-b'')\<rparr>,
          \<lparr>Op = ''add'', Path = ''/spec/securityContext'',
           Value = SecurityContextValue (PodSecurityContext ''runAsUser=1000'')\<rparr>]"
proof -
  have has: "hasSparkContainer freshDriverPod"
    by (simp add: hasSparkContainer_def isSparkContainer_def sparkDriverContainerName_def
        freshDriverPod_def)
  have v: "addVolumes exampleExt freshDriverPod exampleApp =
     Inr [\<lparr>Op = ''add'', Path = ''/spec/volumes'', Value = VolumeArray [dataVolume]\<rparr>,
          \<lparr>Op = ''add'', Path = ''/spec/containers/0/volumeMounts'',
           Value = VolumeMountArray [dataMount]\<rparr>]"
    by (simp add: patcher_defs example_defs freshDriverPod_def findContainer.simps
        sprintf_d.simps digit_def Let_def)
  have g: "addGeneralConfigMaps exampleExt freshDriverPod exampleApp =
     Inr [\<lparr>Op = ''add'', Path = ''/spec/volumes'',
           Value = VolumeArray [\<lparr>vol_Name = ''cm1-vol'',
                                 vol_VolumeSource = ConfigMapVolumeSource ''cm1''\<rparr>]\<rparr>,
          \<lparr>Op = ''add'', Path = ''/spec/containers/0/volumeMounts'',
           Value = VolumeMountArray [\<lparr>vm_Name = ''cm1-vol'', vm_ReadOnly = True,
                                      vm_MountPath = ''/etc/cm1''\<rparr>]\<rparr>]"
    by (simp add: patcher_defs example_defs freshDriverPod_def findContainer.simps
        sprintf_d.simps digit_def Let_def)
  have s: "addSparkConfigMap exampleExt freshDriverPod exampleApp =
     Inr [\<lparr>Op = ''add'', Path = ''/spec/volumes'',
           Value = VolumeArray [\<lparr>vol_Name = ''spark-configmap-volume'',
                                 vol_VolumeSource = ConfigMapVolumeSource ''my-config''\<rparr>]\<rparr>,
          \<lparr>Op = ''add'', Path = ''/spec/containers/0/volumeMounts'',
           Value = VolumeMountArray [\<lparr>vm_Name = ''spark-configmap-volume'',
                                      vm_ReadOnly = True,
                                      vm_MountPath = ''/etc/spark/conf''\<rparr>]\<rparr>,
          \<lparr>Op = ''add'', Path = ''/spec/containers/0/env'',
           Value = EnvVarArray [\<lparr>env_Name = ''SPARK_CONF_DIR'',
                                 env_Value = ''/etc/spark/conf''\<rparr>]\<rparr>]"
    by (simp add: patcher_defs example_defs freshDriverPod_def findContainer.simps
        sprintf_d.simps digit_def Let_def)
  have h: "addHadoopConfigMap exampleExt freshDriverPod exampleApp = Inr []"
    by (simp add: patcher_defs example_defs)
  from patchSparkPod_fixed_order [of freshDriverPod exampleExt exampleApp] has
  obtain ops where run: "patchSparkPod exampleExt freshDriverPod exampleApp = Inr ops"
    by blast
  with patchSparkPod_fixed_order [of freshDriverPod exampleExt exampleApp]
  obtain volumeOps generalOps sparkOps hadoopOps where
    parts: "addVolumes exampleExt freshDriverPod exampleApp = Inr volumeOps"
      "addGeneralConfigMaps exampleExt freshDriverPod exampleApp = Inr generalOps"
      "addSparkConfigMap exampleExt freshDriverPod exampleApp = Inr sparkOps"
      "addHadoopConfigMap exampleExt freshDriverPod exampleApp = Inr hadoopOps"
    and ops: "ops =
        (if IsDriverPod exampleExt freshDriverPod
         then [addOwnerReference exampleExt freshDriverPod exampleApp] else [])
        @ volumeOps @ generalOps @ sparkOps @ hadoopOps
        @ addTolerations exampleExt freshDriverPod exampleApp
        @ (if ps_Affinity (pod_Spec freshDriverPod) = None
           then emitted (addAffinity exampleExt freshDriverPod exampleApp) else [])
        @ (if ps_SecurityContext (pod_Spec freshDriverPod) = None
           then emitted (addSecurityContext exampleExt freshDriverPod exampleApp) else [])"
    by blast
  from parts v g s h have eqs:
    "volumeOps = [\<lparr>Op = ''add'', Path = ''/spec/volumes'', Value = VolumeArray [dataVolume]\<rparr>,
          \<lparr>Op = ''add'', Path = ''/spec/containers/0/volumeMounts'',
           Value = VolumeMountArray [dataMount]\<rparr>]"
    "generalOps = [\<lparr>Op = ''add'', Path = ''/spec/volumes'',
           Value = VolumeArray [\<lparr>vol_Name = ''cm1-vol'',
                                 vol_VolumeSource = ConfigMapVolumeSource ''cm1''\<rparr>]\<rparr>,
          \<lparr>Op = ''add'', Path = ''/spec/containers/0/volumeMounts'',
           Value = VolumeMountArray [\<lparr>vm_Name = ''cm1-vol'', vm_ReadOnly = True,
                                      vm_MountPath = ''/etc/cm1''\<rparr>]\<rparr>]"
    "sparkOps = [\<lparr>Op = ''add'', Path = ''/spec/volumes'',
           Value = VolumeArray [\<lparr>vol_Name = ''spark-configmap-volume'',
                                 vol_VolumeSource = ConfigMapVolumeSource ''my-config''\<rparr>]\<rparr>,
          \<lparr>Op = ''add'', Path = ''/spec/containers/0/volumeMounts'',
           Value = VolumeMountArray [\<lparr>vm_Name = ''spark-configmap-volume'',
                                      vm_ReadOnly = True,
                                      vm_MountPath = ''/etc/spark/conf''\<rparr>]\<rparr>,
          \<lparr>Op = ''add'', Path = ''/spec/containers/0/env'',
           Value = EnvVarArray [\<lparr>env_Name = ''SPARK_CONF_DIR'',
                                 env_Value = ''/etc/spark/conf''\<rparr>]\<rparr>]"
    "hadoopOps = []"
    by simp_all
  have rest:
    "IsDriverPod exampleExt freshDriverPod"
    "addOwnerReference exampleExt freshDriverPod exampleApp =
       \<lparr>Op = ''add'', Path = ''/metadata/ownerReferences'',
        Value = OwnerReferenceArray [exampleGetOwnerReference exampleApp]\<rparr>"
    "addTolerations exampleExt freshDriverPod exampleApp =
       [\<lparr>Op = ''add'', Path = ''/spec/tolerations'', Value = TolerationArray [spotToleration]\<rparr>]"
    "ps_Affinity (pod_Spec freshDriverPod) = None"
    "ps_SecurityContext (pod_Spec freshDriverPod) = None"
    "addAffinity exampleExt freshDriverPod exampleApp =
       Some \<lparr>Op = ''add'', Path = ''/spec/affinity'', Value = AffinityValue (Affinity ''zone-b'')\<rparr>"
    "addSecurityContext exampleExt freshDriverPod exampleApp =
       Some \<lparr>Op = ''add'', Path = ''/spec/securityContext'',
             Value = SecurityContextValue (PodSecurityContext ''runAsUser=1000'')\<rparr>"
    by (simp_all add: patcher_defs example_defs freshDriverPod_def Let_def)
  have "ops = [\<lparr>Op = ''add'', Path = ''/metadata/ownerReferences'',
           Value = OwnerReferenceArray [exampleGetOwnerReference exampleApp]\<rparr>,
          \<lparr>Op = ''add'', Path = ''/spec/volumes'', Value = VolumeArray [dataVolume]\<rparr>,
          \<lparr>Op = ''add'', Path = ''/spec/containers/0/volumeMounts'',
           Value = VolumeMountArray [dataMount]\<rparr>,
          \<lparr>Op = ''add'', Path = ''/spec/volumes'',
           Value = VolumeArray [\<lparr>vol_Name = ''cm1-vol'',
                                 vol_VolumeSource = ConfigMapVolumeSource ''cm1''\<rparr>]\<rparr>,
          \<lparr>Op = ''add'', Path = ''/spec/containers/0/volumeMounts'',
           Value = VolumeMountArray [\<lparr>vm_Name = ''cm1-vol'', vm_ReadOnly = True,
                                      vm_MountPath = ''/etc/cm1''\<rparr>]\<rparr>,
          \<lparr>Op = ''add'', Path = ''/spec/volumes'',
           Value = VolumeArray [\<lparr>vol_Name = ''spark-configmap-volume'',
                                 vol_VolumeSource = ConfigMapVolumeSource ''my-config''\<rparr>]\<rparr>,
          \<lparr>Op = ''add'', Path = ''/spec/containers/0/volumeMounts'',
           Value = VolumeMountArray [\<lparr>vm_Name = ''spark-configmap-volume'',
                                      vm_ReadOnly = True,
                                      vm_MountPath = ''/etc/spark/conf''\<rparr>]\<rparr>,
          \<lparr>Op = ''add'', Path = ''/spec/containers/0/env'',
           Value = EnvVarArray [\<lparr>env_Name = ''SPARK_CONF_DIR'',
                                 env_Value = ''/etc/spark/conf''\<rparr>]\<rparr>,
          \<lparr>Op = ''add'', Path = ''/spec/tolerations'',
           Value = TolerationArray [spotToleration]\<rparr>,
          \<lparr>Op = ''add'', Path = ''/spec/affinity'',
           Value = AffinityValue (Affinity ''zone-b'')\<rparr>,
          \<lparr>Op = ''add'', Path = ''/spec/securityContext'',
           Value = SecurityContextValue (PodSecurityContext ''runAsUser=1000'')\<rparr>]"
    by (simp only: ops eqs rest if_True emitted.simps append.simps simp_thms)
  with run has v g s h show ?thesis by (simp only: simp_thms)
qed

subsection \<open>Volumes and mounts\<close>

text \<open>
  Claim C5. In the output of \<open>addVolumes\<close>, a mount point of the pod's role whose name is
  no declared volume's name contributes nothing; a mount point whose name is declared
  contributes the add-volume operation of that volume (the last declared one of that name)
  immediately followed by its add-mount operation; the contributions appear in the order of
  the role's mount list. The patcher returns whenever the pod has a container with one of
  the two well-known names.
\<close>

theorem addVolumes_filter_join:
  "(hasSparkContainer pod \<longrightarrow> (\<exists>ops. addVolumes ext pod app = Inr ops)) \<and>
   (\<forall>ops. addVolumes ext pod app = Inr ops \<longrightarrow>
      map Inr ops =
        concat (map (\<lambda>m. if vm_Name m \<notin> vol_Name ` set (sas_Volumes (app_Spec app))
                           then []
                           else [Inr (addVolume pod
                                        (the (find (\<lambda>v. vol_Name v = vm_Name m)
                                                (rev (sas_Volumes (app_Spec app)))))),
                                 addVolumeMount pod m])
                    (case roleSpec ext pod app of
                       None \<Rightarrow> []
                     | Some r \<Rightarrow> sps_VolumeMounts r)))"
proof (intro conjI allI impI)
  assume "hasSparkContainer pod"
  then show "\<exists>ops. addVolumes ext pod app = Inr ops" by (rule addVolumes_total)
next
  fix ops
  assume run: "addVolumes ext pod app = Inr ops"
  let ?volumes = "sas_Volumes (app_Spec app)"
  let ?mounts = "case roleSpec ext pod app of None \<Rightarrow> [] | Some r \<Rightarrow> sps_VolumeMounts r"
  have mounts: "(if IsDriverPod ext pod then sps_VolumeMounts (sas_Driver (app_Spec app))
                 else if IsExecutorPod ext pod
                      then sps_VolumeMounts (sas_Executor (app_Spec app))
                      else []) = ?mounts"
    by (simp add: roleSpec_def)
  from run have "addVolumes_loop pod (volumeMapOf ?volumes) ?mounts [] = Inr ops"
    by (simp only: addVolumes_def Let_def mounts)
  then have "map Inr ops =
      concat (map (\<lambda>m. case volumeMapOf ?volumes (vm_Name m) of
                          None \<Rightarrow> []
                        | Some v \<Rightarrow> [Inr (addVolume pod v), addVolumeMount pod m]) ?mounts)"
    by (rule addVolumes_loop_Inr)
  also have "(\<lambda>m. case volumeMapOf ?volumes (vm_Name m) of
                          None \<Rightarrow> []
                        | Some v \<Rightarrow> [Inr (addVolume pod v), addVolumeMount pod m])
             = (\<lambda>m. if vm_Name m \<notin> vol_Name ` set ?volumes
                           then []
                           else [Inr (addVolume pod
                                        (the (find (\<lambda>v. vol_Name v = vm_Name m)
                                                (rev ?volumes)))),
                                 addVolumeMount pod m])"
  proof (rule ext)
    fix m
    show "(case volumeMapOf ?volumes (vm_Name m) of
             None \<Rightarrow> []
           | Some v \<Rightarrow> [Inr (addVolume pod v), addVolumeMount pod m])
          = (if vm_Name m \<notin> vol_Name ` set ?volumes
             then []
             else [Inr (addVolume pod
                          (the (find (\<lambda>v. vol_Name v = vm_Name m) (rev ?volumes)))),
                   addVolumeMount pod m])"
    proof (cases "find (\<lambda>v. vol_Name v = vm_Name m) (rev ?volumes)")
      case None
      then have "vm_Name m \<notin> vol_Name ` set ?volumes"
        by (force simp: find_None_iff image_iff)
      with None show ?thesis by (simp only: volumeMapOf_find option.case simp_thms if_True)
    next
      case (Some v)
      have "vm_Name m \<in> vol_Name ` set ?volumes"
      proof (rule ccontr)
        assume "vm_Name m \<notin> vol_Name ` set ?volumes"
        then have "find (\<lambda>v. vol_Name v = vm_Name m) (rev ?volumes) = None"
          by (force simp: find_None_iff image_iff)
        with Some show False by simp
      qed
      with Some show ?thesis
        by (simp only: volumeMapOf_find option.case option.sel simp_thms if_False)
    qed
  qed
  finally show "map Inr ops =
        concat (map (\<lambda>m. if vm_Name m \<notin> vol_Name ` set ?volumes
                           then []
                           else [Inr (addVolume pod
                                        (the (find (\<lambda>v. vol_Name v = vm_Name m)
                                                (rev ?volumes)))),
                                 addVolumeMount pod m])
                    ?mounts)" .
qed

theorem addVolumes_filter_join_witness:
  "hasSparkContainer freshExecutorPod \<and>
   roleSpec exampleExt freshExecutorPod exampleApp = Some (sas_Executor (app_Spec exampleApp)) \<and>
   sps_VolumeMounts (sas_Executor (app_Spec exampleApp)) = [logsMount, ghostMount, dataMount] \<and>
   vol_Name ` set (sas_Volumes (app_Spec exampleApp)) = {''data'', ''logs''} \<and>
   vm_Name ghostMount \<notin> vol_Name ` set (sas_Volumes (app_Spec exampleApp)) \<and>
   addVolumes exampleExt freshExecutorPod exampleApp =
     Inr [\<lparr>Op = ''add'', Path = ''/spec/volumes'', Value = VolumeArray [logsVolume]\<rparr>,
          \<lparr>Op = ''add'', Path = ''/spec/containers/1/volumeMounts'',
           Value = VolumeMountArray [logsMount]\<rparr>,
          \<lparr>Op = ''add'', Path = ''/spec/volumes'', Value = VolumeArray [dataVolume]\<rparr>,
          \<lparr>Op = ''add'', Path = ''/spec/containers/1/volumeMounts'',
           Value = VolumeMountArray [dataMount]\<rparr>]"
proof -
  let ?expected =
    "[\<lparr>Op = ''add'', Path = ''/spec/volumes'', Value = VolumeArray [logsVolume]\<rparr>,
      \<lparr>Op = ''add'', Path = ''/spec/containers/1/volumeMounts'',
       Value = VolumeMountArray [logsMount]\<rparr>,
      \<lparr>Op = ''add'', Path = ''/spec/volumes'', Value = VolumeArray [dataVolume]\<rparr>,
      \<lparr>Op = ''add'', Path = ''/spec/containers/1/volumeMounts'',
       Value = VolumeMountArray [dataMount]\<rparr>]"
  have facts:
    "hasSparkContainer freshExecutorPod"
    "roleSpec exampleExt freshExecutorPod exampleApp = Some (sas_Executor (app_Spec exampleApp))"
    "sps_VolumeMounts (sas_Executor (app_Spec exampleApp)) = [logsMount, ghostMount, dataMount]"
    "vol_Name ` set (sas_Volumes (app_Spec exampleApp)) = {''data'', ''logs''}"
    "vm_Name ghostMount \<notin> vol_Name ` set (sas_Volumes (app_Spec exampleApp))"
    by (simp_all add: hasSparkContainer_def isSparkContainer_def sparkDriverContainerName_def
        sparkExecutorContainerName_def roleSpec_def example_defs)
  note inst = addVolumes_filter_join [of freshExecutorPod exampleExt exampleApp]
  from inst [THEN conjunct1] facts(1)
  obtain ops where run: "addVolumes exampleExt freshExecutorPod exampleApp = Inr ops"
    by (elim impE exE)
  have "map Inr ops =
        concat (map (\<lambda>m. if vm_Name m \<notin> vol_Name ` set (sas_Volumes (app_Spec exampleApp))
                           then []
                           else [Inr (addVolume freshExecutorPod
                                        (the (find (\<lambda>v. vol_Name v = vm_Name m)
                                                (rev (sas_Volumes (app_Spec exampleApp)))))),
                                 addVolumeMount freshExecutorPod m])
                    (case roleSpec exampleExt freshExecutorPod exampleApp of
                       None \<Rightarrow> []
                     | Some r \<Rightarrow> sps_VolumeMounts r))"
    using inst [THEN conjunct2, rule_format, OF run] .
  also have "\<dots> = map Inr ?expected"
    by (simp add: roleSpec_def addVolume_def addVolumeMount_def Let_def findContainer.simps
        sprintf_d.simps digit_def sparkDriverContainerName_def sparkExecutorContainerName_def
        example_defs)
  finally have "ops = ?expected"
    by (simp only: inj_map_eq_map [OF inj_Inr])
  with run facts show ?thesis by (simp only: simp_thms)
qed

subsection \<open>General config maps\<close>

text \<open>
  Claim C6. For a general config reference whose name has length \<open>L\<close>, the volume name
  used in both the emitted volume operation and the emitted mount operation is the first
  63 characters of \<open>name + "-vol"\<close> when \<open>L + 4 > 63\<close>, and \<open>name + "-vol"\<close> itself when
  \<open>L + 4 \<le> 63\<close>. The patcher returns whenever the pod has a container with one of the
  two well-known names.
\<close>

theorem general_config_map_volume_name:
  "(hasSparkContainer pod \<longrightarrow> (\<exists>ops. addGeneralConfigMaps ext pod app = Inr ops)) \<and>
   (\<forall>ops. addGeneralConfigMaps ext pod app = Inr ops \<longrightarrow>
      map Inr ops =
        concat (map (\<lambda>np.
                  [Inr (addVolume pod
                          \<lparr>vol_Name = (if length (np_Name np) + 4 > 63
                                        then take 63 (np_Name np @ ''-vol'')
                                        else np_Name np @ ''-vol''),
                           vol_VolumeSource = ConfigMapVolumeSource (np_Name np)\<rparr>),
                   addVolumeMount pod
                     \<lparr>vm_Name = (if length (np_Name np) + 4 > 63
                                  then take 63 (np_Name np @ ''-vol'')
                                  else np_Name np @ ''-vol''),
                      vm_ReadOnly = True, vm_MountPath = np_Path np\<rparr>])
                (case roleSpec ext pod app of
                   None \<Rightarrow> []
                 | Some r \<Rightarrow> sps_ConfigMaps r)))"
proof (intro conjI allI impI)
  assume "hasSparkContainer pod"
  then show "\<exists>ops. addGeneralConfigMaps ext pod app = Inr ops"
    by (rule addGeneralConfigMaps_total)
next
  fix ops
  assume run: "addGeneralConfigMaps ext pod app = Inr ops"
  let ?configMaps = "case roleSpec ext pod app of None \<Rightarrow> [] | Some r \<Rightarrow> sps_ConfigMaps r"
  have configMaps: "(if IsDriverPod ext pod then sps_ConfigMaps (sas_Driver (app_Spec app))
                 else if IsExecutorPod ext pod
                      then sps_ConfigMaps (sas_Executor (app_Spec app))
                      else []) = ?configMaps"
    by (simp add: roleSpec_def)
  have name: "configMapVolumeName n =
                (if length n + 4 > 63 then take 63 (n @ ''-vol'') else n @ ''-vol'')" for n
    by (simp add: configMapVolumeName_def maxNameLength_def Let_def)
  from run have "addGeneralConfigMaps_loop pod ?configMaps [] = Inr ops"
    by (simp only: addGeneralConfigMaps_def Let_def configMaps)
  then have "map Inr ops =
     concat (map (\<lambda>np. [Inr (addConfigMapVolume pod (np_Name np)
                                (configMapVolumeName (np_Name np))),
                          addConfigMapVolumeMount pod (configMapVolumeName (np_Name np))
                            (np_Path np)]) ?configMaps)"
    by (rule addGeneralConfigMaps_loop_Inr)
  then show "map Inr ops =
        concat (map (\<lambda>np.
                  [Inr (addVolume pod
                          \<lparr>vol_Name = (if length (np_Name np) + 4 > 63
                                        then take 63 (np_Name np @ ''-vol'')
                                        else np_Name np @ ''-vol''),
                           vol_VolumeSource = ConfigMapVolumeSource (np_Name np)\<rparr>),
                   addVolumeMount pod
                     \<lparr>vm_Name = (if length (np_Name np) + 4 > 63
                                  then take 63 (np_Name np @ ''-vol'')
                                  else np_Name np @ ''-vol''),
                      vm_ReadOnly = True, vm_MountPath = np_Path np\<rparr>])
                ?configMaps)"
    by (simp only: addConfigMapVolume_def addConfigMapVolumeMount_def name)
qed

theorem general_config_map_volume_name_witness:
  "hasSparkContainer freshExecutorPod \<and>
   length ''cm1'' + 4 \<le> 63 \<and>
   length longName + 4 > 63 \<and>
   take 63 (longName @ ''-vol'') = replicate 63 CHR ''n'' \<and>
   addGeneralConfigMaps exampleExt freshExecutorPod exampleApp =
     Inr [\<lparr>Op = ''add'', Path = ''/spec/volumes'',
           Value = VolumeArray [\<lparr>vol_Name = ''cm1-vol'',
                                 vol_VolumeSource = ConfigMapVolumeSource ''cm1''\<rparr>]\<rparr>,
          \<lparr>Op = ''add'', Path = ''/spec/containers/1/volumeMounts'',
           Value = VolumeMountArray [\<lparr>vm_Name = ''cm1-vol'', vm_ReadOnly = True,
                                      vm_MountPath = ''/etc/cm1''\<rparr>]\<rparr>,
          \<lparr>Op = ''add'', Path = ''/spec/volumes'',
           Value = VolumeArray [\<lparr>vol_Name = replicate 63 CHR ''n'',
                                 vol_VolumeSource = ConfigMapVolumeSource longName\<rparr>]\<rparr>,
          \<lparr>Op = ''add'', Path = ''/spec/containers/1/volumeMounts'',
           Value = VolumeMountArray [\<lparr>vm_Name = replicate 63 CHR ''n'', vm_ReadOnly = True,
                                      vm_MountPath = ''/etc/long''\<rparr>]\<rparr>]"
proof -
  let ?expected =
    "[\<lparr>Op = ''add'', Path = ''/spec/volumes'',
           Value = VolumeArray [\<lparr>vol_Name = ''cm1-vol'',
                                 vol_VolumeSource = ConfigMapVolumeSource ''cm1''\<rparr>]\<rparr>,
          \<lparr>Op = ''add'', Path = ''/spec/containers/1/volumeMounts'',
           Value = VolumeMountArray [\<lparr>vm_Name = ''cm1-vol'', vm_ReadOnly = True,
                                      vm_MountPath = ''/etc/cm1''\<rparr>]\<rparr>,
          \<lparr>Op = ''add'', Path = ''/spec/volumes'',
           Value = VolumeArray [\<lparr>vol_Name = replicate 63 CHR ''n'',
                                 vol_VolumeSource = ConfigMapVolumeSource longName\<rparr>]\<rparr>,
          \<lparr>Op = ''add'', Path = ''/spec/containers/1/volumeMounts'',
           Value = VolumeMountArray [\<lparr>vm_Name = replicate 63 CHR ''n'', vm_ReadOnly = True,
                                      vm_MountPath = ''/etc/long''\<rparr>]\<rparr>]"
  have has: "hasSparkContainer freshExecutorPod"
    by (simp add: hasSparkContainer_def isSparkContainer_def sparkDriverContainerName_def
        sparkExecutorContainerName_def example_defs)
  have short: "length ''cm1'' + 4 \<le> 63"
    by simp
  have long: "length longName + 4 > 63"
    by (simp add: longName_def)
  have cut: "take 63 (longName @ ''-vol'') = replicate 63 CHR ''n''"
    by (simp add: longName_def)
  note facts = has short long cut
  note inst = general_config_map_volume_name [of freshExecutorPod exampleExt exampleApp]
  from inst [THEN conjunct1] facts(1)
  obtain ops where run: "addGeneralConfigMaps exampleExt freshExecutorPod exampleApp = Inr ops"
    by (elim impE exE)
  note inst [THEN conjunct2, rule_format, OF run]
  also have "concat (map (\<lambda>np.
                  [Inr (addVolume freshExecutorPod
                          \<lparr>vol_Name = (if length (np_Name np) + 4 > 63
                                        then take 63 (np_Name np @ ''-vol'')
                                        else np_Name np @ ''-vol''),
                           vol_VolumeSource = ConfigMapVolumeSource (np_Name np)\<rparr>),
                   addVolumeMount freshExecutorPod
                     \<lparr>vm_Name = (if length (np_Name np) + 4 > 63
                                  then take 63 (np_Name np @ ''-vol'')
                                  else np_Name np @ ''-vol''),
                      vm_ReadOnly = True, vm_MountPath = np_Path np\<rparr>])
                (case roleSpec exampleExt freshExecutorPod exampleApp of
                   None \<Rightarrow> []
                 | Some r \<Rightarrow> sps_ConfigMaps r)) = map Inr ?expected"
    by (simp add: longName_def roleSpec_def addVolume_def addVolumeMount_def Let_def
        findContainer.simps sprintf_d.simps digit_def sparkDriverContainerName_def
        sparkExecutorContainerName_def example_defs)
  finally have "ops = ?expected"
    by (simp only: inj_map_eq_map [OF inj_Inr])
  with run facts show ?thesis by (simp only: simp_thms)
qed

subsection \<open>Pods of neither role\<close>

text \<open>
  Claim C10. For a pod classified as neither driver nor executor, the volume/mount patcher
  and the general config-map patcher return the empty list, the toleration patcher returns
  the empty list, and the affinity and security-context patchers return no operation,
  whatever the descriptor declares for either role.
\<close>

theorem no_role_emits_nothing:
  "\<not> IsDriverPod ext pod \<and> \<not> IsExecutorPod ext pod \<longrightarrow>
     addVolumes ext pod app = Inr [] \<and>
     addGeneralConfigMaps ext pod app = Inr [] \<and>
     addTolerations ext pod app = [] \<and>
     addAffinity ext pod app = None \<and>
     addSecurityContext ext pod app = None"
  by (simp add: addVolumes_def addGeneralConfigMaps_def addTolerations_def addAffinity_def
      addSecurityContext_def Let_def)

theorem no_role_emits_nothing_witness:
  "\<not> IsDriverPod exampleExt unlabelledPod \<and>
   \<not> IsExecutorPod exampleExt unlabelledPod \<and>
   sps_VolumeMounts (sas_Driver (app_Spec exampleApp)) \<noteq> [] \<and>
   sps_VolumeMounts (sas_Executor (app_Spec exampleApp)) \<noteq> [] \<and>
   sps_ConfigMaps (sas_Driver (app_Spec exampleApp)) \<noteq> [] \<and>
   sps_Tolerations (sas_Executor (app_Spec exampleApp)) \<noteq> [] \<and>
   sps_Affinity (sas_Executor (app_Spec exampleApp)) \<noteq> None \<and>
   sps_SecurityContenxt (sas_Driver (app_Spec exampleApp)) \<noteq> None \<and>
   addVolumes exampleExt unlabelledPod exampleApp = Inr [] \<and>
   addGeneralConfigMaps exampleExt unlabelledPod exampleApp = Inr [] \<and>
   addTolerations exampleExt unlabelledPod exampleApp = [] \<and>
   addAffinity exampleExt unlabelledPod exampleApp = None \<and>
   addSecurityContext exampleExt unlabelledPod exampleApp = None"
proof -
  have role: "\<not> IsDriverPod exampleExt unlabelledPod \<and> \<not> IsExecutorPod exampleExt unlabelledPod"
    by (simp add: example_defs)
  have declared:
    "sps_VolumeMounts (sas_Driver (app_Spec exampleApp)) \<noteq> []"
    "sps_VolumeMounts (sas_Executor (app_Spec exampleApp)) \<noteq> []"
    "sps_ConfigMaps (sas_Driver (app_Spec exampleApp)) \<noteq> []"
    "sps_Tolerations (sas_Executor (app_Spec exampleApp)) \<noteq> []"
    "sps_Affinity (sas_Executor (app_Spec exampleApp)) \<noteq> None"
    "sps_SecurityContenxt (sas_Driver (app_Spec exampleApp)) \<noteq> None"
    by (simp_all add: exampleApp_def)
  from no_role_emits_nothing [of exampleExt unlabelledPod exampleApp, rule_format, OF role]
    role declared
  show ?thesis by (intro conjI) (elim conjE, assumption)+
qed

subsection \<open>Panics of the container-touching patchers\<close>

lemma volumeMapOf_None: "volumeMapOf volumes n = None \<longleftrightarrow> n \<notin> vol_Name ` set volumes"
  unfolding volumeMapOf_find find_None_iff by (force simp: image_iff)

lemma addVolumes_loop_panic_value:
  "\<not> hasSparkContainer pod \<Longrightarrow> addVolumes_loop pod volumeMap ms acc = Inl e \<Longrightarrow>
   e = IndexOutOfRange (length (ps_Containers (pod_Spec pod)))
         (length (ps_Containers (pod_Spec pod)))"
proof (induction ms arbitrary: acc)
  case Nil
  then show ?case by simp
next
  case (Cons m ms)
  show ?case
  proof (cases "volumeMap (vm_Name m)")
    case None
    with Cons show ?thesis by simp
  next
    case (Some v)
    with Cons.prems show ?thesis by (simp add: addVolumeMount_panics)
  qed
qed

lemma addVolumes_loop_panics:
  "\<not> hasSparkContainer pod \<Longrightarrow> \<exists>m\<in>set ms. volumeMap (vm_Name m) \<noteq> None \<Longrightarrow>
   \<exists>e. addVolumes_loop pod volumeMap ms acc = Inl e"
proof (induction ms arbitrary: acc)
  case Nil
  then show ?case by simp
next
  case (Cons m ms)
  show ?case
  proof (cases "volumeMap (vm_Name m)")
    case None
    with Cons.prems have "\<exists>m\<in>set ms. volumeMap (vm_Name m) \<noteq> None" by auto
    with Cons.IH [OF Cons.prems(1)] None show ?thesis by simp
  next
    case (Some v)
    with Cons.prems(1) show ?thesis by (simp add: addVolumeMount_panics)
  qed
qed

lemma addGeneralConfigMaps_loop_panics:
  "\<not> hasSparkContainer pod \<Longrightarrow> nps \<noteq> [] \<Longrightarrow>
   addGeneralConfigMaps_loop pod nps acc =
     Inl (IndexOutOfRange (length (ps_Containers (pod_Spec pod)))
            (length (ps_Containers (pod_Spec pod))))"
  by (cases nps) (simp_all add: Let_def addConfigMapVolumeMount_def addVolumeMount_panics)

lemma addGeneralConfigMaps_loop_panic_value:
  "\<not> hasSparkContainer pod \<Longrightarrow> addGeneralConfigMaps_loop pod nps acc = Inl e \<Longrightarrow>
   e = IndexOutOfRange (length (ps_Containers (pod_Spec pod)))
         (length (ps_Containers (pod_Spec pod)))"
  by (cases nps) (simp_all add: Let_def addConfigMapVolumeMount_def addVolumeMount_panics)

lemma addSparkConfigMap_without_container:
  "\<not> hasSparkContainer pod \<Longrightarrow>
   addSparkConfigMap ext pod app =
     (case sas_SparkConfigMap (app_Spec app) of
        None \<Rightarrow> Inr []
      | Some n \<Rightarrow> Inl (IndexOutOfRange (length (ps_Containers (pod_Spec pod)))
                         (length (ps_Containers (pod_Spec pod)))))"
  by (simp add: addSparkConfigMap_def Let_def addConfigMapVolumeMount_def
      addVolumeMount_panics split: option.split)

lemma addHadoopConfigMap_without_container:
  "\<not> hasSparkContainer pod \<Longrightarrow>
   addHadoopConfigMap ext pod app =
     (case sas_HadoopConfigMap (app_Spec app) of
        None \<Rightarrow> Inr []
      | Some n \<Rightarrow> Inl (IndexOutOfRange (length (ps_Containers (pod_Spec pod)))
                         (length (ps_Containers (pod_Spec pod)))))"
  by (simp add: addHadoopConfigMap_def Let_def addConfigMapVolumeMount_def
      addVolumeMount_panics split: option.split)

subsection \<open>A pod without a Spark container\<close>

text \<open>
  Claim C2 asks for an explicit \<open>ContainerNotFound\<close> error, and no partial output, when no
  container carries one of the two well-known names and the descriptor requires touching
  a container. The source has no such error: the scan leaves \<open>i\<close> at the length of the
  container list and the index expression that follows panics. What the code does on every
  such input is a run-time index-out-of-range panic at index \<open>len(pod.Spec.Containers)\<close>.
\<close>

theorem patchSparkPod_panics_without_container:
  "\<not> hasSparkContainer pod \<and> needsContainer ext pod app \<longrightarrow>
   patchSparkPod ext pod app =
     Inl (IndexOutOfRange (length (ps_Containers (pod_Spec pod)))
            (length (ps_Containers (pod_Spec pod))))"
proof
  assume a: "\<not> hasSparkContainer pod \<and> needsContainer ext pod app"
  then have nc: "\<not> hasSparkContainer pod" and needs: "needsContainer ext pod app" by simp_all
  let ?p = "IndexOutOfRange (length (ps_Containers (pod_Spec pod)))
              (length (ps_Containers (pod_Spec pod)))"
  have v: "addVolumes ext pod app = Inl e \<Longrightarrow> e = ?p" for e
    unfolding addVolumes_def Let_def using nc by (rule addVolumes_loop_panic_value)
  have g: "addGeneralConfigMaps ext pod app = Inl e \<Longrightarrow> e = ?p" for e
    unfolding addGeneralConfigMaps_def Let_def
    using nc by (rule addGeneralConfigMaps_loop_panic_value)
  have s: "addSparkConfigMap ext pod app = Inl e \<Longrightarrow> e = ?p" for e
    by (auto simp: addSparkConfigMap_without_container [OF nc] split: option.splits)
  have h: "addHadoopConfigMap ext pod app = Inl e \<Longrightarrow> e = ?p" for e
    by (auto simp: addHadoopConfigMap_without_container [OF nc] split: option.splits)
  have some: "(\<exists>e. addVolumes ext pod app = Inl e) \<or>
              (\<exists>e. addGeneralConfigMaps ext pod app = Inl e) \<or>
              (\<exists>e. addSparkConfigMap ext pod app = Inl e) \<or>
              (\<exists>e. addHadoopConfigMap ext pod app = Inl e)"
  proof -
    from needs consider
      (mount) r where "roleSpec ext pod app = Some r"
        "list_ex (\<lambda>m. vm_Name m \<in> vol_Name ` set (sas_Volumes (app_Spec app)))
           (sps_VolumeMounts r)"
      | (general) r where "roleSpec ext pod app = Some r" "sps_ConfigMaps r \<noteq> []"
      | (spark) "sas_SparkConfigMap (app_Spec app) \<noteq> None"
      | (hadoop) "sas_HadoopConfigMap (app_Spec app) \<noteq> None"
      by (auto simp: needsContainer_def split: option.splits)
    then show ?thesis
    proof cases
      case mount
      from mount(2) have ex: "\<exists>m\<in>set (sps_VolumeMounts r).
          volumeMapOf (sas_Volumes (app_Spec app)) (vm_Name m) \<noteq> None"
        by (simp only: list_ex_iff volumeMapOf_None not_not)
      have "(if IsDriverPod ext pod then sps_VolumeMounts (sas_Driver (app_Spec app))
             else if IsExecutorPod ext pod
                  then sps_VolumeMounts (sas_Executor (app_Spec app))
                  else []) = sps_VolumeMounts r"
        using mount(1) by (auto simp: roleSpec_def split: if_splits)
      then have "\<exists>e. addVolumes ext pod app = Inl e"
        unfolding addVolumes_def Let_def
        using addVolumes_loop_panics [OF nc ex] by simp
      then show ?thesis by simp
    next
      case general
      have "(if IsDriverPod ext pod then sps_ConfigMaps (sas_Driver (app_Spec app))
             else if IsExecutorPod ext pod
                  then sps_ConfigMaps (sas_Executor (app_Spec app))
                  else []) = sps_ConfigMaps r"
        using general(1) by (auto simp: roleSpec_def split: if_splits)
      then have "\<exists>e. addGeneralConfigMaps ext pod app = Inl e"
        unfolding addGeneralConfigMaps_def Let_def
        using addGeneralConfigMaps_loop_panics [OF nc general(2)] by simp
      then show ?thesis by simp
    next
      case spark
      then have "\<exists>e. addSparkConfigMap ext pod app = Inl e"
        by (auto simp: addSparkConfigMap_without_container [OF nc])
      then show ?thesis by simp
    next
      case hadoop
      then have "\<exists>e. addHadoopConfigMap ext pod app = Inl e"
        by (auto simp: addHadoopConfigMap_without_container [OF nc])
      then show ?thesis by simp
    qed
  qed
  show "patchSparkPod ext pod app = Inl ?p"
  proof (cases "addVolumes ext pod app")
    case (Inl e)
    with v [OF Inl] show ?thesis by (simp add: patchSparkPod_def Let_def)
  next
    case vr: (Inr volumeOps)
    show ?thesis
    proof (cases "addGeneralConfigMaps ext pod app")
      case (Inl e)
      with g [OF Inl] vr show ?thesis by (simp add: patchSparkPod_def Let_def)
    next
      case gr: (Inr generalOps)
      show ?thesis
      proof (cases "addSparkConfigMap ext pod app")
        case (Inl e)
        with s [OF Inl] vr gr show ?thesis by (simp add: patchSparkPod_def Let_def)
      next
        case sr: (Inr sparkOps)
        show ?thesis
        proof (cases "addHadoopConfigMap ext pod app")
          case (Inl e)
          with h [OF Inl] vr gr sr show ?thesis by (simp add: patchSparkPod_def Let_def)
        next
          case (Inr hadoopOps)
          with some vr gr sr show ?thesis by simp
        qed
      qed
    qed
  qed
qed

text \<open>
  The driver pod with the single container \<open>istio-proxy\<close> and a descriptor with a matched
  mount: the derivation panics at index 1 of a container list of length 1.
\<close>

theorem patchSparkPod_panics_without_container_witness:
  "\<not> hasSparkContainer strayDriverPod \<and>
   needsContainer exampleExt strayDriverPod exampleApp \<and>
   length (ps_Containers (pod_Spec strayDriverPod)) = 1 \<and>
   patchSparkPod exampleExt strayDriverPod exampleApp = Inl (IndexOutOfRange 1 1)"
proof -
  have facts: "\<not> hasSparkContainer strayDriverPod"
    "needsContainer exampleExt strayDriverPod exampleApp"
    by (simp_all add: hasSparkContainer_def isSparkContainer_def needsContainer_def
        roleSpec_def sparkDriverContainerName_def sparkExecutorContainerName_def example_defs)
  have len: "length (ps_Containers (pod_Spec strayDriverPod)) = 1"
    by (simp add: strayDriverPod_def)
  from patchSparkPod_panics_without_container [of strayDriverPod exampleExt exampleApp] facts
  have "patchSparkPod exampleExt strayDriverPod exampleApp =
          Inl (IndexOutOfRange (length (ps_Containers (pod_Spec strayDriverPod)))
                 (length (ps_Containers (pod_Spec strayDriverPod))))"
    by (elim impE) (intro conjI)
  with facts len show ?thesis by (simp only: simp_thms)
qed

subsection \<open>Several tolerations for a pod without tolerations\<close>

text \<open>
  Claim C7 asks that, for a pod whose toleration array is empty, the entries after the
  first be emitted as appends. The source calls \<open>addToleration\<close> with the unchanged pod for
  every entry, so the decision is taken from the pod's original toleration count for each
  entry alike, and for an empty array every entry, also those after the first, takes the
  create shape: the bare path with a one-element array.
\<close>

theorem addTolerations_create_shape_for_every_entry:
  "ps_Tolerations (pod_Spec pod) = [] \<longrightarrow>
   addTolerations ext pod app =
     map (\<lambda>t. \<lparr>Op = ''add'', Path = ''/spec/tolerations'', Value = TolerationArray [t]\<rparr>)
       (case roleSpec ext pod app of None \<Rightarrow> [] | Some r \<Rightarrow> sps_Tolerations r)"
  by (simp add: addTolerations_map addToleration_def Let_def)

text \<open>
  The executor pod has no tolerations and the executor role declares two: both operations
  address \<open>/spec/tolerations\<close> with a one-element array.
\<close>

theorem addTolerations_create_shape_for_every_entry_witness:
  "ps_Tolerations (pod_Spec freshExecutorPod) = [] \<and>
   roleSpec exampleExt freshExecutorPod exampleApp = Some (sas_Executor (app_Spec exampleApp)) \<and>
   sps_Tolerations (sas_Executor (app_Spec exampleApp)) = [spotToleration, gpuToleration] \<and>
   addTolerations exampleExt freshExecutorPod exampleApp =
     [\<lparr>Op = ''add'', Path = ''/spec/tolerations'', Value = TolerationArray [spotToleration]\<rparr>,
      \<lparr>Op = ''add'', Path = ''/spec/tolerations'', Value = TolerationArray [gpuToleration]\<rparr>]"
proof -
  have facts: "ps_Tolerations (pod_Spec freshExecutorPod) = []"
    "roleSpec exampleExt freshExecutorPod exampleApp = Some (sas_Executor (app_Spec exampleApp))"
    "sps_Tolerations (sas_Executor (app_Spec exampleApp)) = [spotToleration, gpuToleration]"
    by (simp_all add: roleSpec_def exampleExt_def exampleIsDriverPod_def
        exampleIsExecutorPod_def freshExecutorPod_def exampleApp_def)
  from addTolerations_create_shape_for_every_entry [of freshExecutorPod exampleExt exampleApp]
    facts(1)
  have "addTolerations exampleExt freshExecutorPod exampleApp =
     map (\<lambda>t. \<lparr>Op = ''add'', Path = ''/spec/tolerations'', Value = TolerationArray [t]\<rparr>)
       (case roleSpec exampleExt freshExecutorPod exampleApp of
          None \<Rightarrow> [] | Some r \<Rightarrow> sps_Tolerations r)"
    by (elim impE)
  then have "addTolerations exampleExt freshExecutorPod exampleApp =
     [\<lparr>Op = ''add'', Path = ''/spec/tolerations'', Value = TolerationArray [spotToleration]\<rparr>,
      \<lparr>Op = ''add'', Path = ''/spec/tolerations'', Value = TolerationArray [gpuToleration]\<rparr>]"
    by (simp only: facts(2,3) option.case list.map)
  with facts show ?thesis by (simp only: simp_thms)
qed

subsection \<open>Frame rules of the statements\<close>

lemma preserves_setVars: "preserves (setVars f)"
  by (simp add: preserves_def setVars_def)

lemma preserves_skip: "preserves (\<lambda>s. Normal s)"
  by (simp add: preserves_def)

lemma preservesD_Normal: "preserves st \<Longrightarrow> st s = Normal s' \<Longrightarrow> heap_pod s' = heap_pod s"
  by (auto simp: preserves_def split: outcome.splits dest!: spec [of _ s])

lemma preservesD_Panicked: "preserves st \<Longrightarrow> st s = Panicked e h \<Longrightarrow> h = heap_pod s"
  by (auto simp: preserves_def split: outcome.splits dest!: spec [of _ s])

lemma preservesI:
  "(\<And>s s'. st s = Normal s' \<Longrightarrow> heap_pod s' = heap_pod s) \<Longrightarrow>
   (\<And>s e h. st s = Panicked e h \<Longrightarrow> h = heap_pod s) \<Longrightarrow> preserves st"
  by (auto simp: preserves_def split: outcome.splits)

lemma preserves_block_Nil: "preserves (block [])"
  by (simp add: preserves_def)

lemma preserves_block_Cons:
  assumes "preserves st" and "preserves (block sts)"
  shows "preserves (block (st # sts))"
proof (rule preservesI)
  fix s s'
  assume run: "block (st # sts) s = Normal s'"
  then obtain s1 where s1: "st s = Normal s1" and rest: "block sts s1 = Normal s'"
    by (cases "st s") simp_all
  from assms(1) s1 have "heap_pod s1 = heap_pod s" by (rule preservesD_Normal)
  moreover from assms(2) rest have "heap_pod s' = heap_pod s1" by (rule preservesD_Normal)
  ultimately show "heap_pod s' = heap_pod s" by simp
next
  fix s e h
  assume run: "block (st # sts) s = Panicked e h"
  show "h = heap_pod s"
  proof (cases "st s")
    case (Normal s1)
    with run have rest: "block sts s1 = Panicked e h" by simp
    from assms(1) Normal have "heap_pod s1 = heap_pod s" by (rule preservesD_Normal)
    moreover from assms(2) rest have "h = heap_pod s1" by (rule preservesD_Panicked)
    ultimately show ?thesis by simp
  next
    case (Panicked e' h')
    with run have "h' = h" by simp
    moreover from assms(1) Panicked have "h' = heap_pod s" by (rule preservesD_Panicked)
    ultimately show ?thesis by simp
  qed
qed

lemma forEach_Normal:
  assumes "\<And>x. preserves (body x)"
  shows "forEach xs body s = Normal s' \<Longrightarrow> heap_pod s' = heap_pod s"
proof (induction xs arbitrary: s)
  case Nil
  then show ?case by simp
next
  case (Cons x xs)
  from Cons.prems obtain s1 where s1: "body x s = Normal s1"
      and rest: "forEach xs body s1 = Normal s'"
    by (cases "body x s") simp_all
  from assms [of x] s1 have "heap_pod s1 = heap_pod s" by (rule preservesD_Normal)
  with Cons.IH [OF rest] show ?case by simp
qed

lemma forEach_Panicked:
  assumes "\<And>x. preserves (body x)"
  shows "forEach xs body s = Panicked e h \<Longrightarrow> h = heap_pod s"
proof (induction xs arbitrary: s)
  case Nil
  then show ?case by simp
next
  case (Cons x xs)
  show ?case
  proof (cases "body x s")
    case (Normal s1)
    with Cons.prems have rest: "forEach xs body s1 = Panicked e h" by simp
    from assms [of x] Normal have "heap_pod s1 = heap_pod s" by (rule preservesD_Normal)
    with Cons.IH [OF rest] show ?thesis by simp
  next
    case (Panicked e' h')
    with Cons.prems have "h' = h" by simp
    moreover from assms [of x] Panicked have "h' = heap_pod s" by (rule preservesD_Panicked)
    ultimately show ?thesis by simp
  qed
qed

lemma preserves_forEach: "(\<And>x. preserves (body x)) \<Longrightarrow> preserves (forEach xs body)"
  by (rule preservesI) (erule (1) forEach_Normal, erule (1) forEach_Panicked)

lemma preserves_rangeOver: "(\<And>x. preserves (body x)) \<Longrightarrow> preserves (rangeOver xs body)"
  unfolding rangeOver_def
  by (rule preservesI) (erule (1) forEach_Normal, erule (1) forEach_Panicked)

lemma preserves_ifThenElse: "preserves a \<Longrightarrow> preserves b \<Longrightarrow> preserves (ifThenElse c a b)"
  by (simp add: preserves_def ifThenElse_def)

lemma preserves_ifCall:
  assumes "\<And>h. snd (c h) = h" and "preserves a" and "preserves b"
  shows "preserves (ifCall c a b)"
proof -
  have eq: "ifCall c a b s = (if fst (c (heap_pod s)) then a s else b s)" for s :: "'a frame"
  proof -
    obtain r where c: "c (heap_pod s) = (r, heap_pod s)"
      using assms(1) [of "heap_pod s"] by (cases "c (heap_pod s)") simp
    have same: "s\<lparr>heap_pod := heap_pod s\<rparr> = s" by simp
    show ?thesis by (simp add: ifCall_def c same)
  qed
  show ?thesis
  proof (rule preservesI)
    fix s s' :: "'a frame"
    assume "ifCall c a b s = Normal s'"
    then show "heap_pod s' = heap_pod s"
      using assms(2,3) unfolding eq by (auto split: if_splits dest: preservesD_Normal)
  next
    fix s :: "'a frame" and e h
    assume "ifCall c a b s = Panicked e h"
    then show "h = heap_pod s"
      using assms(2,3) unfolding eq by (auto split: if_splits dest: preservesD_Panicked)
  qed
qed

lemma preserves_boundsCheck: "preserves (boundsCheck i n)"
  by (simp add: preserves_def boundsCheck_def)

lemma preserves_call:
  assumes "\<And>v. readOnlyProc (p v)"
  shows "preserves (call p bind)"
proof -
  have ro: "snd (p (vars s) (heap_pod s)) = heap_pod s" for s :: "'a frame"
    using assms [of "vars s"] by (simp add: readOnlyProc_def)
  show ?thesis
  proof (rule preservesI)
    fix s s' :: "'a frame"
    assume "call p bind s = Normal s'"
    with ro [of s] show "heap_pod s' = heap_pod s"
      by (cases "p (vars s) (heap_pod s)") (auto simp: call_def split: sum.splits)
  next
    fix s :: "'a frame" and e h
    assume "call p bind s = Panicked e h"
    with ro [of s] show "h = heap_pod s"
      by (cases "p (vars s) (heap_pod s)") (auto simp: call_def split: sum.splits)
  qed
qed

lemma preserves_option_case:
  "preserves none \<Longrightarrow> (\<And>x. preserves (some x)) \<Longrightarrow>
   preserves (\<lambda>s. case sel (vars s) of None \<Rightarrow> none s | Some x \<Rightarrow> some x s)"
  by (auto simp: preserves_def split: option.splits)

lemma readOnlyProc_proc: "preserves body \<Longrightarrow> readOnlyProc (proc init body ret)"
proof -
  assume b: "preserves body"
  have "snd (proc init body ret h) = h" for h
  proof (cases "body \<lparr>heap_pod = h, vars = init\<rparr>")
    case (Normal s)
    with b have "heap_pod s = heap_pod \<lparr>heap_pod = h, vars = init\<rparr>"
      by (rule preservesD_Normal)
    with Normal show ?thesis by (simp add: proc_def)
  next
    case (Panicked e h')
    with b have "h' = heap_pod \<lparr>heap_pod = h, vars = init\<rparr>"
      by (rule preservesD_Panicked)
    with Panicked show ?thesis by (simp add: proc_def)
  qed
  then show ?thesis by (simp add: readOnlyProc_def)
qed

lemma findContainer_scan_heap: "heap_pod (findContainer_scan s) = heap_pod s"
proof (induction s rule: findContainer_scan.induct)
  case (1 s)
  show ?case
  proof (cases "b_i (vars s) < length (ps_Containers (pod_Spec (heap_pod s))) \<and>
                \<not> isSparkContainer (ps_Containers (pod_Spec (heap_pod s)) ! b_i (vars s))")
    case True
    then have "findContainer_scan s
                 = findContainer_scan (s\<lparr>vars := (vars s)\<lparr>b_i := b_i (vars s) + 1\<rparr>\<rparr>)"
      by (subst findContainer_scan.simps) (simp add: isSparkContainer_def)
    moreover have "heap_pod (findContainer_scan (s\<lparr>vars := (vars s)\<lparr>b_i := b_i (vars s) + 1\<rparr>\<rparr>))
                     = heap_pod (s\<lparr>vars := (vars s)\<lparr>b_i := b_i (vars s) + 1\<rparr>\<rparr>)"
      using True by (intro "1.IH") (auto simp: isSparkContainer_def)
    ultimately show ?thesis by simp
  next
    case False
    then have "findContainer_scan s = s"
      by (subst findContainer_scan.simps) (auto simp: isSparkContainer_def)
    then show ?thesis by simp
  qed
qed

lemma preserves_scan: "preserves (\<lambda>s. Normal (findContainer_scan s))"
  by (simp add: preserves_def findContainer_scan_heap)

subsection \<open>No function of the file writes through the pointer\<close>

lemmas frame_rules =
  preserves_setVars preserves_skip preserves_block_Nil preserves_block_Cons preserves_forEach preserves_rangeOver
  preserves_ifThenElse preserves_boundsCheck preserves_call
  preserves_scan readOnlyProc_proc

lemma addOwnerReference_readOnly: "readOnlyProc (addOwnerReference_exec ext app)"
  unfolding addOwnerReference_exec_def Let_def
  by (intro frame_rules)

lemma addVolume_readOnly: "readOnlyProc (addVolume_exec volume)"
  unfolding addVolume_exec_def
  by (intro frame_rules)

lemma addToleration_readOnly: "readOnlyProc (addToleration_exec toleration)"
  unfolding addToleration_exec_def
  by (intro frame_rules)

lemma addVolumeMount_readOnly: "readOnlyProc (addVolumeMount_exec mount)"
  unfolding addVolumeMount_exec_def
  by (intro frame_rules)

lemma addEnvironmentVariable_readOnly:
  "readOnlyProc (addEnvironmentVariable_exec envName envValue)"
  unfolding addEnvironmentVariable_exec_def
  by (intro frame_rules)

lemma addConfigMapVolume_readOnly: "readOnlyProc (addConfigMapVolume_exec n vn)"
  unfolding addConfigMapVolume_exec_def Let_def by (rule addVolume_readOnly)

lemma addConfigMapVolumeMount_readOnly: "readOnlyProc (addConfigMapVolumeMount_exec vn mp)"
  unfolding addConfigMapVolumeMount_exec_def Let_def by (rule addVolumeMount_readOnly)

lemma classifiers_readOnlyD:
  "readOnlyClassifiers cls \<Longrightarrow> snd (IsDriverPod_proc cls h) = h"
  "readOnlyClassifiers cls \<Longrightarrow> snd (IsExecutorPod_proc cls h) = h"
  by (simp_all add: readOnlyClassifiers_def)

lemma volumeMount_step_preserves: "preserves (volumeMount_step m)"
  unfolding volumeMount_step_def
  by (rule preserves_option_case [where sel = "\<lambda>vs. o_volumeMap vs (vm_Name m)"])
    (intro frame_rules addVolume_readOnly addVolumeMount_readOnly)+

lemma addVolumes_readOnly:
  assumes "readOnlyClassifiers cls"
  shows "readOnlyProc (addVolumes_exec cls app)"
  unfolding addVolumes_exec_def Let_def volumeMap_step_def
  by (intro frame_rules preserves_ifCall volumeMount_step_preserves
      classifiers_readOnlyD [OF assms])

lemma addSparkConfigMap_readOnly: "readOnlyProc (addSparkConfigMap_exec ext app)"
proof (cases "sas_SparkConfigMap (app_Spec app)")
  case None
  then show ?thesis
    unfolding addSparkConfigMap_exec_def Let_def
    by (simp only: option.case) (intro frame_rules)
next
  case (Some name)
  then show ?thesis
    unfolding addSparkConfigMap_exec_def Let_def
    by (simp only: option.case)
      (intro frame_rules addConfigMapVolume_readOnly addConfigMapVolumeMount_readOnly
        addEnvironmentVariable_readOnly)
qed

lemma addHadoopConfigMap_readOnly: "readOnlyProc (addHadoopConfigMap_exec ext app)"
proof (cases "sas_HadoopConfigMap (app_Spec app)")
  case None
  then show ?thesis
    unfolding addHadoopConfigMap_exec_def Let_def
    by (simp only: option.case) (intro frame_rules)
next
  case (Some name)
  then show ?thesis
    unfolding addHadoopConfigMap_exec_def Let_def
    by (simp only: option.case)
      (intro frame_rules addConfigMapVolume_readOnly addConfigMapVolumeMount_readOnly
        addEnvironmentVariable_readOnly)
qed

lemma addGeneralConfigMaps_readOnly:
  assumes "readOnlyClassifiers cls"
  shows "readOnlyProc (addGeneralConfigMaps_exec cls app)"
  unfolding addGeneralConfigMaps_exec_def configMap_step_def
  by (intro frame_rules preserves_ifCall classifiers_readOnlyD [OF assms]
      addConfigMapVolume_readOnly addConfigMapVolumeMount_readOnly)

lemma addAffinity_readOnly:
  assumes "readOnlyClassifiers cls"
  shows "readOnlyProc (addAffinity_exec cls app)"
  unfolding addAffinity_exec_def
  by (intro frame_rules preserves_ifCall classifiers_readOnlyD [OF assms])

lemma addSecurityContext_readOnly:
  assumes "readOnlyClassifiers cls"
  shows "readOnlyProc (addSecurityContext_exec cls app)"
  unfolding addSecurityContext_exec_def
  by (intro frame_rules preserves_ifCall classifiers_readOnlyD [OF assms])

lemma addTolerations_readOnly:
  assumes "readOnlyClassifiers cls"
  shows "readOnlyProc (addTolerations_exec cls app)"
  unfolding addTolerations_exec_def toleration_step_def
  by (intro frame_rules preserves_ifCall classifiers_readOnlyD [OF assms]
      addToleration_readOnly)

lemma appendIfNotNil_preserves: "preserves appendIfNotNil"
  unfolding appendIfNotNil_def
  by (rule preserves_option_case [where sel = o_op]) (intro frame_rules)+

lemma patchSparkPod_readOnly:
  assumes "readOnlyClassifiers cls"
  shows "readOnlyProc (patchSparkPod_exec cls ext app)"
  unfolding patchSparkPod_exec_def
  by (intro frame_rules preserves_ifCall appendIfNotNil_preserves
      classifiers_readOnlyD [OF assms]
      addOwnerReference_readOnly addVolumes_readOnly [OF assms]
      addGeneralConfigMaps_readOnly [OF assms] addSparkConfigMap_readOnly
      addHadoopConfigMap_readOnly addTolerations_readOnly [OF assms]
      addAffinity_readOnly [OF assms] addSecurityContext_readOnly [OF assms])

subsection \<open>The transcription computes what the functions of the pod compute\<close>

lemmas stmt_defs = proc_def ifThenElse_def setVars_def boundsCheck_def

lemma addOwnerReference_exec_eq:
  "addOwnerReference_exec ext app h = (Inr (addOwnerReference ext h app), h)"
  by (simp add: addOwnerReference_exec_def addOwnerReference_def stmt_defs Let_def)

lemma addVolume_exec_eq: "addVolume_exec volume h = (Inr (addVolume h volume), h)"
  by (simp add: addVolume_exec_def addVolume_def stmt_defs Let_def)

lemma addToleration_exec_eq: "addToleration_exec t h = (Inr (addToleration h t), h)"
  by (simp add: addToleration_exec_def addToleration_def stmt_defs Let_def)

lemma findContainer_scan_eq:
  "findContainer_scan s =
     s\<lparr>vars := (vars s)\<lparr>b_i := findContainer (ps_Containers (pod_Spec (heap_pod s)))
                                 (b_i (vars s))\<rparr>\<rparr>"
proof (induction s rule: findContainer_scan.induct)
  case (1 s)
  let ?cs = "ps_Containers (pod_Spec (heap_pod s))"
  show ?case
  proof (cases "b_i (vars s) < length ?cs \<and> \<not> isSparkContainer (?cs ! b_i (vars s))")
    case True
    let ?s1 = "s\<lparr>vars := (vars s)\<lparr>b_i := b_i (vars s) + 1\<rparr>\<rparr>"
    from True have step: "findContainer_scan s = findContainer_scan ?s1"
      by (subst findContainer_scan.simps) (simp add: isSparkContainer_def)
    from True have fstep: "findContainer ?cs (b_i (vars s)) = findContainer ?cs (b_i (vars s) + 1)"
      by (subst findContainer.simps) (simp add: isSparkContainer_def)
    have "findContainer_scan ?s1 =
            ?s1\<lparr>vars := (vars ?s1)\<lparr>b_i := findContainer (ps_Containers (pod_Spec (heap_pod ?s1)))
                                            (b_i (vars ?s1))\<rparr>\<rparr>"
      using True by (intro "1.IH") (auto simp: isSparkContainer_def)
    with step fstep show ?thesis by simp
  next
    case False
    then have "findContainer_scan s = s"
      by (subst findContainer_scan.simps) (auto simp: isSparkContainer_def)
    moreover from False have "findContainer ?cs (b_i (vars s)) = b_i (vars s)"
      by (subst findContainer.simps) (auto simp: isSparkContainer_def)
    ultimately show ?thesis by simp
  qed
qed

lemma addVolumeMount_exec_eq: "addVolumeMount_exec mount h = (addVolumeMount h mount, h)"
  by (simp add: addVolumeMount_exec_def addVolumeMount_def stmt_defs Let_def
      findContainer_scan_eq)

lemma addEnvironmentVariable_exec_eq:
  "addEnvironmentVariable_exec n v h = (addEnvironmentVariable h n v, h)"
  by (simp add: addEnvironmentVariable_exec_def addEnvironmentVariable_def stmt_defs Let_def
      findContainer_scan_eq)

lemma addConfigMapVolume_exec_eq:
  "addConfigMapVolume_exec n vn h = (Inr (addConfigMapVolume h n vn), h)"
  by (simp add: addConfigMapVolume_exec_def addConfigMapVolume_def addVolume_exec_eq)

lemma addConfigMapVolumeMount_exec_eq:
  "addConfigMapVolumeMount_exec vn mp h = (addConfigMapVolumeMount h vn mp, h)"
  by (simp add: addConfigMapVolumeMount_exec_def addConfigMapVolumeMount_def
      addVolumeMount_exec_eq)

lemma call_readOnly:
  "call p bind s =
     (case p (vars s) (heap_pod s) of
        (Inl e, h) \<Rightarrow> Panicked e h
      | (Inr x, h) \<Rightarrow> Normal \<lparr>heap_pod = h, vars = bind x (vars s)\<rparr>)"
  by (simp add: call_def)

lemmas exec_eqs =
  addOwnerReference_exec_eq addVolume_exec_eq addToleration_exec_eq addVolumeMount_exec_eq
  addEnvironmentVariable_exec_eq addConfigMapVolume_exec_eq addConfigMapVolumeMount_exec_eq

lemma ifCall_classifies:
  assumes "classifies cls ext"
  shows "ifCall (IsDriverPod_proc cls) a b s = (if IsDriverPod ext (heap_pod s) then a s else b s)"
    and "ifCall (IsExecutorPod_proc cls) a b s
           = (if IsExecutorPod ext (heap_pod s) then a s else b s)"
  using assms by (simp_all add: ifCall_def classifies_def)

lemma volumeMap_step_eq:
  "volumeMap_step v s =
     Normal (s\<lparr>vars := (vars s)\<lparr>o_volumeMap := (o_volumeMap (vars s))(vol_Name v \<mapsto> v)\<rparr>\<rparr>)"
  by (simp add: volumeMap_step_def setVars_def)

lemma forEach_volumeMap:
  "forEach volumes volumeMap_step s
   = Normal (s\<lparr>vars := (vars s)\<lparr>o_volumeMap :=
        fold (\<lambda>v volumeMap. volumeMap(vol_Name v \<mapsto> v)) volumes (o_volumeMap (vars s))\<rparr>\<rparr>)"
proof (induction volumes arbitrary: s)
  case Nil
  show ?case by simp
next
  case (Cons v volumes)
  show ?case
    apply (subst forEach.simps)
    apply (subst volumeMap_step_eq)
    apply (simp only: outcome.case)
    apply (subst Cons.IH)
    apply (simp del: fun_upd_apply)
    done
qed

lemma volumeMount_step_eq:
  "volumeMount_step m s =
     (case o_volumeMap (vars s) (vm_Name m) of
        None \<Rightarrow> Normal s
      | Some v \<Rightarrow>
          (case addVolumeMount (heap_pod s) m of
             Inl e \<Rightarrow> Panicked e (heap_pod s)
           | Inr mountOp \<Rightarrow>
               Normal (s\<lparr>vars := (vars s)\<lparr>o_ops :=
                 o_ops (vars s) @ [addVolume (heap_pod s) v] @ [mountOp]\<rparr>\<rparr>)))"
  by (simp add: volumeMount_step_def call_readOnly exec_eqs appendOp_def
      split: option.split sum.split)

lemma forEach_mounts:
  "forEach ms volumeMount_step s
   = (case addVolumes_loop (heap_pod s) (o_volumeMap (vars s)) ms (o_ops (vars s)) of
        Inl e \<Rightarrow> Panicked e (heap_pod s)
      | Inr ops \<Rightarrow> Normal (s\<lparr>vars := (vars s)\<lparr>o_ops := ops\<rparr>\<rparr>))"
proof (induction ms arbitrary: s)
  case Nil
  show ?case by simp
next
  case (Cons m ms)
  show ?case
  proof (cases "o_volumeMap (vars s) (vm_Name m)")
    case None
    show ?thesis
      apply (subst forEach.simps)
      apply (subst volumeMount_step_eq)
      apply (simp only: None option.case outcome.case)
      apply (subst Cons.IH)
      apply (simp add: None split: sum.split)
      done
  next
    case (Some v)
    show ?thesis
    proof (cases "addVolumeMount (heap_pod s) m")
      case (Inl e)
      show ?thesis
        apply (subst forEach.simps)
        apply (subst volumeMount_step_eq)
        apply (simp only: Some Inl option.case sum.case outcome.case)
        apply (simp add: Some Inl)
        done
    next
      case (Inr mountOp)
      show ?thesis
        apply (subst forEach.simps)
        apply (subst volumeMount_step_eq)
        apply (simp only: Some Inr option.case sum.case outcome.case)
        apply (subst Cons.IH)
        apply (simp add: Some Inr split: sum.split)
        done
    qed
  qed
qed

lemma addVolumes_exec_eq:
  assumes "classifies cls ext"
  shows "addVolumes_exec cls app h = (addVolumes ext h app, h)"
  by (simp add: addVolumes_exec_def addVolumes_def volumeMapOf_def Let_def proc_def
      forEach_volumeMap ifCall_classifies [OF assms] setVars_def rangeOver_def forEach_mounts
      split: sum.split)

lemma configMap_step_eq:
  "configMap_step np s =
     (case addConfigMapVolumeMount (heap_pod s) (configMapVolumeName (np_Name np))
             (np_Path np) of
        Inl e \<Rightarrow> Panicked e (heap_pod s)
      | Inr mountOp \<Rightarrow>
          Normal (s\<lparr>vars := (vars s)\<lparr>o_ops :=
                      o_ops (vars s)
                        @ [addConfigMapVolume (heap_pod s) (np_Name np)
                             (configMapVolumeName (np_Name np))]
                        @ [mountOp],
                    o_volumeName := configMapVolumeName (np_Name np)\<rparr>\<rparr>))"
  by (simp add: configMap_step_def setVars_def ifThenElse_def configMapVolumeName_def Let_def
      call_readOnly exec_eqs appendOp_def split: sum.split)

lemma forEach_configMaps:
  "forEach nps configMap_step s
   = (case addGeneralConfigMaps_loop (heap_pod s) nps (o_ops (vars s)) of
        Inl e \<Rightarrow> Panicked e (heap_pod s)
      | Inr ops \<Rightarrow>
          Normal (s\<lparr>vars := (vars s)\<lparr>o_ops := ops,
                     o_volumeName := (if nps = [] then o_volumeName (vars s)
                                      else configMapVolumeName (np_Name (last nps)))\<rparr>\<rparr>))"
proof (induction nps arbitrary: s)
  case Nil
  show ?case by simp
next
  case (Cons np nps)
  show ?case
  proof (cases "addConfigMapVolumeMount (heap_pod s) (configMapVolumeName (np_Name np))
                  (np_Path np)")
    case (Inl e)
    show ?thesis
      apply (subst forEach.simps)
      apply (subst configMap_step_eq)
      apply (simp only: Inl sum.case outcome.case)
      apply (simp add: Inl Let_def)
      done
  next
    case (Inr mountOp)
    show ?thesis
      apply (subst forEach.simps)
      apply (subst configMap_step_eq)
      apply (simp only: Inr sum.case outcome.case)
      apply (subst Cons.IH)
      apply (simp add: Inr Let_def split: sum.split)
      done
  qed
qed

lemma addGeneralConfigMaps_exec_eq:
  assumes "classifies cls ext"
  shows "addGeneralConfigMaps_exec cls app h = (addGeneralConfigMaps ext h app, h)"
  by (simp add: addGeneralConfigMaps_exec_def addGeneralConfigMaps_def Let_def proc_def
      ifCall_classifies [OF assms] setVars_def rangeOver_def forEach_configMaps
      split: sum.split)

lemma toleration_step_eq:
  "toleration_step t s =
     Normal (s\<lparr>vars := (vars s)\<lparr>o_ops := o_ops (vars s) @ [addToleration (heap_pod s) t]\<rparr>\<rparr>)"
  by (simp add: toleration_step_def call_readOnly exec_eqs appendOp_def)

lemma forEach_tolerations:
  "forEach ts toleration_step s
   = Normal (s\<lparr>vars := (vars s)\<lparr>o_ops :=
        addTolerations_loop (heap_pod s) ts (o_ops (vars s))\<rparr>\<rparr>)"
proof (induction ts arbitrary: s)
  case Nil
  show ?case by simp
next
  case (Cons t ts)
  show ?case
    apply (subst forEach.simps)
    apply (subst toleration_step_eq)
    apply (simp only: outcome.case)
    apply (subst Cons.IH)
    apply simp
    done
qed

lemma addTolerations_exec_eq:
  assumes "classifies cls ext"
  shows "addTolerations_exec cls app h = (Inr (addTolerations ext h app), h)"
  by (simp add: addTolerations_exec_def addTolerations_def Let_def proc_def
      ifCall_classifies [OF assms] setVars_def rangeOver_def forEach_tolerations)

lemma addAffinity_exec_eq:
  assumes "classifies cls ext"
  shows "addAffinity_exec cls app h = (Inr (addAffinity ext h app), h)"
  by (simp add: addAffinity_exec_def addAffinity_def Let_def proc_def
      ifCall_classifies [OF assms] setVars_def)

lemma addSecurityContext_exec_eq:
  assumes "classifies cls ext"
  shows "addSecurityContext_exec cls app h = (Inr (addSecurityContext ext h app), h)"
  by (simp add: addSecurityContext_exec_def addSecurityContext_def Let_def proc_def
      ifCall_classifies [OF assms] setVars_def)

lemma addSparkConfigMap_exec_eq:
  "addSparkConfigMap_exec ext app h = (addSparkConfigMap ext h app, h)"
  by (simp add: addSparkConfigMap_exec_def addSparkConfigMap_def Let_def proc_def
      call_readOnly exec_eqs appendOp_def split: option.split sum.split)

lemma addHadoopConfigMap_exec_eq:
  "addHadoopConfigMap_exec ext app h = (addHadoopConfigMap ext h app, h)"
  by (simp add: addHadoopConfigMap_exec_def addHadoopConfigMap_def Let_def proc_def
      call_readOnly exec_eqs appendOp_def split: option.split sum.split)

lemma patchSparkPod_exec_eq:
  assumes "classifies cls ext"
  shows "patchSparkPod_exec cls ext app h = (patchSparkPod ext h app, h)"
proof -
  note eqs = patchSparkPod_exec_def patchSparkPod_def proc_def Let_def
    ifCall_classifies [OF assms] ifThenElse_def call_readOnly setVars_def
    appendOp_def appendOps_def appendIfNotNil_def
    addOwnerReference_exec_eq addVolumes_exec_eq [OF assms]
    addGeneralConfigMaps_exec_eq [OF assms] addSparkConfigMap_exec_eq
    addHadoopConfigMap_exec_eq addTolerations_exec_eq [OF assms]
    addAffinity_exec_eq [OF assms] addSecurityContext_exec_eq [OF assms]
  show ?thesis
  proof (cases "addVolumes ext h app")
    case (Inl e)
    then show ?thesis by (simp add: eqs)
  next
    case v: (Inr volumeOps)
    show ?thesis
    proof (cases "addGeneralConfigMaps ext h app")
      case (Inl e)
      with v show ?thesis by (simp add: eqs)
    next
      case g: (Inr generalOps)
      show ?thesis
      proof (cases "addSparkConfigMap ext h app")
        case (Inl e)
        with v g show ?thesis by (simp add: eqs)
      next
        case s: (Inr sparkOps)
        show ?thesis
        proof (cases "addHadoopConfigMap ext h app")
          case (Inl e)
          with v g s show ?thesis by (simp add: eqs)
        next
          case hd: (Inr hadoopOps)
          show ?thesis
            by (cases "addAffinity ext h app"; cases "addSecurityContext ext h app")
              (simp_all add: eqs v g s hd)
        qed
      qed
    qed
  qed
qed

lemma classifies_answersOf:
  "readOnlyClassifiers cls \<Longrightarrow> classifies cls (answersOf cls ext)"
  by (auto simp: classifies_def readOnlyClassifiers_def answersOf_def
      intro: prod_eqI)

lemma answersOf_constants:
  "GetOwnerReference (answersOf cls ext) = GetOwnerReference ext"
  "SparkConfigMapVolumeName (answersOf cls ext) = SparkConfigMapVolumeName ext"
  "DefaultSparkConfDir (answersOf cls ext) = DefaultSparkConfDir ext"
  "SparkConfDirEnvVar (answersOf cls ext) = SparkConfDirEnvVar ext"
  "HadoopConfigMapVolumeName (answersOf cls ext) = HadoopConfigMapVolumeName ext"
  "DefaultHadoopConfDir (answersOf cls ext) = DefaultHadoopConfDir ext"
  "HadoopConfDirEnvVar (answersOf cls ext) = HadoopConfDirEnvVar ext"
  by (simp_all add: answersOf_def)

lemma exec_answersOf:
  "addOwnerReference_exec (answersOf cls ext) app = addOwnerReference_exec ext app"
  "addSparkConfigMap_exec (answersOf cls ext) app = addSparkConfigMap_exec ext app"
  "addHadoopConfigMap_exec (answersOf cls ext) app = addHadoopConfigMap_exec ext app"
  unfolding addOwnerReference_exec_def addSparkConfigMap_exec_def addHadoopConfigMap_exec_def
    answersOf_constants
  by (rule refl)+

text \<open>
  Claim C9. Patch derivation leaves the pod document unchanged: the pod left behind by a
  call of \<open>patchSparkPod\<close>, whether it returns its operation sequence or panics, is the
  pod it was given, so its owner references, volumes, containers, tolerations, affinity
  and security context are what they were. This is derived from the statements of the
  fourteen functions by the frame rules: none of them assigns through the pointer. The two
  classifiers of \<open>pkg/util\<close> receive the pointer too and are not part of the file; the
  statement holds for all classifiers that leave the pod as it is. With such classifiers
  the transcription returns what \<open>patchSparkPod\<close>, read as a function of the pod,
  returns.
\<close>

theorem patchSparkPod_leaves_pod_unchanged:
  "readOnlyClassifiers cls \<longrightarrow>
     snd (patchSparkPod_exec cls ext app pod) = pod \<and>
     om_OwnerReferences (pod_ObjectMeta (snd (patchSparkPod_exec cls ext app pod)))
       = om_OwnerReferences (pod_ObjectMeta pod) \<and>
     ps_Volumes (pod_Spec (snd (patchSparkPod_exec cls ext app pod)))
       = ps_Volumes (pod_Spec pod) \<and>
     ps_Containers (pod_Spec (snd (patchSparkPod_exec cls ext app pod)))
       = ps_Containers (pod_Spec pod) \<and>
     ps_Tolerations (pod_Spec (snd (patchSparkPod_exec cls ext app pod)))
       = ps_Tolerations (pod_Spec pod) \<and>
     ps_Affinity (pod_Spec (snd (patchSparkPod_exec cls ext app pod)))
       = ps_Affinity (pod_Spec pod) \<and>
     ps_SecurityContext (pod_Spec (snd (patchSparkPod_exec cls ext app pod)))
       = ps_SecurityContext (pod_Spec pod) \<and>
     fst (patchSparkPod_exec cls ext app pod) = patchSparkPod (answersOf cls ext) pod app"
proof
  assume ro: "readOnlyClassifiers cls"
  then have "readOnlyProc (patchSparkPod_exec cls ext app)" by (rule patchSparkPod_readOnly)
  then have frame: "snd (patchSparkPod_exec cls ext app pod) = pod"
    by (simp add: readOnlyProc_def)
  have "patchSparkPod_exec cls (answersOf cls ext) app pod
          = (patchSparkPod (answersOf cls ext) pod app, pod)"
    using classifies_answersOf [OF ro] by (rule patchSparkPod_exec_eq)
  moreover have "patchSparkPod_exec cls (answersOf cls ext) app
                   = patchSparkPod_exec cls ext app"
    by (simp only: patchSparkPod_exec_def exec_answersOf)
  ultimately have res: "fst (patchSparkPod_exec cls ext app pod)
                          = patchSparkPod (answersOf cls ext) pod app"
    by simp
  from frame res show
    "snd (patchSparkPod_exec cls ext app pod) = pod \<and>
     om_OwnerReferences (pod_ObjectMeta (snd (patchSparkPod_exec cls ext app pod)))
       = om_OwnerReferences (pod_ObjectMeta pod) \<and>
     ps_Volumes (pod_Spec (snd (patchSparkPod_exec cls ext app pod)))
       = ps_Volumes (pod_Spec pod) \<and>
     ps_Containers (pod_Spec (snd (patchSparkPod_exec cls ext app pod)))
       = ps_Containers (pod_Spec pod) \<and>
     ps_Tolerations (pod_Spec (snd (patchSparkPod_exec cls ext app pod)))
       = ps_Tolerations (pod_Spec pod) \<and>
     ps_Affinity (pod_Spec (snd (patchSparkPod_exec cls ext app pod)))
       = ps_Affinity (pod_Spec pod) \<and>
     ps_SecurityContext (pod_Spec (snd (patchSparkPod_exec cls ext app pod)))
       = ps_SecurityContext (pod_Spec pod) \<and>
     fst (patchSparkPod_exec cls ext app pod) = patchSparkPod (answersOf cls ext) pod app"
    by simp
qed

theorem patchSparkPod_leaves_pod_unchanged_witness:
  "readOnlyClassifiers exampleClassifiers \<and>
   snd (patchSparkPod_exec exampleClassifiers exampleExt exampleApp freshDriverPod)
     = freshDriverPod \<and>
   snd (patchSparkPod_exec exampleClassifiers exampleExt exampleApp strayDriverPod)
     = strayDriverPod \<and>
   fst (patchSparkPod_exec exampleClassifiers exampleExt exampleApp strayDriverPod)
     = Inl (IndexOutOfRange 1 1)"
proof -
  have ro: "readOnlyClassifiers exampleClassifiers"
    by (simp add: readOnlyClassifiers_def exampleClassifiers_def)
  have ans: "answersOf exampleClassifiers exampleExt = exampleExt"
    by (simp add: answersOf_def exampleClassifiers_def exampleExt_def)
  have panic: "patchSparkPod exampleExt strayDriverPod exampleApp = Inl (IndexOutOfRange 1 1)"
    by (simp add: patcher_defs example_defs findContainer.simps Let_def)
  note fresh = patchSparkPod_leaves_pod_unchanged
                 [of exampleClassifiers exampleExt exampleApp freshDriverPod, rule_format, OF ro]
  note stray = patchSparkPod_leaves_pod_unchanged
                 [of exampleClassifiers exampleExt exampleApp strayDriverPod, rule_format, OF ro]
  from fresh have a: "snd (patchSparkPod_exec exampleClassifiers exampleExt exampleApp
                             freshDriverPod) = freshDriverPod"
    by (rule conjunct1)
  from stray have b: "snd (patchSparkPod_exec exampleClassifiers exampleExt exampleApp
                             strayDriverPod) = strayDriverPod"
    by (rule conjunct1)
  from stray have "fst (patchSparkPod_exec exampleClassifiers exampleExt exampleApp
                          strayDriverPod)
                     = patchSparkPod (answersOf exampleClassifiers exampleExt) strayDriverPod
                         exampleApp"
    by (elim conjE)
  then have c: "fst (patchSparkPod_exec exampleClassifiers exampleExt exampleApp
                       strayDriverPod) = Inl (IndexOutOfRange 1 1)"
    by (simp only: ans panic)
  from ro a b c show ?thesis by (intro conjI)
qed

text \<open>
  The assumption on the classifiers is needed, and a write through the pointer shows in the
  pod a call leaves: with a classifier that clears the labels, the pod left by
  \<open>patchSparkPod\<close> has lost the role label.
\<close>

lemma setHeap_writes: "setHeap g s = Normal s' \<Longrightarrow> heap_pod s' = g (heap_pod s) (vars s)"
  by (auto simp: setHeap_def)

lemma writing_classifier_changes_pod:
  "\<not> readOnlyClassifiers relabellingClassifiers \<and>
   om_Labels (pod_ObjectMeta freshDriverPod) ''spark-role'' = Some ''driver'' \<and>
   om_Labels (pod_ObjectMeta
      (snd (patchSparkPod_exec relabellingClassifiers exampleExt emptyApp freshDriverPod)))
     ''spark-role'' = None"
proof -
  have "snd (IsDriverPod_proc relabellingClassifiers freshDriverPod) \<noteq> freshDriverPod"
  proof
    assume "snd (IsDriverPod_proc relabellingClassifiers freshDriverPod) = freshDriverPod"
    then have "om_Labels (pod_ObjectMeta (clearLabels freshDriverPod)) ''spark-role''
                 = om_Labels (pod_ObjectMeta freshDriverPod) ''spark-role''"
      by (simp add: relabellingClassifiers_def)
    then show False by (simp add: clearLabels_def freshDriverPod_def)
  qed
  then have "\<not> readOnlyClassifiers relabellingClassifiers"
    by (auto simp: readOnlyClassifiers_def)
  moreover have "om_Labels (pod_ObjectMeta freshDriverPod) ''spark-role'' = Some ''driver''"
    by (simp add: freshDriverPod_def)
  moreover have "om_Labels (pod_ObjectMeta
      (snd (patchSparkPod_exec relabellingClassifiers exampleExt emptyApp freshDriverPod)))
     ''spark-role'' = None"
    by (simp add: patchSparkPod_exec_def addOwnerReference_exec_def addVolumes_exec_def
        addGeneralConfigMaps_exec_def addSparkConfigMap_exec_def addHadoopConfigMap_exec_def
        addTolerations_exec_def addAffinity_exec_def addSecurityContext_exec_def
        appendIfNotNil_def appendOp_def appendOps_def proc_def ifCall_def ifThenElse_def
        call_def setVars_def rangeOver_def Let_def relabellingClassifiers_def clearLabels_def
        exampleIsDriverPod_def exampleIsExecutorPod_def exampleExt_def
        exampleGetOwnerReference_def emptyApp_def emptySparkPodSpec_def freshDriverPod_def)
  ultimately show ?thesis by (intro conjI)
qed

end
